theory Spec2Isabelle
  imports Complex_Main
begin

section \<open>Values of the notebook\<close>

text \<open>
  The notebook \<^verbatim>\<open>Feedback Alignment\<close> is a sequence of cells that assign global
  variables holding numpy arrays and Python numbers. The embedding keeps that shape: an
  array is its shape together with its rows, a statement is a function on the record of
  the globals, and an exception is an outcome that keeps the globals as they were when it
  was raised. Arithmetic on \<^verbatim>\<open>float64\<close> is modelled by arithmetic on \<^typ>\<open>real\<close>;
  rounding is part of the model in the sigmoid helper only, where it decides which values
  are reached.
\<close>

text \<open>
  The exceptions of Python, numpy and torch that the notebook can meet, and
  \<open>LibraryError\<close> for whatever a dataset class, a loader or one of its workers raises.
\<close>

datatype error =
  ValueError | IndexError | ZeroDivisionError | RuntimeError | LibraryError nat

text \<open>A two-dimensional \<^verbatim>\<open>ndarray\<close>: \<^verbatim>\<open>shape[0]\<close>, \<^verbatim>\<open>shape[1]\<close> and the rows.\<close>

datatype ndarray = Array (nrows: nat) (ncols: nat) (rows: "real list list")

definition entry :: "ndarray \<Rightarrow> nat \<Rightarrow> nat \<Rightarrow> real" where
  "entry A i j = rows A ! i ! j"

definition mk :: "nat \<Rightarrow> nat \<Rightarrow> (nat \<Rightarrow> nat \<Rightarrow> real) \<Rightarrow> ndarray" where
  "mk r c f = Array r c (map (\<lambda>i. map (\<lambda>j. f i j) [0..<c]) [0..<r])"

text \<open>
  A delta accumulator starts as the Python number \<^verbatim>\<open>0\<close> and becomes an array at the
  first addition of an array.
\<close>

datatype pyval = Num real | Arr ndarray

subsection \<open>Array operations\<close>

text \<open>\<^verbatim>\<open>A.T\<close>\<close>

definition transpose_arr :: "ndarray \<Rightarrow> ndarray" where
  "transpose_arr A = mk (ncols A) (nrows A) (\<lambda>i j. entry A j i)"

text \<open>\<^verbatim>\<open>A @ B\<close>: the inner dimensions must agree, else numpy raises \<^verbatim>\<open>ValueError\<close>.\<close>

definition matmul :: "ndarray \<Rightarrow> ndarray \<Rightarrow> error + ndarray" where
  "matmul A B =
     (if ncols A = nrows B
      then Inr (mk (nrows A) (ncols B)
                  (\<lambda>i j. \<Sum>k\<leftarrow>[0..<ncols A]. entry A i k * entry B k j))
      else Inl ValueError)"

text \<open>
  Broadcasting of the elementwise operators on two-dimensional arrays: two extents are
  compatible when they are equal or one of them is 1, and the extent 1 is stretched.
\<close>

definition bcast_ok :: "nat \<Rightarrow> nat \<Rightarrow> bool" where
  "bcast_ok m n = (m = n \<or> m = 1 \<or> n = 1)"

definition bdim :: "nat \<Rightarrow> nat \<Rightarrow> nat" where
  "bdim m n = (if m = 1 then n else m)"

definition bidx :: "nat \<Rightarrow> nat \<Rightarrow> nat" where
  "bidx m i = (if m = 1 then 0 else i)"

definition elementwise :: "(real \<Rightarrow> real \<Rightarrow> real) \<Rightarrow> ndarray \<Rightarrow> ndarray \<Rightarrow> error + ndarray" where
  "elementwise f A B =
     (if bcast_ok (nrows A) (nrows B) \<and> bcast_ok (ncols A) (ncols B)
      then Inr (mk (bdim (nrows A) (nrows B)) (bdim (ncols A) (ncols B))
                  (\<lambda>i j. f (entry A (bidx (nrows A) i) (bidx (ncols A) j))
                           (entry B (bidx (nrows B) i) (bidx (ncols B) j))))
      else Inl ValueError)"

definition np_add :: "ndarray \<Rightarrow> ndarray \<Rightarrow> error + ndarray" where
  "np_add = elementwise (+)"

definition np_sub :: "ndarray \<Rightarrow> ndarray \<Rightarrow> error + ndarray" where
  "np_sub = elementwise (-)"

definition np_mul :: "ndarray \<Rightarrow> ndarray \<Rightarrow> error + ndarray" where
  "np_mul = elementwise (*)"

text \<open>A function applied to every entry, as \<^verbatim>\<open>np.exp\<close> or a scalar operand does.\<close>

definition map_arr :: "(real \<Rightarrow> real) \<Rightarrow> ndarray \<Rightarrow> ndarray" where
  "map_arr f A = mk (nrows A) (ncols A) (\<lambda>i j. f (entry A i j))"

text \<open>\<^verbatim>\<open>c * v\<close> and \<^verbatim>\<open>v + A\<close>, \<^verbatim>\<open>A + v\<close> where \<open>v\<close> may still be the number 0.\<close>

fun scale :: "real \<Rightarrow> pyval \<Rightarrow> pyval" where
  "scale c (Num v) = Num (c * v)"
| "scale c (Arr A) = Arr (map_arr (\<lambda>v. c * v) A)"

fun acc_add :: "pyval \<Rightarrow> ndarray \<Rightarrow> error + pyval" where
  "acc_add (Num v) A = Inr (Arr (map_arr (\<lambda>w. v + w) A))"
| "acc_add (Arr D) A = (case np_add D A of Inl err \<Rightarrow> Inl err | Inr S \<Rightarrow> Inr (Arr S))"

fun add_val :: "ndarray \<Rightarrow> pyval \<Rightarrow> error + ndarray" where
  "add_val A (Num v) = Inr (map_arr (\<lambda>w. w + v) A)"
| "add_val A (Arr D) = np_add A D"

text \<open>\<^verbatim>\<open>np.linalg.norm(e)\<close>: the Frobenius norm.\<close>

definition sum_entries :: "ndarray \<Rightarrow> real" where
  "sum_entries A = (\<Sum>i\<leftarrow>[0..<nrows A]. \<Sum>j\<leftarrow>[0..<ncols A]. entry A i j)"

definition linalg_norm :: "ndarray \<Rightarrow> real" where
  "linalg_norm A = sqrt (sum_entries (map_arr (\<lambda>v. v * v) A))"

text \<open>\<^verbatim>\<open>0.5 * np.square(np.linalg.norm(e))\<close>\<close>

definition half_sq_norm :: "ndarray \<Rightarrow> real" where
  "half_sq_norm A = 0.5 * (linalg_norm A * linalg_norm A)"

text \<open>Sequencing of expressions that may raise.\<close>

definition bnd :: "error + 'a \<Rightarrow> ('a \<Rightarrow> error + 'b) \<Rightarrow> error + 'b" where
  "bnd r f = (case r of Inl err \<Rightarrow> Inl err | Inr v \<Rightarrow> f v)"

subsection \<open>The sigmoid helper\<close>

text \<open>
  \<^verbatim>\<open>def sigma(x): return 1 / (1 + np.exp(-x))\<close>

  The helper is three \<^verbatim>\<open>float64\<close> operations, each of which rounds its exact result to
  the nearest \<^verbatim>\<open>float64\<close>, ties to the even significand. A \<^verbatim>\<open>float64\<close> has 53
  significant bits: between \<open>2 ^ e\<close> and \<open>2 ^ (e + 1)\<close> the values are \<open>2 ^ (e - 52)\<close>
  apart, below \<open>2 ^ (- 1022)\<close> they are \<open>2 ^ (- 1074)\<close> apart, and a result that rounds to
  \<open>2 ^ 1024\<close> or more is \<open>+inf\<close>. None of the three operations gives a negative number
  or \<open>nan\<close>, so the values are the finite ones and \<open>+inf\<close>.
\<close>

datatype f64 = Finite real | PlusInf

definition round_even :: "real \<Rightarrow> int" where
  "round_even z =
     (let f = \<lfloor>z\<rfloor>; d = z - of_int f in
      if d < 1 / 2 then f
      else if 1 / 2 < d then f + 1
      else if even f then f else f + 1)"

definition ulp_exponent :: "real \<Rightarrow> int" where
  "ulp_exponent x = max \<lfloor>log 2 \<bar>x\<bar>\<rfloor> (- 1022) - 52"

definition round64 :: "real \<Rightarrow> real" where
  "round64 x =
     of_int (round_even (x / 2 powr of_int (ulp_exponent x)))
       * 2 powr of_int (ulp_exponent x)"

definition to_f64 :: "real \<Rightarrow> f64" where
  "to_f64 x = (let r = round64 x in if 2 powr 1024 \<le> r then PlusInf else Finite r)"

text \<open>\<^verbatim>\<open>np.exp(t)\<close>, taken to round the exact exponential.\<close>

definition np_exp :: "real \<Rightarrow> f64" where
  "np_exp x = to_f64 (exp x)"

text \<open>\<^verbatim>\<open>1 + v\<close> and \<^verbatim>\<open>1 / v\<close>; \<^verbatim>\<open>1 / 0.0\<close> is \<open>+inf\<close> with a warning.\<close>

fun one_plus :: "f64 \<Rightarrow> f64" where
  "one_plus (Finite v) = to_f64 (1 + v)"
| "one_plus PlusInf = PlusInf"

fun one_over :: "f64 \<Rightarrow> f64" where
  "one_over (Finite v) = (if v = 0 then PlusInf else to_f64 (1 / v))"
| "one_over PlusInf = Finite 0"

definition sigma_f64 :: "real \<Rightarrow> f64" where
  "sigma_f64 x = one_over (one_plus (np_exp (- x)))"

text \<open>
  The entries of an array are real numbers, and the value of the helper is always finite
  (\<open>sigma_f64_finite\<close> below), so the second equation of \<open>finite_value\<close> is never used.
\<close>

fun finite_value :: "f64 \<Rightarrow> real" where
  "finite_value (Finite v) = v"
| "finite_value PlusInf = 0"

definition sigma :: "real \<Rightarrow> real" where
  "sigma x = finite_value (sigma_f64 x)"

definition sigma_arr :: "ndarray \<Rightarrow> ndarray" where
  "sigma_arr A = map_arr sigma A"

subsection \<open>Random draws\<close>

text \<open>
  The generator is an input of the model: each call of \<^verbatim>\<open>np.random\<close> reads its own
  stream of samples. \<^verbatim>\<open>np.random.uniform(low, high, size)\<close> maps unit samples to
  \<^verbatim>\<open>low + (high - low) * u\<close> and fills the array row by row;
  \<^verbatim>\<open>np.random.randn\<close> fills it with the normal samples themselves.
\<close>

definition random_uniform :: "real \<Rightarrow> real \<Rightarrow> nat \<Rightarrow> nat \<Rightarrow> (nat \<Rightarrow> real) \<Rightarrow> ndarray" where
  "random_uniform low high r c src = mk r c (\<lambda>i j. low + (high - low) * src (i * c + j))"

definition random_uniform1 :: "real \<Rightarrow> real \<Rightarrow> nat \<Rightarrow> (nat \<Rightarrow> real) \<Rightarrow> real list" where
  "random_uniform1 low high n src = map (\<lambda>k. low + (high - low) * src k) [0..<n]"

definition randn :: "nat \<Rightarrow> nat \<Rightarrow> (nat \<Rightarrow> real) \<Rightarrow> ndarray" where
  "randn r c src = mk r c (\<lambda>i j. src (i * c + j))"

subsection \<open>Library functions the notebook calls\<close>

text \<open>
  \<^verbatim>\<open>A[idx]\<close> with an index array: the rows of \<open>A\<close> in the order of \<open>idx\<close>; an index
  out of range raises \<^verbatim>\<open>IndexError\<close>.
\<close>

definition take_rows :: "ndarray \<Rightarrow> nat list \<Rightarrow> error + ndarray" where
  "take_rows A idx =
     (if list_all (\<lambda>k. k < nrows A) idx
      then Inr (mk (length idx) (ncols A) (\<lambda>i j. entry A (idx ! i) j))
      else Inl IndexError)"

text \<open>
  \<^verbatim>\<open>train_test_split(X, Y, test_size=t, shuffle=True)\<close> of scikit-learn, for a float
  \<open>t\<close>: both arrays must have the same number of samples (rows);
  \<^verbatim>\<open>n_test = ceil(t * n_samples)\<close>, \<^verbatim>\<open>n_train = n_samples - n_test\<close>, an empty
  train set is refused; the first \<open>n_test\<close> indices of the drawn permutation are the
  test rows and the next \<open>n_train\<close> the train rows. The permutation is an input.
\<close>

definition train_test_split ::
  "ndarray \<Rightarrow> ndarray \<Rightarrow> real \<Rightarrow> nat list \<Rightarrow> error + (ndarray \<times> ndarray \<times> ndarray \<times> ndarray)" where
  "train_test_split X Y test_size permutation =
     (let n_samples = nrows X in
      if nrows Y \<noteq> n_samples then Inl ValueError
      else
        let n_test = nat \<lceil>test_size * real n_samples\<rceil>;
            n_train = n_samples - n_test;
            ind_test = take n_test permutation;
            ind_train = take n_train (drop n_test permutation)
        in if n_train = 0 then Inl ValueError
           else
             bnd (take_rows X ind_train) (\<lambda>X_train.
             bnd (take_rows X ind_test) (\<lambda>X_test.
             bnd (take_rows Y ind_train) (\<lambda>Y_train.
             bnd (take_rows Y ind_test) (\<lambda>Y_test.
               Inr (X_train, X_test, Y_train, Y_test))))))"

text \<open>\<^verbatim>\<open>ary[:, st:end]\<close>: a slice is clamped to the array.\<close>

definition slice_cols :: "ndarray \<Rightarrow> nat \<Rightarrow> nat \<Rightarrow> ndarray" where
  "slice_cols A st en = mk (nrows A) (min en (ncols A) - st) (\<lambda>i j. entry A i (st + j))"

text \<open>Python's \<^verbatim>\<open>x % y\<close> on floats (\<open>y\<close> not zero) and \<^verbatim>\<open>int(x)\<close>.\<close>

definition py_mod :: "real \<Rightarrow> real \<Rightarrow> real" where
  "py_mod x y = x - y * of_int \<lfloor>x / y\<rfloor>"

definition py_int :: "real \<Rightarrow> int" where
  "py_int x = (if 0 \<le> x then \<lfloor>x\<rfloor> else \<lceil>x\<rceil>)"

fun cumsum :: "nat \<Rightarrow> nat list \<Rightarrow> nat list" where
  "cumsum acc [] = []"
| "cumsum acc (n # ns) = (acc + n) # cumsum (acc + n) ns"

text \<open>
  \<^verbatim>\<open>np.array_split(ary, sections, axis=1)\<close> of numpy for a scalar \<open>sections\<close>:
  \<^verbatim>\<open>Nsections = int(sections)\<close> must be positive; \<^verbatim>\<open>divmod(N, Nsections)\<close> gives the
  section sizes, their running sums the division points.
\<close>

definition array_split :: "ndarray \<Rightarrow> real \<Rightarrow> error + ndarray list" where
  "array_split ary sections =
     (let Ntotal = ncols ary; Nsections = py_int sections in
      if Nsections \<le> 0 then Inl ValueError
      else
        let Neach_section = Ntotal div nat Nsections;
            extras = Ntotal mod nat Nsections;
            section_sizes = [0] @ replicate extras (Neach_section + 1)
                                @ replicate (nat Nsections - extras) Neach_section;
            div_points = cumsum 0 section_sizes
        in Inr (map (\<lambda>i. slice_cols ary (div_points ! i) (div_points ! (i + 1)))
                  [0..<nat Nsections]))"

text \<open>
  \<^verbatim>\<open>np.split(ary, sections, axis=1)\<close> for a scalar \<open>sections\<close>: it raises
  \<^verbatim>\<open>ValueError\<close> when \<^verbatim>\<open>N % sections\<close> is not zero (the modulo itself raises
  \<^verbatim>\<open>ZeroDivisionError\<close> for a zero divisor) and is \<^verbatim>\<open>array_split\<close> otherwise.
\<close>

definition np_split :: "ndarray \<Rightarrow> real \<Rightarrow> error + ndarray list" where
  "np_split ary sections =
     (if sections = 0 then Inl ZeroDivisionError
      else if py_mod (real (ncols ary)) sections \<noteq> 0 then Inl ValueError
      else array_split ary sections)"

text \<open>\<^verbatim>\<open>xs[i]\<close> on a Python list, and \<^verbatim>\<open>x / y\<close>.\<close>

definition list_get :: "'a list \<Rightarrow> nat \<Rightarrow> error + 'a" where
  "list_get xs i = (if i < length xs then Inr (xs ! i) else Inl IndexError)"

definition py_truediv :: "real \<Rightarrow> real \<Rightarrow> error + real" where
  "py_truediv x y = (if y = 0 then Inl ZeroDivisionError else Inr (x / y))"

subsection \<open>Loader batches\<close>

text \<open>
  A batch of a \<^verbatim>\<open>DataLoader\<close>: the image tensor as its flat sequence of entries and
  the label tensor. A dataset is its list of images and labels. Iterating a loader for
  the \<open>n\<close>-th time yields a finite sequence of items, each a batch or the exception a
  worker raised in its place.
\<close>

record batch =
  images :: "real list"
  labels :: "int list"

type_synonym dataset = "(real list \<times> int) list"

type_synonym loader = "nat \<Rightarrow> (error + batch) list"

text \<open>
  \<^verbatim>\<open>t.view(-1, 784).numpy()\<close>: the number of entries must be a positive multiple of
  784, else torch raises \<^verbatim>\<open>RuntimeError\<close>.
\<close>

definition view_784 :: "real list \<Rightarrow> error + ndarray" where
  "view_784 t =
     (if length t mod 784 = 0 \<and> length t \<noteq> 0
      then Inr (mk (length t div 784) 784 (\<lambda>i j. t ! (i * 784 + j)))
      else Inl RuntimeError)"

text \<open>
  \<^verbatim>\<open>np.eye(10)[ls].T\<close>: column \<open>j\<close> is the unit vector of label \<open>ls[j]\<close>; a negative
  index counts from the end, an index outside \<open>-10 .. 9\<close> raises \<^verbatim>\<open>IndexError\<close>.
\<close>

definition one_hot_T :: "int list \<Rightarrow> error + ndarray" where
  "one_hot_T ls =
     (if list_all (\<lambda>l. - 10 \<le> l \<and> l < 10) ls
      then Inr (mk 10 (length ls) (\<lambda>i j. if int i = (ls ! j) mod 10 then 1 else 0))
      else Inl IndexError)"

text \<open>\<^verbatim>\<open>np.ones_like(A)\<close>\<close>

definition ones_like :: "ndarray \<Rightarrow> ndarray" where
  "ones_like A = mk (nrows A) (ncols A) (\<lambda>i j. 1)"

text \<open>
  The two constructors of the libraries that \<^verbatim>\<open>get_loaders\<close> calls are parameters:
  the dataset class (MNIST, or FashionMNIST when the flag is set) for the train or the
  test part, and \<^verbatim>\<open>DataLoader(dataset, batch_size, shuffle, num_workers)\<close>.
\<close>

record torch_env =
  dataset_ctor :: "bool \<Rightarrow> bool \<Rightarrow> error + dataset"
  loader_ctor :: "dataset \<Rightarrow> nat \<Rightarrow> bool \<Rightarrow> nat \<Rightarrow> error + loader"

text \<open>
  \<^verbatim>\<open>def get_loaders(batch_size, fashion=False):
      mnist = torchvision.datasets.MNIST
      if fashion:
          mnist = torchvision.datasets.FashionMNIST
      transform = torchvision.transforms.Compose([torchvision.transforms.ToTensor(),])
      trainloader = th.utils.data.DataLoader(
          mnist(root="./data", train=True, download=True, transform=transform),
          batch_size=batch_size, shuffle=True, num_workers=2)
      testloader = th.utils.data.DataLoader(
          mnist(root="./data", train=False, download=True, transform=transform),
          batch_size=batch_size, shuffle=False, num_workers=2)
      return trainloader, testloader\<close>
\<close>

definition get_loaders :: "torch_env \<Rightarrow> nat \<Rightarrow> bool \<Rightarrow> error + (loader \<times> loader)" where
  "get_loaders env bsize fashion =
     bnd (dataset_ctor env fashion True) (\<lambda>trainset.
     bnd (loader_ctor env trainset bsize True 2) (\<lambda>trainloader.
     bnd (dataset_ctor env fashion False) (\<lambda>testset.
     bnd (loader_ctor env testset bsize False 2) (\<lambda>testloader.
       Inr (trainloader, testloader)))))"

section \<open>Statements and the globals of the notebook\<close>

text \<open>
  A statement either completes with the new globals or raises; the notebook has no
  handler, and the globals stay as they were when the exception was raised.
\<close>

datatype 's outcome = Done 's | Raised error 's

fun state_of :: "'s outcome \<Rightarrow> 's" where
  "state_of (Done s) = s"
| "state_of (Raised err s) = s"

text \<open>\<^verbatim>\<open>v = rhs\<close>: the right-hand side is evaluated first, then the variable is bound.\<close>

definition assign :: "('v \<Rightarrow> 's \<Rightarrow> 's) \<Rightarrow> ('s \<Rightarrow> error + 'v) \<Rightarrow> 's \<Rightarrow> 's outcome" where
  "assign upd rhs s = (case rhs s of Inl err \<Rightarrow> Raised err s | Inr v \<Rightarrow> Done (upd v s))"

definition store :: "('v \<Rightarrow> 's \<Rightarrow> 's) \<Rightarrow> ('s \<Rightarrow> 'v) \<Rightarrow> 's \<Rightarrow> 's outcome" where
  "store upd rhs s = Done (upd (rhs s) s)"

text \<open>A block of statements, one after the other.\<close>

fun run_block :: "('s \<Rightarrow> 's outcome) list \<Rightarrow> 's \<Rightarrow> 's outcome" where
  "run_block [] s = Done s"
| "run_block (stmt # stmts) s =
     (case stmt s of Done s' \<Rightarrow> run_block stmts s' | Raised err s' \<Rightarrow> Raised err s')"

text \<open>\<^verbatim>\<open>for x in xs: body\<close> over a finite sequence.\<close>

fun for_each :: "'a list \<Rightarrow> ('a \<Rightarrow> 's \<Rightarrow> 's outcome) \<Rightarrow> 's \<Rightarrow> 's outcome" where
  "for_each [] body s = Done s"
| "for_each (x # xs) body s =
     (case body x s of Done s' \<Rightarrow> for_each xs body s' | Raised err s' \<Rightarrow> Raised err s')"

text \<open>The same over the items of a loader: an item that is an exception raises it.\<close>

fun for_items :: "(error + 'a) list \<Rightarrow> ('a \<Rightarrow> 's \<Rightarrow> 's outcome) \<Rightarrow> 's \<Rightarrow> 's outcome" where
  "for_items [] body s = Done s"
| "for_items (Inl err # xs) body s = Raised err s"
| "for_items (Inr x # xs) body s =
     (case body x s of Done s' \<Rightarrow> for_items xs body s' | Raised err s' \<Rightarrow> Raised err s')"

definition for_stmt :: "('s \<Rightarrow> 'a list) \<Rightarrow> ('a \<Rightarrow> 's \<Rightarrow> 's outcome) \<Rightarrow> 's \<Rightarrow> 's outcome" where
  "for_stmt iter body s = for_each (iter s) body s"

definition if_stmt :: "('s \<Rightarrow> bool) \<Rightarrow> ('s \<Rightarrow> 's outcome) list \<Rightarrow> 's \<Rightarrow> 's outcome" where
  "if_stmt c stmts s = (if c s then run_block stmts s else Done s)"

text \<open>What \<^verbatim>\<open>print\<close> wrote: the epoch line and the loss line.\<close>

datatype out_line = EpochLine nat | LossLine real

text \<open>
  The global variables. A one-letter name of the notebook, and \<^verbatim>\<open>size\<close>, carry
  the suffix \<open>_v\<close>. In the second loop \<^verbatim>\<open>training_data\<close> and
  \<^verbatim>\<open>training_labels\<close> are first bound to the tensors of the batch, kept here in
  \<open>batch_images\<close> and \<open>batch_labels\<close>, and then rebound to arrays.
  \<open>train_passes\<close> counts how often \<^verbatim>\<open>trainloader\<close> has been iterated.
\<close>

record globals =
  num_inputs :: nat
  T_v :: ndarray
  x_data :: ndarray
  y_data :: ndarray
  a_v :: real
  W0 :: ndarray
  b0 :: "real list"
  W_v :: ndarray
  b_v :: "real list"
  B_v :: ndarray
  x_train :: ndarray
  x_test :: ndarray
  y_train :: ndarray
  y_test :: ndarray
  eta :: real
  num_epochs :: nat
  batch_size :: nat
  num_batches :: real
  x_train_batches :: "ndarray list"
  y_train_batches :: "ndarray list"
  epoch :: nat
  delta_W0 :: pyval
  delta_W :: pyval
  loss :: real
  i_v :: nat
  training_data :: ndarray
  training_labels :: ndarray
  h_v :: ndarray
  y_v :: ndarray
  e_v :: ndarray
  delta_BP :: ndarray
  delta_FA :: ndarray
  test_error :: real
  printed :: "out_line list"
  trainloader :: loader
  testloader :: loader
  train_passes :: nat
  batch_images :: "real list"
  batch_labels :: "int list"
  one_y :: ndarray
  one_h :: ndarray
  size_v :: nat

text \<open>
  The random inputs of an experiment: one stream for each call of \<^verbatim>\<open>np.random\<close>
  and the permutation that \<^verbatim>\<open>train_test_split\<close> draws.
\<close>

record draws =
  T_draws :: "nat \<Rightarrow> real"
  x_draws :: "nat \<Rightarrow> real"
  W0_draws :: "nat \<Rightarrow> real"
  b0_draws :: "nat \<Rightarrow> real"
  W_draws :: "nat \<Rightarrow> real"
  b_draws :: "nat \<Rightarrow> real"
  B_draws :: "nat \<Rightarrow> real"
  split_permutation :: "nat list"

section \<open>The linear experiment\<close>

text \<open>
  \<^verbatim>\<open>num_inputs = 100
  T = np.random.uniform(low=-1.0, high=1.0, size=(10, 30))
  x_data = np.random.randn(30, num_inputs)
  y_data = T @ x_data\<close>
\<close>

definition data_generation :: "draws \<Rightarrow> (globals \<Rightarrow> globals outcome) list" where
  "data_generation d =
     [store (\<lambda>v s. s\<lparr>num_inputs := v\<rparr>) (\<lambda>s. 100),
      store (\<lambda>v s. s\<lparr>T_v := v\<rparr>) (\<lambda>s. random_uniform (- 1) 1 10 30 (T_draws d)),
      store (\<lambda>v s. s\<lparr>x_data := v\<rparr>) (\<lambda>s. randn 30 (num_inputs s) (x_draws d)),
      assign (\<lambda>v s. s\<lparr>y_data := v\<rparr>) (\<lambda>s. matmul (T_v s) (x_data s))]"

text \<open>
  \<^verbatim>\<open>a = 0.01
  W0 = np.random.uniform(-a, a, (20, 30))
  b0 = np.random.uniform(-a, a, 20)
  W = np.random.uniform(-a, a, (10, 20))
  b = np.random.uniform(-a, a, 10)
  a = 0.5
  B = np.random.uniform(-a, a, (20, 10))\<close>
\<close>

definition weights_init :: "draws \<Rightarrow> (globals \<Rightarrow> globals outcome) list" where
  "weights_init d =
     [store (\<lambda>v s. s\<lparr>a_v := v\<rparr>) (\<lambda>s. 0.01),
      store (\<lambda>v s. s\<lparr>W0 := v\<rparr>) (\<lambda>s. random_uniform (- a_v s) (a_v s) 20 30 (W0_draws d)),
      store (\<lambda>v s. s\<lparr>b0 := v\<rparr>) (\<lambda>s. random_uniform1 (- a_v s) (a_v s) 20 (b0_draws d)),
      store (\<lambda>v s. s\<lparr>W_v := v\<rparr>) (\<lambda>s. random_uniform (- a_v s) (a_v s) 10 20 (W_draws d)),
      store (\<lambda>v s. s\<lparr>b_v := v\<rparr>) (\<lambda>s. random_uniform1 (- a_v s) (a_v s) 10 (b_draws d)),
      store (\<lambda>v s. s\<lparr>a_v := v\<rparr>) (\<lambda>s. 0.5),
      store (\<lambda>v s. s\<lparr>B_v := v\<rparr>) (\<lambda>s. random_uniform (- a_v s) (a_v s) 20 10 (B_draws d))]"

text \<open>
  \<^verbatim>\<open>x_train, x_test, y_train, y_test = train_test_split(x_data.T, y_data.T, test_size=0.25, shuffle=True)
  x_train, x_test, y_train, y_test = x_train.T, x_test.T, y_train.T, y_test.T\<close>
\<close>

definition bind_split :: "ndarray \<times> ndarray \<times> ndarray \<times> ndarray \<Rightarrow> globals \<Rightarrow> globals" where
  "bind_split q s =
     (case q of (xtr, xte, ytr, yte) \<Rightarrow>
        s\<lparr>x_train := xtr, x_test := xte, y_train := ytr, y_test := yte\<rparr>)"

definition dataset_preparation :: "draws \<Rightarrow> (globals \<Rightarrow> globals outcome) list" where
  "dataset_preparation d =
     [assign bind_split
        (\<lambda>s. train_test_split (transpose_arr (x_data s)) (transpose_arr (y_data s)) 0.25
               (split_permutation d)),
      store bind_split
        (\<lambda>s. (transpose_arr (x_train s), transpose_arr (x_test s),
               transpose_arr (y_train s), transpose_arr (y_test s)))]"

text \<open>
  \<^verbatim>\<open>eta = 0.1
  num_epochs = 1000
  batch_size = 20
  num_batches = x_train.shape[1] / batch_size\<close>
\<close>

definition hyperparameters :: "(globals \<Rightarrow> globals outcome) list" where
  "hyperparameters =
     [store (\<lambda>v s. s\<lparr>eta := v\<rparr>) (\<lambda>s. 0.1),
      store (\<lambda>v s. s\<lparr>num_epochs := v\<rparr>) (\<lambda>s. 1000),
      store (\<lambda>v s. s\<lparr>batch_size := v\<rparr>) (\<lambda>s. 20),
      assign (\<lambda>v s. s\<lparr>num_batches := v\<rparr>)
        (\<lambda>s. py_truediv (real (ncols (x_train s))) (real (batch_size s)))]"

text \<open>
  \<^verbatim>\<open>x_train_batches, y_train_batches = np.split(x_train, num_batches, axis=1), np.split(y_train, num_batches, axis=1)\<close>
\<close>

definition creating_batches :: "(globals \<Rightarrow> globals outcome) list" where
  "creating_batches =
     [assign (\<lambda>v s. s\<lparr>x_train_batches := fst v, y_train_batches := snd v\<rparr>)
        (\<lambda>s. bnd (np_split (x_train s) (num_batches s)) (\<lambda>xs.
              bnd (np_split (y_train s) (num_batches s)) (\<lambda>ys. Inr (xs, ys))))]"

text \<open>
  The body of the mini-batch loop:
  \<^verbatim>\<open>training_data, training_labels = x_train_batches[i], y_train_batches[i]
  h = W0 @ training_data
  y = W @ h
  e = training_labels - y
  loss += 0.5 * np.square(np.linalg.norm(e))
  delta_BP = W.T @ e
  delta_FA = B @ e
  delta_W = delta_W + e @ h.T
  delta_W0 = delta_W0 + B @ e @ training_data.T\<close>
\<close>

definition linear_batch_body :: "nat \<Rightarrow> (globals \<Rightarrow> globals outcome) list" where
  "linear_batch_body k =
     [store (\<lambda>v s. s\<lparr>i_v := v\<rparr>) (\<lambda>s. k),
      assign (\<lambda>v s. s\<lparr>training_data := fst v, training_labels := snd v\<rparr>)
        (\<lambda>s. bnd (list_get (x_train_batches s) (i_v s)) (\<lambda>xb.
              bnd (list_get (y_train_batches s) (i_v s)) (\<lambda>yb. Inr (xb, yb)))),
      assign (\<lambda>v s. s\<lparr>h_v := v\<rparr>) (\<lambda>s. matmul (W0 s) (training_data s)),
      assign (\<lambda>v s. s\<lparr>y_v := v\<rparr>) (\<lambda>s. matmul (W_v s) (h_v s)),
      assign (\<lambda>v s. s\<lparr>e_v := v\<rparr>) (\<lambda>s. np_sub (training_labels s) (y_v s)),
      store (\<lambda>v s. s\<lparr>loss := v\<rparr>) (\<lambda>s. loss s + half_sq_norm (e_v s)),
      assign (\<lambda>v s. s\<lparr>delta_BP := v\<rparr>) (\<lambda>s. matmul (transpose_arr (W_v s)) (e_v s)),
      assign (\<lambda>v s. s\<lparr>delta_FA := v\<rparr>) (\<lambda>s. matmul (B_v s) (e_v s)),
      assign (\<lambda>v s. s\<lparr>delta_W := v\<rparr>)
        (\<lambda>s. bnd (matmul (e_v s) (transpose_arr (h_v s))) (acc_add (delta_W s))),
      assign (\<lambda>v s. s\<lparr>delta_W0 := v\<rparr>)
        (\<lambda>s. bnd (bnd (matmul (B_v s) (e_v s))
                    (\<lambda>Be. matmul Be (transpose_arr (training_data s))))
                (acc_add (delta_W0 s)))]"

text \<open>
  One epoch:
  \<^verbatim>\<open>delta_W0, delta_W, loss = 0, 0, 0
  for i in range(len(x_train_batches)): ...
  W = W + (eta / (x_train.shape[1])) * delta_W
  W0 = W0 + (eta / (x_train.shape[1])) * delta_W0
  if epoch % 100 == 0:
      print(f"      Epoch {epoch}")
      print(f"      Current loss: {loss}")\<close>
\<close>

definition linear_batch_loop :: "globals \<Rightarrow> globals outcome" where
  "linear_batch_loop =
     for_stmt (\<lambda>s. [0..<length (x_train_batches s)]) (\<lambda>k. run_block (linear_batch_body k))"

definition report :: "(globals \<Rightarrow> globals outcome) list" where
  "report =
     [store (\<lambda>v s. s\<lparr>printed := v\<rparr>) (\<lambda>s. printed s @ [EpochLine (epoch s)]),
      store (\<lambda>v s. s\<lparr>printed := v\<rparr>) (\<lambda>s. printed s @ [LossLine (loss s)])]"

definition linear_epoch_body :: "nat \<Rightarrow> (globals \<Rightarrow> globals outcome) list" where
  "linear_epoch_body n =
     [store (\<lambda>v s. s\<lparr>epoch := v\<rparr>) (\<lambda>s. n),
      store (\<lambda>v s. s\<lparr>delta_W0 := Num 0, delta_W := Num 0, loss := 0\<rparr>) (\<lambda>s. ()),
      linear_batch_loop,
      assign (\<lambda>v s. s\<lparr>W_v := v\<rparr>)
        (\<lambda>s. bnd (py_truediv (eta s) (real (ncols (x_train s))))
               (\<lambda>c. add_val (W_v s) (scale c (delta_W s)))),
      assign (\<lambda>v s. s\<lparr>W0 := v\<rparr>)
        (\<lambda>s. bnd (py_truediv (eta s) (real (ncols (x_train s))))
               (\<lambda>c. add_val (W0 s) (scale c (delta_W0 s)))),
      if_stmt (\<lambda>s. epoch s mod 100 = 0) report]"

text \<open>\<^verbatim>\<open>for epoch in range(num_epochs): ...\<close>\<close>

definition linear_training :: "globals \<Rightarrow> globals outcome" where
  "linear_training =
     for_stmt (\<lambda>s. [0..<num_epochs s]) (\<lambda>n. run_block (linear_epoch_body n))"

text \<open>
  \<^verbatim>\<open>h = W0 @ x_test
  y = W @ h
  e = y_test - y
  test_error = 0.5 * np.square(np.linalg.norm(e))\<close>
\<close>

definition linear_test :: "(globals \<Rightarrow> globals outcome) list" where
  "linear_test =
     [assign (\<lambda>v s. s\<lparr>h_v := v\<rparr>) (\<lambda>s. matmul (W0 s) (x_test s)),
      assign (\<lambda>v s. s\<lparr>y_v := v\<rparr>) (\<lambda>s. matmul (W_v s) (h_v s)),
      assign (\<lambda>v s. s\<lparr>e_v := v\<rparr>) (\<lambda>s. np_sub (y_test s) (y_v s)),
      store (\<lambda>v s. s\<lparr>test_error := v\<rparr>) (\<lambda>s. half_sq_norm (e_v s))]"

text \<open>
  The cells of the linear experiment after the weights, after the data generation, and
  all of them.
\<close>

definition after_weights_init :: "draws \<Rightarrow> (globals \<Rightarrow> globals outcome) list" where
  "after_weights_init d =
     dataset_preparation d @ hyperparameters @ creating_batches @ [linear_training]
       @ linear_test"

definition after_data_generation :: "draws \<Rightarrow> (globals \<Rightarrow> globals outcome) list" where
  "after_data_generation d = weights_init d @ after_weights_init d"

definition linear_experiment :: "draws \<Rightarrow> globals \<Rightarrow> globals outcome" where
  "linear_experiment d = run_block (data_generation d @ after_data_generation d)"

section \<open>The non-linear experiment\<close>

text \<open>
  \<^verbatim>\<open>eta = 0.1
  num_epochs = 1000
  batch_size = 20
  num_batches = (60000) / batch_size\<close>
\<close>

definition nl_hyperparameters :: "(globals \<Rightarrow> globals outcome) list" where
  "nl_hyperparameters =
     [store (\<lambda>v s. s\<lparr>eta := v\<rparr>) (\<lambda>s. 0.1),
      store (\<lambda>v s. s\<lparr>num_epochs := v\<rparr>) (\<lambda>s. 1000),
      store (\<lambda>v s. s\<lparr>batch_size := v\<rparr>) (\<lambda>s. 20),
      assign (\<lambda>v s. s\<lparr>num_batches := v\<rparr>) (\<lambda>s. py_truediv 60000 (real (batch_size s)))]"

text \<open>
  \<^verbatim>\<open>a = 0.1
  W0 = np.random.uniform(-a, a, (1000, 784))
  b0 = np.random.uniform(-a, a, 1000)
  W = np.random.uniform(-a, a, (10, 1000))
  b = np.random.uniform(-a, a, 10)
  a = 0.5
  B = np.random.uniform(-a, a, (1000, 10))\<close>

  The cell that follows computes the singular values of \<open>W0\<close> and plots them; it binds
  only names that nothing else reads and is left out.
\<close>

definition nl_weights_init :: "draws \<Rightarrow> (globals \<Rightarrow> globals outcome) list" where
  "nl_weights_init d =
     [store (\<lambda>v s. s\<lparr>a_v := v\<rparr>) (\<lambda>s. 0.1),
      store (\<lambda>v s. s\<lparr>W0 := v\<rparr>) (\<lambda>s. random_uniform (- a_v s) (a_v s) 1000 784 (W0_draws d)),
      store (\<lambda>v s. s\<lparr>b0 := v\<rparr>) (\<lambda>s. random_uniform1 (- a_v s) (a_v s) 1000 (b0_draws d)),
      store (\<lambda>v s. s\<lparr>W_v := v\<rparr>) (\<lambda>s. random_uniform (- a_v s) (a_v s) 10 1000 (W_draws d)),
      store (\<lambda>v s. s\<lparr>b_v := v\<rparr>) (\<lambda>s. random_uniform1 (- a_v s) (a_v s) 10 (b_draws d)),
      store (\<lambda>v s. s\<lparr>a_v := v\<rparr>) (\<lambda>s. 0.5),
      store (\<lambda>v s. s\<lparr>B_v := v\<rparr>) (\<lambda>s. random_uniform (- a_v s) (a_v s) 1000 10 (B_draws d))]"

text \<open>\<^verbatim>\<open>trainloader, testloader = get_loaders(batch_size)\<close>\<close>

definition nl_dataset_preparation :: "torch_env \<Rightarrow> (globals \<Rightarrow> globals outcome) list" where
  "nl_dataset_preparation env =
     [assign (\<lambda>v s. s\<lparr>trainloader := fst v, testloader := snd v\<rparr>)
        (\<lambda>s. get_loaders env (batch_size s) False)]"

text \<open>
  The body of the loop over the loader:
  \<^verbatim>\<open>training_data, training_labels = training_data.view(-1, 784).numpy(), training_labels.numpy()
  training_labels = np.reshape(training_labels, newshape=-1)
  training_labels = np.eye(10)[training_labels].T
  h = sigma(W0 @ training_data.T)
  y = sigma(W @ h)
  e = training_labels - y
  loss += 0.5 * np.square(np.linalg.norm(e))
  delta_BP = W.T @ e
  delta_FA = B @ e
  one_y, one_h = np.ones_like(y), np.ones_like(h)
  delta_W = delta_W + (e * (y * (one_y - y))) @ h.T
  delta_W0 = delta_W0 + (delta_FA * (h * (one_h - h))) @ training_data
  size += training_data.shape[0]\<close>
\<close>

definition nl_batch_body :: "batch \<Rightarrow> (globals \<Rightarrow> globals outcome) list" where
  "nl_batch_body item =
     [store (\<lambda>v s. s\<lparr>batch_images := fst v, batch_labels := snd v\<rparr>)
        (\<lambda>s. (images item, labels item)),
      assign (\<lambda>v s. s\<lparr>training_data := v\<rparr>) (\<lambda>s. view_784 (batch_images s)),
      assign (\<lambda>v s. s\<lparr>training_labels := v\<rparr>) (\<lambda>s. one_hot_T (batch_labels s)),
      assign (\<lambda>v s. s\<lparr>h_v := v\<rparr>)
        (\<lambda>s. bnd (matmul (W0 s) (transpose_arr (training_data s))) (\<lambda>z. Inr (sigma_arr z))),
      assign (\<lambda>v s. s\<lparr>y_v := v\<rparr>)
        (\<lambda>s. bnd (matmul (W_v s) (h_v s)) (\<lambda>z. Inr (sigma_arr z))),
      assign (\<lambda>v s. s\<lparr>e_v := v\<rparr>) (\<lambda>s. np_sub (training_labels s) (y_v s)),
      store (\<lambda>v s. s\<lparr>loss := v\<rparr>) (\<lambda>s. loss s + half_sq_norm (e_v s)),
      assign (\<lambda>v s. s\<lparr>delta_BP := v\<rparr>) (\<lambda>s. matmul (transpose_arr (W_v s)) (e_v s)),
      assign (\<lambda>v s. s\<lparr>delta_FA := v\<rparr>) (\<lambda>s. matmul (B_v s) (e_v s)),
      store (\<lambda>v s. s\<lparr>one_y := fst v, one_h := snd v\<rparr>)
        (\<lambda>s. (ones_like (y_v s), ones_like (h_v s))),
      assign (\<lambda>v s. s\<lparr>delta_W := v\<rparr>)
        (\<lambda>s. bnd (bnd (bnd (bnd (np_sub (one_y s) (y_v s)) (np_mul (y_v s))) (np_mul (e_v s)))
                    (\<lambda>g. matmul g (transpose_arr (h_v s))))
                (acc_add (delta_W s))),
      assign (\<lambda>v s. s\<lparr>delta_W0 := v\<rparr>)
        (\<lambda>s. bnd (bnd (bnd (bnd (np_sub (one_h s) (h_v s)) (np_mul (h_v s)))
                         (np_mul (delta_FA s)))
                    (\<lambda>g. matmul g (training_data s)))
                (acc_add (delta_W0 s))),
      store (\<lambda>v s. s\<lparr>size_v := v\<rparr>) (\<lambda>s. size_v s + nrows (training_data s))]"

text \<open>
  One epoch:
  \<^verbatim>\<open>delta_W0, delta_W, loss, size = 0, 0, 0, 0
  for training_data, training_labels in tqdm(trainloader, desc=f"      Epoch {epoch}"): ...
  W = W + (eta / size) * delta_W
  W0 = W0 + (eta / size) * delta_W0
  if epoch % 10 == 0:
      print(f"      Epoch {epoch}")
      print(f"      Current loss: {loss}")\<close>
  The progress bar of \<^verbatim>\<open>tqdm\<close> is not part of the model.
\<close>

definition nl_batch_loop :: "globals \<Rightarrow> globals outcome" where
  "nl_batch_loop s =
     for_items (trainloader s (train_passes s)) (\<lambda>item. run_block (nl_batch_body item))
       (s\<lparr>train_passes := train_passes s + 1\<rparr>)"

definition nl_epoch_body :: "nat \<Rightarrow> (globals \<Rightarrow> globals outcome) list" where
  "nl_epoch_body n =
     [store (\<lambda>v s. s\<lparr>epoch := v\<rparr>) (\<lambda>s. n),
      store (\<lambda>v s. s\<lparr>delta_W0 := Num 0, delta_W := Num 0, loss := 0, size_v := 0\<rparr>) (\<lambda>s. ()),
      nl_batch_loop,
      assign (\<lambda>v s. s\<lparr>W_v := v\<rparr>)
        (\<lambda>s. bnd (py_truediv (eta s) (real (size_v s)))
               (\<lambda>c. add_val (W_v s) (scale c (delta_W s)))),
      assign (\<lambda>v s. s\<lparr>W0 := v\<rparr>)
        (\<lambda>s. bnd (py_truediv (eta s) (real (size_v s)))
               (\<lambda>c. add_val (W0 s) (scale c (delta_W0 s)))),
      if_stmt (\<lambda>s. epoch s mod 10 = 0) report]"

definition nl_training :: "globals \<Rightarrow> globals outcome" where
  "nl_training =
     for_stmt (\<lambda>s. [0..<num_epochs s]) (\<lambda>n. run_block (nl_epoch_body n))"

text \<open>The cells of the non-linear experiment after the weights, and all of them.\<close>

definition nl_after_weights_init :: "torch_env \<Rightarrow> (globals \<Rightarrow> globals outcome) list" where
  "nl_after_weights_init env = nl_dataset_preparation env @ [nl_training]"

definition nonlinear_experiment :: "torch_env \<Rightarrow> draws \<Rightarrow> globals \<Rightarrow> globals outcome" where
  "nonlinear_experiment env d =
     run_block (nl_hyperparameters @ nl_weights_init d @ nl_after_weights_init env)"

section \<open>Notions used in the statements\<close>

text \<open>A statement keeps a variable when no run of it changes the variable, raised or not.\<close>

definition keeps :: "('s \<Rightarrow> 'p) \<Rightarrow> ('s \<Rightarrow> 's outcome) \<Rightarrow> bool" where
  "keeps p stmt = (\<forall>s. p (state_of (stmt s)) = p s)"

text \<open>The shape of an array, and of an accumulator once it is an array.\<close>

definition has_shape :: "nat \<Rightarrow> nat \<Rightarrow> ndarray \<Rightarrow> bool" where
  "has_shape r c A = (nrows A = r \<and> ncols A = c)"

fun acc_shape :: "nat \<Rightarrow> nat \<Rightarrow> pyval \<Rightarrow> bool" where
  "acc_shape r c (Num v) = True"
| "acc_shape r c (Arr D) = has_shape r c D"

text \<open>
  The shapes the linear experiment has when its training loop starts: the weights as
  drawn, 75 training columns in three batches of 25, and 25 test columns.
\<close>

definition linear_ready :: "globals \<Rightarrow> bool" where
  "linear_ready s =
     (has_shape 20 30 (W0 s) \<and> has_shape 10 20 (W_v s) \<and> has_shape 20 10 (B_v s)
      \<and> ncols (x_train s) = 75
      \<and> length (x_train_batches s) = 3 \<and> length (y_train_batches s) = 3
      \<and> list_all (has_shape 30 25) (x_train_batches s)
      \<and> list_all (has_shape 10 25) (y_train_batches s)
      \<and> has_shape 30 25 (x_test s) \<and> has_shape 10 25 (y_test s))"

text \<open>
  The globals with the accumulators and the variables bound by the mini-batch loop of the
  linear experiment hidden: two states with the same frame differ in those only.
\<close>

definition loop_frame :: "globals \<Rightarrow> globals" where
  "loop_frame s =
     s\<lparr>i_v := 0, training_data := Array 0 0 [], training_labels := Array 0 0 [],
       h_v := Array 0 0 [], y_v := Array 0 0 [], e_v := Array 0 0 [], loss := 0,
       delta_BP := Array 0 0 [], delta_FA := Array 0 0 [], delta_W := Num 0,
       delta_W0 := Num 0\<rparr>"

text \<open>The error of a batch \<open>x\<close>, \<open>y\<close> at the weights \<open>V0\<close>, \<open>V\<close>: \<^verbatim>\<open>y - V @ (V0 @ x)\<close>.\<close>

definition batch_residual :: "ndarray \<Rightarrow> ndarray \<Rightarrow> ndarray \<Rightarrow> ndarray \<Rightarrow> error + ndarray" where
  "batch_residual V0 V x y = bnd (matmul V0 x) (\<lambda>h. bnd (matmul V h) (\<lambda>z. np_sub y z))"

text \<open>The epochs whose report was printed, in order.\<close>

fun epochs_reported :: "out_line list \<Rightarrow> nat list" where
  "epochs_reported [] = []"
| "epochs_reported (EpochLine n # ls) = n # epochs_reported ls"
| "epochs_reported (LossLine v # ls) = epochs_reported ls"

text \<open>
  What \<^verbatim>\<open>train_test_split\<close> draws for 100 samples is a permutation of \<open>0 .. 99\<close>.
\<close>

definition is_permutation :: "nat \<Rightarrow> nat list \<Rightarrow> bool" where
  "is_permutation n p = (length p = n \<and> list_all (\<lambda>k. k < n) p \<and> distinct p)"

definition valid_draws :: "draws \<Rightarrow> bool" where
  "valid_draws d = is_permutation 100 (split_permutation d)"

text \<open>The cells of the linear experiment up to the batching.\<close>

definition before_training :: "draws \<Rightarrow> (globals \<Rightarrow> globals outcome) list" where
  "before_training d =
     data_generation d @ weights_init d @ dataset_preparation d @ hyperparameters
       @ creating_batches"

text \<open>Concrete inputs: draws with the identity permutation, and globals with nothing bound.\<close>

definition demo_draws :: draws where
  "demo_draws =
     \<lparr>T_draws = (\<lambda>k. 3 / 4), x_draws = (\<lambda>k. 1), W0_draws = (\<lambda>k. 1 / 4),
      b0_draws = (\<lambda>k. 0), W_draws = (\<lambda>k. 3 / 4), b_draws = (\<lambda>k. 0),
      B_draws = (\<lambda>k. 1 / 4), split_permutation = [0..<100]\<rparr>"

definition blank_globals :: globals where
  "blank_globals =
     \<lparr>num_inputs = 0, T_v = Array 0 0 [], x_data = Array 0 0 [], y_data = Array 0 0 [],
      a_v = 0, W0 = Array 0 0 [], b0 = [], W_v = Array 0 0 [], b_v = [], B_v = Array 0 0 [],
      x_train = Array 0 0 [], x_test = Array 0 0 [], y_train = Array 0 0 [],
      y_test = Array 0 0 [], eta = 0, num_epochs = 0, batch_size = 0, num_batches = 0,
      x_train_batches = [], y_train_batches = [], epoch = 0, delta_W0 = Num 0,
      delta_W = Num 0, loss = 0, i_v = 0, training_data = Array 0 0 [],
      training_labels = Array 0 0 [], h_v = Array 0 0 [], y_v = Array 0 0 [],
      e_v = Array 0 0 [], delta_BP = Array 0 0 [], delta_FA = Array 0 0 [], test_error = 0,
      printed = [], trainloader = (\<lambda>n. []), testloader = (\<lambda>n. []), train_passes = 0,
      batch_images = [], batch_labels = [], one_y = Array 0 0 [], one_h = Array 0 0 [],
      size_v = 0\<rparr>"

text \<open>
  \<^verbatim>\<open>np.concatenate(As, axis=1)\<close> for arrays with the same number of rows, used to state
  that the batches together are the training set.
\<close>

definition concat_cols :: "ndarray list \<Rightarrow> ndarray" where
  "concat_cols As =
     (case As of
        [] \<Rightarrow> Array 0 0 []
      | A # _ \<Rightarrow> Array (nrows A) (sum_list (map ncols As))
                   (map (\<lambda>i. concat (map (\<lambda>B. rows B ! i) As)) [0..<nrows A]))"

text \<open>Column \<open>j\<close> of an array, and the product of a matrix with a vector.\<close>

definition column :: "ndarray \<Rightarrow> nat \<Rightarrow> real list" where
  "column A j = map (\<lambda>i. entry A i j) [0..<nrows A]"

definition matvec :: "ndarray \<Rightarrow> real list \<Rightarrow> real list" where
  "matvec A v = map (\<lambda>i. \<Sum>k\<leftarrow>[0..<ncols A]. entry A i k * v ! k) [0..<nrows A]"

text \<open>The arrays of the data set: what training and test read and must not change.\<close>

definition data_of ::
  "globals \<Rightarrow> ndarray \<times> ndarray \<times> ndarray \<times> ndarray \<times> ndarray \<times> ndarray \<times> ndarray
     \<times> ndarray list \<times> ndarray list" where
  "data_of s =
     (T_v s, x_data s, y_data s, x_train s, x_test s, y_train s, y_test s,
      x_train_batches s, y_train_batches s)"

text \<open>
  The shapes of the weights of the non-linear experiment, and a well-formed loader batch
  of \<open>n\<close> images with \<open>n\<close> labels that are digits.
\<close>

definition nl_ready :: "globals \<Rightarrow> bool" where
  "nl_ready s =
     (has_shape 1000 784 (W0 s) \<and> has_shape 10 1000 (W_v s) \<and> has_shape 1000 10 (B_v s))"

definition batch_ok :: "nat \<Rightarrow> batch \<Rightarrow> bool" where
  "batch_ok n item =
     (0 < n \<and> length (images item) = 784 * n \<and> length (labels item) = n
      \<and> list_all (\<lambda>l. 0 \<le> l \<and> l < 10) (labels item))"

definition demo_batch :: batch where
  "demo_batch = \<lparr>images = replicate (784 * 20) (1 / 2), labels = replicate 20 3\<rparr>"

text \<open>The outcome with a function applied to its globals.\<close>

fun lift_globals :: "('s \<Rightarrow> 's) \<Rightarrow> 's outcome \<Rightarrow> 's outcome" where
  "lift_globals f (Done s) = Done (f s)"
| "lift_globals f (Raised err s) = Raised err (f s)"

text \<open>The globals with other bias vectors.\<close>

definition with_biases :: "real list \<Rightarrow> real list \<Rightarrow> globals \<Rightarrow> globals" where
  "with_biases v w s = s\<lparr>b0 := v, b_v := w\<rparr>"

text \<open>
  A statement is blind to the biases when running it with other bias vectors gives the
  same outcome with only the bias vectors replaced.
\<close>

definition blind :: "(globals \<Rightarrow> globals outcome) \<Rightarrow> bool" where
  "blind stmt = (\<forall>s v w. stmt (with_biases v w s) = lift_globals (with_biases v w) (stmt s))"

text \<open>
  Library constructors that fail: the dataset cannot be loaded. And a loader whose worker
  crashes at the first item of every pass.
\<close>

definition failing_env :: torch_env where
  "failing_env =
     \<lparr>dataset_ctor = (\<lambda>fashion train. Inl (LibraryError 1)),
      loader_ctor = (\<lambda>ds bsize shuffle workers. Inr (\<lambda>n. []))\<rparr>"

definition crashing_loader :: loader where
  "crashing_loader = (\<lambda>n. [Inl (LibraryError 2)])"

text \<open>
  The value an accumulator has at an entry: while it is still the number it started as,
  that number at every entry.
\<close>

fun acc_entry :: "pyval \<Rightarrow> nat \<Rightarrow> nat \<Rightarrow> real" where
  "acc_entry (Num v) i j = v"
| "acc_entry (Arr D) i j = entry D i j"

text \<open>
  Entry \<open>(i, m)\<close> of \<open>B @ E\<close> written out: what the error of sample \<open>m\<close> sends to the
  hidden unit \<open>i\<close> through \<open>B\<close>.
\<close>

definition fed_back :: "ndarray \<Rightarrow> ndarray \<Rightarrow> nat \<Rightarrow> nat \<Rightarrow> real" where
  "fed_back B E i m = (\<Sum>l\<leftarrow>[0..<ncols B]. entry B i l * entry E l m)"

text \<open>
  Entry \<open>(i, j)\<close> of what the batch that ended in the state \<open>t\<close> of the linear loop
  contributes to \<open>delta_W\<close> and to \<open>delta_W0\<close>: of \<open>e @ h\<^sup>T\<close> and of \<open>(B @ e) @ x\<^sup>T\<close>,
  written out.
\<close>

definition w_step :: "globals \<Rightarrow> nat \<Rightarrow> nat \<Rightarrow> real" where
  "w_step t i j = (\<Sum>m\<leftarrow>[0..<ncols (e_v t)]. entry (e_v t) i m * entry (h_v t) j m)"

definition w0_step :: "globals \<Rightarrow> nat \<Rightarrow> nat \<Rightarrow> real" where
  "w0_step t i j =
     (\<Sum>m\<leftarrow>[0..<ncols (e_v t)]. fed_back (B_v t) (e_v t) i m * entry (training_data t) j m)"

section \<open>Basic facts about arrays\<close>

lemma nrows_mk [simp]: "nrows (mk r c f) = r"
  by (simp add: mk_def)

lemma ncols_mk [simp]: "ncols (mk r c f) = c"
  by (simp add: mk_def)

lemma entry_mk [simp]: "i < r \<Longrightarrow> j < c \<Longrightarrow> entry (mk r c f) i j = f i j"
  by (simp add: mk_def entry_def)

lemma mk_cong: "(\<And>i j. i < r \<Longrightarrow> j < c \<Longrightarrow> f i j = g i j) \<Longrightarrow> mk r c f = mk r c g"
  by (simp add: mk_def)

section \<open>Control flow\<close>

lemma run_block_append:
  "run_block (xs @ ys) s =
     (case run_block xs s of Done s' \<Rightarrow> run_block ys s' | Raised err s' \<Rightarrow> Raised err s')"
  by (induction xs arbitrary: s) (simp_all split: outcome.splits)

lemma for_each_append:
  "for_each (xs @ ys) body s =
     (case for_each xs body s of Done s' \<Rightarrow> for_each ys body s' | Raised err s' \<Rightarrow> Raised err s')"
  by (induction xs arbitrary: s) (simp_all split: outcome.splits)

section \<open>Variables a statement leaves alone\<close>

lemma keepsI: "(\<And>s. p (state_of (stmt s)) = p s) \<Longrightarrow> keeps p stmt"
  by (simp add: keeps_def)

lemma keepsD: "keeps p stmt \<Longrightarrow> p (state_of (stmt s)) = p s"
  by (simp add: keeps_def)

lemma keeps_assign: "(\<And>v s. p (upd v s) = p s) \<Longrightarrow> keeps p (assign upd rhs)"
  by (simp add: keeps_def assign_def split: sum.splits)

lemma keeps_store: "(\<And>v s. p (upd v s) = p s) \<Longrightarrow> keeps p (store upd rhs)"
  by (simp add: keeps_def store_def)

lemma keeps_run_block: "list_all (keeps p) stmts \<Longrightarrow> keeps p (run_block stmts)"
proof (induction stmts)
  case Nil
  show ?case by (simp add: keeps_def)
next
  case (Cons stmt stmts)
  then have k: "keeps p stmt" and ks: "keeps p (run_block stmts)" by simp_all
  show ?case
  proof (rule keepsI)
    fix s
    show "p (state_of (run_block (stmt # stmts) s)) = p s"
      using keepsD [OF k, of s] keepsD [OF ks]
      by (cases "stmt s") simp_all
  qed
qed

lemma keeps_for_each: "(\<And>x. keeps p (body x)) \<Longrightarrow> keeps p (for_each xs body)"
proof (induction xs)
  case Nil
  show ?case by (simp add: keeps_def)
next
  case (Cons x xs)
  then have k: "keeps p (body x)" and ks: "keeps p (for_each xs body)" by simp_all
  show ?case
  proof (rule keepsI)
    fix s
    show "p (state_of (for_each (x # xs) body s)) = p s"
      using keepsD [OF k, of s] keepsD [OF ks]
      by (cases "body x s") simp_all
  qed
qed

lemma keeps_for_items: "(\<And>x. keeps p (body x)) \<Longrightarrow> keeps p (for_items xs body)"
proof (induction xs)
  case Nil
  show ?case by (simp add: keeps_def)
next
  case (Cons x xs)
  show ?case
  proof (cases x)
    case (Inl err)
    then show ?thesis by (simp add: keeps_def)
  next
    case (Inr item)
    from Cons have k: "keeps p (body item)" and ks: "keeps p (for_items xs body)" by simp_all
    show ?thesis
    proof (rule keepsI)
      fix s
      show "p (state_of (for_items (x # xs) body s)) = p s"
        using keepsD [OF k, of s] keepsD [OF ks] Inr
        by (cases "body item s") simp_all
    qed
  qed
qed

lemma keeps_for_stmt: "(\<And>x. keeps p (body x)) \<Longrightarrow> keeps p (for_stmt iter body)"
  using keeps_for_each [of p body] by (simp add: keeps_def for_stmt_def)

lemma keeps_if_stmt: "list_all (keeps p) stmts \<Longrightarrow> keeps p (if_stmt c stmts)"
  using keeps_run_block [of p stmts] by (simp add: keeps_def if_stmt_def)

lemma keeps_report: "(\<And>v s. p (s\<lparr>printed := v\<rparr>) = p s) \<Longrightarrow> list_all (keeps p) report"
  by (simp add: report_def keeps_store)

subsection \<open>The target matrix\<close>

lemma keeps_T_batch_body: "list_all (keeps T_v) (linear_batch_body k)"
  by (simp add: linear_batch_body_def keeps_assign keeps_store)

lemma keeps_T_epoch_body: "list_all (keeps T_v) (linear_epoch_body n)"
  by (simp add: linear_epoch_body_def linear_batch_loop_def keeps_assign keeps_store
      keeps_for_stmt keeps_run_block keeps_if_stmt keeps_report keeps_T_batch_body)

lemma keeps_T_training: "keeps T_v linear_training"
  by (simp add: linear_training_def keeps_for_stmt keeps_run_block keeps_T_epoch_body)

lemma keeps_T_preparation: "list_all (keeps T_v) (dataset_preparation d)"
  by (simp add: dataset_preparation_def bind_split_def keeps_assign keeps_store
      split: prod.splits)

lemma keeps_T_batches: "list_all (keeps T_v) creating_batches"
  by (simp add: creating_batches_def keeps_assign)

lemma keeps_T_test: "list_all (keeps T_v) linear_test"
  by (simp add: linear_test_def keeps_assign keeps_store)

lemma keeps_T_after: "list_all (keeps T_v) (after_data_generation d)"
  by (simp add: after_data_generation_def after_weights_init_def weights_init_def
      hyperparameters_def keeps_assign keeps_store keeps_T_training keeps_T_preparation
      keeps_T_batches keeps_T_test)

lemma T_after_generation:
  "T_v (state_of (run_block (data_generation d) s)) = random_uniform (- 1) 1 10 30 (T_draws d)"
  by (simp add: data_generation_def store_def assign_def split: sum.splits)

text \<open>
  Claim C4. The target matrix \<open>T\<close> is not changed after its creation: not by the
  train/test split, the batching, any number of epochs of the training loop, the whole
  loop or the test evaluation, whether these complete or raise; at the end of every run
  of the linear experiment it is the array drawn in the data generation.
\<close>

theorem C4_target_matrix_fixed:
  "T_v (state_of (run_block (dataset_preparation d) s)) = T_v s
   \<and> T_v (state_of (run_block creating_batches s)) = T_v s
   \<and> T_v (state_of (for_each [0..<n] (\<lambda>m. run_block (linear_epoch_body m)) s)) = T_v s
   \<and> T_v (state_of (linear_training s)) = T_v s
   \<and> T_v (state_of (run_block linear_test s)) = T_v s
   \<and> T_v (state_of (run_block (after_data_generation d) s)) = T_v s
   \<and> T_v (state_of (linear_experiment d s)) = random_uniform (- 1) 1 10 30 (T_draws d)"
proof -
  have last: "T_v (state_of (linear_experiment d s)) = random_uniform (- 1) 1 10 30 (T_draws d)"
  proof (cases "run_block (data_generation d) s")
    case (Done s')
    then show ?thesis
      using T_after_generation [of d s] keepsD [OF keeps_run_block [OF keeps_T_after], of d s']
      by (simp add: linear_experiment_def run_block_append)
  next
    case (Raised err s')
    then show ?thesis
      using T_after_generation [of d s]
      by (simp add: linear_experiment_def run_block_append)
  qed
  show ?thesis
    using keepsD [OF keeps_run_block [OF keeps_T_preparation]]
      keepsD [OF keeps_run_block [OF keeps_T_batches]]
      keepsD [OF keeps_for_each [of T_v "\<lambda>m. run_block (linear_epoch_body m)"],
        OF keeps_run_block [OF keeps_T_epoch_body]]
      keepsD [OF keeps_T_training]
      keepsD [OF keeps_run_block [OF keeps_T_test]]
      keepsD [OF keeps_run_block [OF keeps_T_after]]
      last
    by simp
qed

section \<open>Shapes of the results of array operations\<close>

lemma has_shape_mk [simp]: "has_shape r c (mk r' c' f) = (r' = r \<and> c' = c)"
  by (simp add: has_shape_def)

lemma matmul_ok:
  "ncols A = nrows B \<Longrightarrow>
   matmul A B = Inr (mk (nrows A) (ncols B) (\<lambda>i j. \<Sum>k\<leftarrow>[0..<ncols A]. entry A i k * entry B k j))"
  by (simp add: matmul_def)

lemma elementwise_same:
  assumes "nrows A = nrows B" "ncols A = ncols B"
  shows "elementwise f A B = Inr (mk (nrows A) (ncols A) (\<lambda>i j. f (entry A i j) (entry B i j)))"
proof -
  have "mk (bdim (nrows A) (nrows B)) (bdim (ncols A) (ncols B))
          (\<lambda>i j. f (entry A (bidx (nrows A) i) (bidx (ncols A) j))
                   (entry B (bidx (nrows B) i) (bidx (ncols B) j)))
        = mk (nrows A) (ncols A) (\<lambda>i j. f (entry A i j) (entry B i j))"
    using assms by (auto simp: bdim_def bidx_def intro!: mk_cong)
  then show ?thesis
    using assms by (simp add: elementwise_def bcast_ok_def)
qed

lemma shape_map_arr [simp]: "nrows (map_arr f A) = nrows A" "ncols (map_arr f A) = ncols A"
  by (simp_all add: map_arr_def)

lemma shape_transpose [simp]: "nrows (transpose_arr A) = ncols A" "ncols (transpose_arr A) = nrows A"
  by (simp_all add: transpose_arr_def)

lemma bnd_Inr [simp]: "bnd (Inr v) f = f v"
  by (simp add: bnd_def)

lemma bnd_Inl [simp]: "bnd (Inl err) f = Inl err"
  by (simp add: bnd_def)

lemma acc_add_ok:
  "acc_shape (nrows A) (ncols A) v \<Longrightarrow>
   \<exists>D. acc_add v A = Inr (Arr D) \<and> has_shape (nrows A) (ncols A) D"
  by (cases v) (simp_all add: np_add_def elementwise_same has_shape_def)

lemma assign_Inr [simp]: "rhs s = Inr v \<Longrightarrow> assign upd rhs s = Done (upd v s)"
  by (simp add: assign_def)

lemma assign_Inl [simp]: "rhs s = Inl err \<Longrightarrow> assign upd rhs s = Raised err s"
  by (simp add: assign_def)

lemma list_get_ok [simp]: "i < length xs \<Longrightarrow> list_get xs i = Inr (xs ! i)"
  by (simp add: list_get_def)

section \<open>Runs of the linear training loop\<close>

lemma batch_body_run:
  assumes "list_get (x_train_batches s) k = Inr xb" "list_get (y_train_batches s) k = Inr yb"
    "matmul (W0 s) xb = Inr H" "matmul (W_v s) H = Inr Y" "np_sub yb Y = Inr E"
    "matmul (transpose_arr (W_v s)) E = Inr BP" "matmul (B_v s) E = Inr FA"
    "matmul E (transpose_arr H) = Inr G" "acc_add (delta_W s) G = Inr DW"
    "matmul FA (transpose_arr xb) = Inr G0" "acc_add (delta_W0 s) G0 = Inr DW0"
  shows "run_block (linear_batch_body k) s =
     Done (s\<lparr>i_v := k, training_data := xb, training_labels := yb, h_v := H, y_v := Y,
              e_v := E, loss := loss s + half_sq_norm E, delta_BP := BP, delta_FA := FA,
              delta_W := DW, delta_W0 := DW0\<rparr>)"
  using assms by (simp add: linear_batch_body_def store_def)

lemma batch_body_inv:
  assumes "run_block (linear_batch_body k) s = Done s'"
  shows "\<exists>xb yb H Y E BP FA G DW G0 DW0.
     list_get (x_train_batches s) k = Inr xb \<and> list_get (y_train_batches s) k = Inr yb
     \<and> matmul (W0 s) xb = Inr H \<and> matmul (W_v s) H = Inr Y \<and> np_sub yb Y = Inr E
     \<and> matmul (transpose_arr (W_v s)) E = Inr BP \<and> matmul (B_v s) E = Inr FA
     \<and> matmul E (transpose_arr H) = Inr G \<and> acc_add (delta_W s) G = Inr DW
     \<and> matmul FA (transpose_arr xb) = Inr G0 \<and> acc_add (delta_W0 s) G0 = Inr DW0
     \<and> s' = s\<lparr>i_v := k, training_data := xb, training_labels := yb, h_v := H, y_v := Y,
              e_v := E, loss := loss s + half_sq_norm E, delta_BP := BP, delta_FA := FA,
              delta_W := DW, delta_W0 := DW0\<rparr>"
  using assms
  by (auto simp: linear_batch_body_def store_def assign_def bnd_def split: sum.splits)

lemma py_mod_75: "py_mod 75 (15 / 4) = 0"
  by (simp add: py_mod_def)

lemma py_int_375: "py_int (15 / 4) = 3"
  by (simp add: py_int_def)

section \<open>The batching and the split\<close>

lemma upt_3: "[0..<3] = [0, 1, 2::nat]"
  by (simp add: eval_nat_numeral)

lemma replicate_3: "replicate 3 x = [x, x, x]"
  by (simp add: eval_nat_numeral)

lemma array_split_75:
  assumes "ncols A = 75"
  shows "array_split A (15 / 4) = Inr [slice_cols A 0 25, slice_cols A 25 50, slice_cols A 50 75]"
proof -
  have d: "(75::nat) div 3 = 25" "(75::nat) mod 3 = 0" "nat 3 = 3" "(3::nat) - 0 = 3"
    by simp_all
  show ?thesis
    unfolding array_split_def Let_def py_int_375 assms d upt_3 replicate_3
    by simp
qed

lemma np_split_75:
  assumes "ncols A = 75"
  shows "np_split A (15 / 4) = Inr [slice_cols A 0 25, slice_cols A 25 50, slice_cols A 50 75]"
  unfolding np_split_def assms
  by (simp add: py_mod_75 array_split_75 [OF assms])

lemma take_rows_ok:
  "list_all (\<lambda>k. k < nrows A) idx \<Longrightarrow>
   take_rows A idx = Inr (mk (length idx) (ncols A) (\<lambda>i j. entry A (idx ! i) j))"
  by (simp add: take_rows_def)

lemma list_all_take_drop: "list_all P p \<Longrightarrow> list_all P (take m (drop n p))"
  by (auto simp: list_all_iff dest!: in_set_takeD in_set_dropD)

lemma list_all_take: "list_all P p \<Longrightarrow> list_all P (take m p)"
  by (auto simp: list_all_iff dest!: in_set_takeD)

lemma take_rows_train:
  assumes "list_all (\<lambda>k. k < 100) p" "nrows X = 100" "length p = 100"
  shows "take_rows X (take 75 (drop 25 p)) = Inr (mk 75 (ncols X) (\<lambda>i j. entry X (p ! (25 + i)) j))"
proof -
  have l: "length (take 75 (drop 25 p)) = 75"
    using assms(3) by simp
  have a: "list_all (\<lambda>k. k < 100) (take 75 (drop 25 p))"
    using assms(1) by (rule list_all_take_drop)
  have m: "mk 75 (ncols X) (\<lambda>i j. entry X (take 75 (drop 25 p) ! i) j)
      = mk 75 (ncols X) (\<lambda>i j. entry X (p ! (25 + i)) j)"
    by (rule mk_cong) (simp add: assms(3))
  have "take_rows X (take 75 (drop 25 p))
      = Inr (mk (length (take 75 (drop 25 p))) (ncols X) (\<lambda>i j. entry X (take 75 (drop 25 p) ! i) j))"
    by (rule take_rows_ok) (simp only: a assms(2))
  then show ?thesis
    by (simp only: l m)
qed

lemma take_rows_test:
  assumes "list_all (\<lambda>k. k < 100) p" "nrows X = 100" "length p = 100"
  shows "take_rows X (take 25 p) = Inr (mk 25 (ncols X) (\<lambda>i j. entry X (p ! i) j))"
proof -
  have l: "length (take 25 p) = 25"
    using assms(3) by simp
  have a: "list_all (\<lambda>k. k < 100) (take 25 p)"
    using assms(1) by (rule list_all_take)
  have m: "mk 25 (ncols X) (\<lambda>i j. entry X (take 25 p ! i) j)
      = mk 25 (ncols X) (\<lambda>i j. entry X (p ! i) j)"
    by (rule mk_cong) simp
  have "take_rows X (take 25 p)
      = Inr (mk (length (take 25 p)) (ncols X) (\<lambda>i j. entry X (take 25 p ! i) j))"
    by (rule take_rows_ok) (simp only: a assms(2))
  then show ?thesis
    by (simp only: l m)
qed

lemma train_test_split_100:
  assumes X: "nrows X = 100" and Y: "nrows Y = 100" and p: "is_permutation 100 p"
  shows "train_test_split X Y 0.25 p =
     Inr (mk 75 (ncols X) (\<lambda>i j. entry X (p ! (25 + i)) j),
          mk 25 (ncols X) (\<lambda>i j. entry X (p ! i) j),
          mk 75 (ncols Y) (\<lambda>i j. entry Y (p ! (25 + i)) j),
          mk 25 (ncols Y) (\<lambda>i j. entry Y (p ! i) j))"
proof -
  from p have len: "length p = 100" and all: "list_all (\<lambda>k. k < 100) p"
    by (simp_all add: is_permutation_def)
  have n: "nat \<lceil>0.25 * real (nrows X)\<rceil> = 25" "nrows X - 25 = 75"
    by (simp_all add: X)
  show ?thesis
    unfolding train_test_split_def Let_def n
    by (simp add: X Y take_rows_train [OF all _ len] take_rows_test [OF all _ len])
qed

section \<open>The cells before the training loop\<close>

lemma shape_random_uniform [simp]:
  "nrows (random_uniform lo hi r c src) = r" "ncols (random_uniform lo hi r c src) = c"
  by (simp_all add: random_uniform_def)

lemma shape_randn [simp]: "nrows (randn r c src) = r" "ncols (randn r c src) = c"
  by (simp_all add: randn_def)

lemma shape_slice_cols [simp]:
  "nrows (slice_cols A st en) = nrows A" "ncols (slice_cols A st en) = min en (ncols A) - st"
  by (simp_all add: slice_cols_def)

lemma data_generation_run:
  "run_block (data_generation d) s =
     Done (s\<lparr>num_inputs := 100,
              T_v := random_uniform (- 1) 1 10 30 (T_draws d),
              x_data := randn 30 100 (x_draws d),
              y_data := mk 10 100 (\<lambda>i j. \<Sum>k\<leftarrow>[0..<30].
                  entry (random_uniform (- 1) 1 10 30 (T_draws d)) i k
                  * entry (randn 30 100 (x_draws d)) k j)\<rparr>)"
  by (simp add: data_generation_def store_def matmul_ok)

lemma weights_init_run:
  "run_block (weights_init d) s =
     Done (s\<lparr>W0 := random_uniform (- 0.01) 0.01 20 30 (W0_draws d),
              b0 := random_uniform1 (- 0.01) 0.01 20 (b0_draws d),
              W_v := random_uniform (- 0.01) 0.01 10 20 (W_draws d),
              b_v := random_uniform1 (- 0.01) 0.01 10 (b_draws d),
              a_v := 0.5,
              B_v := random_uniform (- 0.5) 0.5 20 10 (B_draws d)\<rparr>)"
  by (simp add: weights_init_def store_def)

lemma dataset_preparation_run:
  assumes "ncols (x_data s) = 100" "ncols (y_data s) = 100" "valid_draws d"
  shows "run_block (dataset_preparation d) s =
     Done (s\<lparr>x_train := transpose_arr (mk 75 (nrows (x_data s))
                 (\<lambda>i j. entry (transpose_arr (x_data s)) (split_permutation d ! (25 + i)) j)),
              x_test := transpose_arr (mk 25 (nrows (x_data s))
                 (\<lambda>i j. entry (transpose_arr (x_data s)) (split_permutation d ! i) j)),
              y_train := transpose_arr (mk 75 (nrows (y_data s))
                 (\<lambda>i j. entry (transpose_arr (y_data s)) (split_permutation d ! (25 + i)) j)),
              y_test := transpose_arr (mk 25 (nrows (y_data s))
                 (\<lambda>i j. entry (transpose_arr (y_data s)) (split_permutation d ! i) j))\<rparr>)"
proof -
  have "train_test_split (transpose_arr (x_data s)) (transpose_arr (y_data s)) 0.25
          (split_permutation d) =
     Inr (mk 75 (nrows (x_data s))
            (\<lambda>i j. entry (transpose_arr (x_data s)) (split_permutation d ! (25 + i)) j),
          mk 25 (nrows (x_data s))
            (\<lambda>i j. entry (transpose_arr (x_data s)) (split_permutation d ! i) j),
          mk 75 (nrows (y_data s))
            (\<lambda>i j. entry (transpose_arr (y_data s)) (split_permutation d ! (25 + i)) j),
          mk 25 (nrows (y_data s))
            (\<lambda>i j. entry (transpose_arr (y_data s)) (split_permutation d ! i) j))"
    using train_test_split_100 [of "transpose_arr (x_data s)" "transpose_arr (y_data s)"
        "split_permutation d"] assms
    by (simp add: valid_draws_def)
  then show ?thesis
    by (simp add: dataset_preparation_def store_def bind_split_def)
qed

lemma hyperparameters_run:
  assumes "ncols (x_train s) = 75"
  shows "run_block hyperparameters s =
     Done (s\<lparr>eta := 0.1, num_epochs := 1000, batch_size := 20, num_batches := 15 / 4\<rparr>)"
  using assms by (simp add: hyperparameters_def store_def assign_def py_truediv_def)

lemma creating_batches_run:
  assumes "ncols (x_train s) = 75" "ncols (y_train s) = 75" "num_batches s = 15 / 4"
  shows "run_block creating_batches s =
     Done (s\<lparr>x_train_batches :=
                [slice_cols (x_train s) 0 25, slice_cols (x_train s) 25 50,
                 slice_cols (x_train s) 50 75],
              y_train_batches :=
                [slice_cols (y_train s) 0 25, slice_cols (y_train s) 25 50,
                 slice_cols (y_train s) 50 75]\<rparr>)"
proof -
  have x: "np_split (x_train s) (num_batches s) =
      Inr [slice_cols (x_train s) 0 25, slice_cols (x_train s) 25 50, slice_cols (x_train s) 50 75]"
    unfolding assms(3) by (rule np_split_75 [OF assms(1)])
  have y: "np_split (y_train s) (num_batches s) =
      Inr [slice_cols (y_train s) 0 25, slice_cols (y_train s) 25 50, slice_cols (y_train s) 50 75]"
    unfolding assms(3) by (rule np_split_75 [OF assms(2)])
  show ?thesis
    by (simp add: creating_batches_def assign_def x y)
qed

lemma before_training_run:
  assumes "valid_draws d"
  shows "\<exists>s'. run_block (before_training d) s = Done s'
    \<and> T_v s' = random_uniform (- 1) 1 10 30 (T_draws d)
    \<and> x_data s' = randn 30 100 (x_draws d)
    \<and> y_data s' = mk 10 100 (\<lambda>i j. \<Sum>k\<leftarrow>[0..<30]. entry (T_v s') i k * entry (x_data s') k j)
    \<and> W0 s' = random_uniform (- 0.01) 0.01 20 30 (W0_draws d)
    \<and> W_v s' = random_uniform (- 0.01) 0.01 10 20 (W_draws d)
    \<and> B_v s' = random_uniform (- 0.5) 0.5 20 10 (B_draws d)
    \<and> x_train s' = transpose_arr (mk 75 30
          (\<lambda>i j. entry (transpose_arr (x_data s')) (split_permutation d ! (25 + i)) j))
    \<and> x_test s' = transpose_arr (mk 25 30
          (\<lambda>i j. entry (transpose_arr (x_data s')) (split_permutation d ! i) j))
    \<and> y_train s' = transpose_arr (mk 75 10
          (\<lambda>i j. entry (transpose_arr (y_data s')) (split_permutation d ! (25 + i)) j))
    \<and> y_test s' = transpose_arr (mk 25 10
          (\<lambda>i j. entry (transpose_arr (y_data s')) (split_permutation d ! i) j))
    \<and> eta s' = 0.1 \<and> num_epochs s' = 1000 \<and> batch_size s' = 20 \<and> num_batches s' = 15 / 4
    \<and> x_train_batches s' =
          [slice_cols (x_train s') 0 25, slice_cols (x_train s') 25 50,
           slice_cols (x_train s') 50 75]
    \<and> y_train_batches s' =
          [slice_cols (y_train s') 0 25, slice_cols (y_train s') 25 50,
           slice_cols (y_train s') 50 75]
    \<and> printed s' = printed s"
  using assms
  by (simp add: before_training_def run_block_append data_generation_run weights_init_run
      dataset_preparation_run hyperparameters_run creating_batches_run)

lemma before_training_ready:
  assumes "valid_draws d"
  shows "\<exists>s'. run_block (before_training d) s = Done s' \<and> linear_ready s'
     \<and> num_epochs s' = 1000 \<and> printed s' = printed s"
proof -
  from before_training_run [OF assms, of s] obtain s' where
    r: "run_block (before_training d) s = Done s'"
    and f: "W0 s' = random_uniform (- 0.01) 0.01 20 30 (W0_draws d)"
      "W_v s' = random_uniform (- 0.01) 0.01 10 20 (W_draws d)"
      "B_v s' = random_uniform (- 0.5) 0.5 20 10 (B_draws d)"
      "x_train s' = transpose_arr (mk 75 30
          (\<lambda>i j. entry (transpose_arr (x_data s')) (split_permutation d ! (25 + i)) j))"
      "x_test s' = transpose_arr (mk 25 30
          (\<lambda>i j. entry (transpose_arr (x_data s')) (split_permutation d ! i) j))"
      "y_train s' = transpose_arr (mk 75 10
          (\<lambda>i j. entry (transpose_arr (y_data s')) (split_permutation d ! (25 + i)) j))"
      "y_test s' = transpose_arr (mk 25 10
          (\<lambda>i j. entry (transpose_arr (y_data s')) (split_permutation d ! i) j))"
      "x_train_batches s' =
          [slice_cols (x_train s') 0 25, slice_cols (x_train s') 25 50,
           slice_cols (x_train s') 50 75]"
      "y_train_batches s' =
          [slice_cols (y_train s') 0 25, slice_cols (y_train s') 25 50,
           slice_cols (y_train s') 50 75]"
    and g: "num_epochs s' = 1000" "printed s' = printed s"
    by blast
  have "linear_ready s'"
    unfolding linear_ready_def f(8,9)
    by (simp add: f(1-7) has_shape_def)
  with r g show ?thesis by blast
qed

lemma keeps_frame_batch_body: "list_all (keeps loop_frame) (linear_batch_body k)"
  by (simp add: linear_batch_body_def keeps_assign keeps_store loop_frame_def)

lemma keeps_frame_batch_loop: "keeps loop_frame linear_batch_loop"
  by (simp add: linear_batch_loop_def keeps_for_stmt keeps_run_block keeps_frame_batch_body)

lemma batch_body_ready:
  assumes r: "linear_ready s" and k: "k < 3"
    and a: "acc_shape 10 20 (delta_W s)" "acc_shape 20 30 (delta_W0 s)"
  shows "\<exists>s' E. run_block (linear_batch_body k) s = Done s' \<and> linear_ready s'
           \<and> acc_shape 10 20 (delta_W s') \<and> acc_shape 20 30 (delta_W0 s')
           \<and> i_v s' = k \<and> loop_frame s' = loop_frame s
           \<and> batch_residual (W0 s) (W_v s) (x_train_batches s ! k) (y_train_batches s ! k) = Inr E
           \<and> loss s' = loss s + half_sq_norm E"
proof -
  define xb where "xb = x_train_batches s ! k"
  define yb where "yb = y_train_batches s ! k"
  from r k have xb: "nrows xb = 30" "ncols xb = 25" and yb: "nrows yb = 10" "ncols yb = 25"
    by (simp_all add: linear_ready_def list_all_length has_shape_def xb_def yb_def)
  from r have w: "nrows (W0 s) = 20" "ncols (W0 s) = 30" "nrows (W_v s) = 10" "ncols (W_v s) = 20"
    "nrows (B_v s) = 20" "ncols (B_v s) = 10"
    and l: "length (x_train_batches s) = 3" "length (y_train_batches s) = 3"
    by (simp_all add: linear_ready_def has_shape_def)
  have gx: "list_get (x_train_batches s) k = Inr xb" and gy: "list_get (y_train_batches s) k = Inr yb"
    using k l by (simp_all add: xb_def yb_def)
  obtain H where H: "matmul (W0 s) xb = Inr H" "nrows H = 20" "ncols H = 25"
    using w xb by (simp add: matmul_ok)
  obtain Y where Y: "matmul (W_v s) H = Inr Y" "nrows Y = 10" "ncols Y = 25"
    using w H by (simp add: matmul_ok)
  obtain E where E: "np_sub yb Y = Inr E" "nrows E = 10" "ncols E = 25"
    using yb Y by (simp add: np_sub_def elementwise_same)
  obtain BP where BP: "matmul (transpose_arr (W_v s)) E = Inr BP"
    using w E by (simp add: matmul_ok)
  obtain FA where FA: "matmul (B_v s) E = Inr FA" "nrows FA = 20" "ncols FA = 25"
    using w E by (simp add: matmul_ok)
  obtain G where G: "matmul E (transpose_arr H) = Inr G" "nrows G = 10" "ncols G = 20"
    using E H by (simp add: matmul_ok)
  obtain G0 where G0: "matmul FA (transpose_arr xb) = Inr G0" "nrows G0 = 20" "ncols G0 = 30"
    using FA xb by (simp add: matmul_ok)
  obtain DW where DW: "acc_add (delta_W s) G = Inr (Arr DW)" "has_shape 10 20 DW"
    using acc_add_ok [of G "delta_W s"] a G by auto
  obtain DW0 where DW0: "acc_add (delta_W0 s) G0 = Inr (Arr DW0)" "has_shape 20 30 DW0"
    using acc_add_ok [of G0 "delta_W0 s"] a G0 by auto
  define s' where "s' = s\<lparr>i_v := k, training_data := xb, training_labels := yb, h_v := H,
      y_v := Y, e_v := E, loss := loss s + half_sq_norm E, delta_BP := BP, delta_FA := FA,
      delta_W := Arr DW, delta_W0 := Arr DW0\<rparr>"
  have run: "run_block (linear_batch_body k) s = Done s'"
    unfolding s'_def
    by (rule batch_body_run [OF gx gy H(1) Y(1) E(1) BP FA(1) G(1) DW(1) G0(1) DW0(1)])
  have ready: "linear_ready s'"
    using r by (simp add: linear_ready_def s'_def)
  have res: "batch_residual (W0 s) (W_v s) (x_train_batches s ! k) (y_train_batches s ! k) = Inr E"
    using H(1) Y(1) E(1) by (simp add: batch_residual_def xb_def yb_def)
  have frame: "loop_frame s' = loop_frame s"
    by (simp add: loop_frame_def s'_def)
  have "acc_shape 10 20 (delta_W s')" "acc_shape 20 30 (delta_W0 s')" "i_v s' = k"
    "loss s' = loss s + half_sq_norm E"
    using DW(2) DW0(2) by (simp_all add: s'_def)
  with run ready res frame show ?thesis by blast
qed

lemma for_each_establishes:
  assumes "\<And>x s. x \<in> set xs \<Longrightarrow> P s \<Longrightarrow> \<exists>s'. body x s = Done s' \<and> P s'" and "P s"
  shows "\<exists>s'. for_each xs body s = Done s' \<and> P s'"
  using assms
proof (induction xs arbitrary: s)
  case Nil
  then show ?case by simp
next
  case (Cons x xs)
  from Cons.prems obtain s1 where s1: "body x s = Done s1" "P s1"
    by (meson list.set_intros(1))
  from Cons.IH [OF _ s1(2)] Cons.prems(1) obtain s' where "for_each xs body s1 = Done s'" "P s'"
    by (meson list.set_intros(2))
  with s1 show ?case by simp
qed

lemma frame_fields:
  assumes "loop_frame s' = loop_frame s"
  shows "W_v s' = W_v s" "W0 s' = W0 s" "x_train_batches s' = x_train_batches s"
    "y_train_batches s' = y_train_batches s"
proof -
  from assms have "W_v (loop_frame s') = W_v (loop_frame s)"
    "W0 (loop_frame s') = W0 (loop_frame s)"
    "x_train_batches (loop_frame s') = x_train_batches (loop_frame s)"
    "y_train_batches (loop_frame s') = y_train_batches (loop_frame s)"
    by simp_all
  then show "W_v s' = W_v s" "W0 s' = W0 s" "x_train_batches s' = x_train_batches s"
    "y_train_batches s' = y_train_batches s"
    by (simp_all add: loop_frame_def)
qed

lemma batch_loop_ready:
  assumes r: "linear_ready s" and a: "acc_shape 10 20 (delta_W s)" "acc_shape 20 30 (delta_W0 s)"
  shows "\<exists>s' E0 E1 E2. linear_batch_loop s = Done s' \<and> linear_ready s'
           \<and> acc_shape 10 20 (delta_W s') \<and> acc_shape 20 30 (delta_W0 s') \<and> i_v s' = 2
           \<and> batch_residual (W0 s) (W_v s) (x_train_batches s ! 0) (y_train_batches s ! 0) = Inr E0
           \<and> batch_residual (W0 s) (W_v s) (x_train_batches s ! 1) (y_train_batches s ! 1) = Inr E1
           \<and> batch_residual (W0 s) (W_v s) (x_train_batches s ! 2) (y_train_batches s ! 2) = Inr E2
           \<and> loss s' = loss s + half_sq_norm E0 + half_sq_norm E1 + half_sq_norm E2"
proof -
  have len: "length (x_train_batches s) = 3"
    using r by (simp add: linear_ready_def)
  from batch_body_ready [OF r _ a, of 0] obtain s1 E0 where
    s1: "run_block (linear_batch_body 0) s = Done s1" "linear_ready s1"
      "acc_shape 10 20 (delta_W s1)" "acc_shape 20 30 (delta_W0 s1)"
      "loop_frame s1 = loop_frame s"
      "batch_residual (W0 s) (W_v s) (x_train_batches s ! 0) (y_train_batches s ! 0) = Inr E0"
      "loss s1 = loss s + half_sq_norm E0"
    by auto
  from batch_body_ready [OF s1(2) _ s1(3,4), of 1] obtain s2 E1 where
    s2: "run_block (linear_batch_body 1) s1 = Done s2" "linear_ready s2"
      "acc_shape 10 20 (delta_W s2)" "acc_shape 20 30 (delta_W0 s2)"
      "loop_frame s2 = loop_frame s1"
      "batch_residual (W0 s1) (W_v s1) (x_train_batches s1 ! 1) (y_train_batches s1 ! 1) = Inr E1"
      "loss s2 = loss s1 + half_sq_norm E1"
    by auto
  from batch_body_ready [OF s2(2) _ s2(3,4), of 2] obtain s3 E2 where
    s3: "run_block (linear_batch_body 2) s2 = Done s3" "linear_ready s3"
      "acc_shape 10 20 (delta_W s3)" "acc_shape 20 30 (delta_W0 s3)" "i_v s3 = 2"
      "batch_residual (W0 s2) (W_v s2) (x_train_batches s2 ! 2) (y_train_batches s2 ! 2) = Inr E2"
      "loss s3 = loss s2 + half_sq_norm E2"
    by auto
  note f1 = frame_fields [OF s1(5)]
  have "loop_frame s2 = loop_frame s"
    using s1(5) s2(5) by simp
  note f2 = frame_fields [OF this]
  have run: "linear_batch_loop s = Done s3"
    using s1(1) s2(1) s3(1) by (simp add: linear_batch_loop_def for_stmt_def len upt_3)
  have "loss s3 = loss s + half_sq_norm E0 + half_sq_norm E1 + half_sq_norm E2"
    using s1(7) s2(7) s3(7) by simp
  with run s3(2-5) s1(6) s2(6) [unfolded f1] s3(6) [unfolded f2] show ?thesis
    by blast
qed

lemma batch_loop_frame:
  assumes "linear_batch_loop s = Done s'"
  shows "epoch s' = epoch s" "printed s' = printed s" "eta s' = eta s"
    "x_train s' = x_train s" "W_v s' = W_v s" "W0 s' = W0 s"
proof -
  have "loop_frame s' = loop_frame s"
    using keepsD [OF keeps_frame_batch_loop, of s] assms by simp
  then have "epoch (loop_frame s') = epoch (loop_frame s)"
    "printed (loop_frame s') = printed (loop_frame s)"
    "eta (loop_frame s') = eta (loop_frame s)"
    "x_train (loop_frame s') = x_train (loop_frame s)"
    "W_v (loop_frame s') = W_v (loop_frame s)"
    "W0 (loop_frame s') = W0 (loop_frame s)"
    by simp_all
  then show "epoch s' = epoch s" "printed s' = printed s" "eta s' = eta s"
    "x_train s' = x_train s" "W_v s' = W_v s" "W0 s' = W0 s"
    by (simp_all add: loop_frame_def)
qed

lemma epoch_body_run:
  assumes l: "linear_batch_loop (s\<lparr>epoch := n, delta_W0 := Num 0, delta_W := Num 0, loss := 0\<rparr>)
      = Done s1"
    and c: "py_truediv (eta s) (real (ncols (x_train s))) = Inr c"
    and w: "add_val (W_v s) (scale c (delta_W s1)) = Inr Wn"
    and w0: "add_val (W0 s) (scale c (delta_W0 s1)) = Inr W0n"
  shows "run_block (linear_epoch_body n) s =
     Done (if n mod 100 = 0
           then s1\<lparr>W_v := Wn, W0 := W0n,
                  printed := printed s @ [EpochLine n, LossLine (loss s1)]\<rparr>
           else s1\<lparr>W_v := Wn, W0 := W0n\<rparr>)"
  using assms batch_loop_frame [OF l]
  by (simp add: linear_epoch_body_def store_def assign_def if_stmt_def report_def)

lemma epoch_body_inv:
  assumes "run_block (linear_epoch_body n) s = Done s'"
  shows "\<exists>s1 c Wn W0n.
     linear_batch_loop (s\<lparr>epoch := n, delta_W0 := Num 0, delta_W := Num 0, loss := 0\<rparr>) = Done s1
     \<and> py_truediv (eta s) (real (ncols (x_train s))) = Inr c
     \<and> add_val (W_v s) (scale c (delta_W s1)) = Inr Wn
     \<and> add_val (W0 s) (scale c (delta_W0 s1)) = Inr W0n
     \<and> s' = (if n mod 100 = 0
           then s1\<lparr>W_v := Wn, W0 := W0n,
                  printed := printed s @ [EpochLine n, LossLine (loss s1)]\<rparr>
           else s1\<lparr>W_v := Wn, W0 := W0n\<rparr>)"
proof (cases "linear_batch_loop (s\<lparr>epoch := n, delta_W0 := Num 0, delta_W := Num 0, loss := 0\<rparr>)")
  case (Done s1)
  note f = batch_loop_frame [OF Done]
  show ?thesis
    using assms Done f
    by (auto simp: linear_epoch_body_def store_def assign_def if_stmt_def report_def bnd_def
        split: sum.splits if_splits)
next
  case (Raised err s1)
  then show ?thesis
    using assms by (simp add: linear_epoch_body_def store_def)
qed

lemma half_sq_norm_nonneg: "0 \<le> half_sq_norm A"
  by (simp add: half_sq_norm_def)

lemma add_val_ok:
  assumes "acc_shape (nrows A) (ncols A) v"
  shows "\<exists>S. add_val A (scale c v) = Inr S \<and> nrows S = nrows A \<and> ncols S = ncols A"
  using assms by (cases v) (simp_all add: np_add_def elementwise_same has_shape_def)

lemma epoch_body_ready:
  assumes r: "linear_ready s"
  shows "\<exists>s' E0 E1 E2. run_block (linear_epoch_body n) s = Done s' \<and> linear_ready s'
     \<and> epoch s' = n \<and> i_v s' = 2 \<and> num_epochs s' = num_epochs s
     \<and> printed s' = printed s @ (if n mod 100 = 0 then [EpochLine n, LossLine (loss s')] else [])
     \<and> batch_residual (W0 s) (W_v s) (x_train_batches s ! 0) (y_train_batches s ! 0) = Inr E0
     \<and> batch_residual (W0 s) (W_v s) (x_train_batches s ! 1) (y_train_batches s ! 1) = Inr E1
     \<and> batch_residual (W0 s) (W_v s) (x_train_batches s ! 2) (y_train_batches s ! 2) = Inr E2
     \<and> loss s' = half_sq_norm E0 + half_sq_norm E1 + half_sq_norm E2"
proof -
  define s0 where "s0 = s\<lparr>epoch := n, delta_W0 := Num 0, delta_W := Num 0, loss := 0\<rparr>"
  have r0: "linear_ready s0"
    using r by (simp add: linear_ready_def s0_def)
  from batch_loop_ready [OF r0] obtain s1 E0 E1 E2 where
    s1: "linear_batch_loop s0 = Done s1" "linear_ready s1"
      "acc_shape 10 20 (delta_W s1)" "acc_shape 20 30 (delta_W0 s1)" "i_v s1 = 2"
    and e: "batch_residual (W0 s0) (W_v s0) (x_train_batches s0 ! 0) (y_train_batches s0 ! 0) = Inr E0"
      "batch_residual (W0 s0) (W_v s0) (x_train_batches s0 ! 1) (y_train_batches s0 ! 1) = Inr E1"
      "batch_residual (W0 s0) (W_v s0) (x_train_batches s0 ! 2) (y_train_batches s0 ! 2) = Inr E2"
    and l: "loss s1 = loss s0 + half_sq_norm E0 + half_sq_norm E1 + half_sq_norm E2"
    by (auto simp: s0_def)
  have sh: "nrows (W_v s) = 10" "ncols (W_v s) = 20" "nrows (W0 s) = 20" "ncols (W0 s) = 30"
    "ncols (x_train s) = 75"
    using r by (simp_all add: linear_ready_def has_shape_def)
  have c: "py_truediv (eta s) (real (ncols (x_train s))) = Inr (eta s / 75)"
    by (simp add: py_truediv_def sh)
  obtain Wn where Wn: "add_val (W_v s) (scale (eta s / 75) (delta_W s1)) = Inr Wn"
    "nrows Wn = 10" "ncols Wn = 20"
    using add_val_ok [of "W_v s" "delta_W s1" "eta s / 75"] s1(3) sh by auto
  obtain W0n where W0n: "add_val (W0 s) (scale (eta s / 75) (delta_W0 s1)) = Inr W0n"
    "nrows W0n = 20" "ncols W0n = 30"
    using add_val_ok [of "W0 s" "delta_W0 s1" "eta s / 75"] s1(4) sh by auto
  define s' where "s' = (if n mod 100 = 0
           then s1\<lparr>W_v := Wn, W0 := W0n,
                  printed := printed s @ [EpochLine n, LossLine (loss s1)]\<rparr>
           else s1\<lparr>W_v := Wn, W0 := W0n\<rparr>)"
  have run: "run_block (linear_epoch_body n) s = Done s'"
    unfolding s'_def by (rule epoch_body_run [OF s1(1) [unfolded s0_def] c Wn(1) W0n(1)])
  have k: "keeps num_epochs linear_batch_loop"
    by (simp add: linear_batch_loop_def linear_batch_body_def keeps_for_stmt keeps_run_block
        keeps_assign keeps_store)
  have ne: "num_epochs s1 = num_epochs s"
    using keepsD [OF k, of s0] s1(1) by (simp add: s0_def)
  have f: "epoch s1 = n" "printed s1 = printed s"
    using batch_loop_frame(1,2) [OF s1(1)] by (simp_all add: s0_def)
  have ready: "linear_ready s'"
    using s1(2) Wn(2,3) W0n(2,3) by (simp add: linear_ready_def s'_def has_shape_def)
  have facts: "epoch s' = n" "i_v s' = 2" "num_epochs s' = num_epochs s"
    "printed s' = printed s @ (if n mod 100 = 0 then [EpochLine n, LossLine (loss s')] else [])"
    "loss s' = half_sq_norm E0 + half_sq_norm E1 + half_sq_norm E2"
    using f ne s1(5) l by (simp_all add: s'_def s0_def)
  have e': "batch_residual (W0 s) (W_v s) (x_train_batches s ! 0) (y_train_batches s ! 0) = Inr E0"
    "batch_residual (W0 s) (W_v s) (x_train_batches s ! 1) (y_train_batches s ! 1) = Inr E1"
    "batch_residual (W0 s) (W_v s) (x_train_batches s ! 2) (y_train_batches s ! 2) = Inr E2"
    using e by (simp_all add: s0_def)
  from run ready facts e' show ?thesis by blast
qed

lemma epochs_reported_append [simp]:
  "epochs_reported (xs @ ys) = epochs_reported xs @ epochs_reported ys"
  by (induction xs rule: epochs_reported.induct) simp_all

lemma training_ready:
  assumes "linear_ready s"
  shows "\<exists>s'. for_each [0..<N] (\<lambda>n. run_block (linear_epoch_body n)) s = Done s'
     \<and> linear_ready s' \<and> num_epochs s' = num_epochs s
     \<and> (N = 0 \<or> epoch s' = N - 1 \<and> i_v s' = 2)
     \<and> epochs_reported (printed s')
         = epochs_reported (printed s) @ filter (\<lambda>n. n mod 100 = 0) [0..<N]
     \<and> length (printed s')
         = length (printed s) + 2 * length (filter (\<lambda>n. n mod 100 = 0) [0..<N])"
proof (induction N)
  case 0
  show ?case using assms by simp
next
  case (Suc N)
  then obtain s1 where s1: "for_each [0..<N] (\<lambda>n. run_block (linear_epoch_body n)) s = Done s1"
    "linear_ready s1" "num_epochs s1 = num_epochs s"
    "epochs_reported (printed s1)
         = epochs_reported (printed s) @ filter (\<lambda>n. n mod 100 = 0) [0..<N]"
    "length (printed s1)
         = length (printed s) + 2 * length (filter (\<lambda>n. n mod 100 = 0) [0..<N])"
    by blast
  from epoch_body_ready [OF s1(2), of N] obtain s2 where
    s2: "run_block (linear_epoch_body N) s1 = Done s2" "linear_ready s2"
      "epoch s2 = N" "i_v s2 = 2" "num_epochs s2 = num_epochs s1"
      "printed s2 = printed s1 @ (if N mod 100 = 0 then [EpochLine N, LossLine (loss s2)] else [])"
    by blast
  have run: "for_each [0..<Suc N] (\<lambda>n. run_block (linear_epoch_body n)) s = Done s2"
    using s1(1) s2(1) by (simp add: for_each_append)
  have rep: "epochs_reported (printed s2)
         = epochs_reported (printed s) @ filter (\<lambda>n. n mod 100 = 0) [0..<Suc N]"
    using s1(4) s2(6) by simp
  have len: "length (printed s2)
         = length (printed s) + 2 * length (filter (\<lambda>n. n mod 100 = 0) [0..<Suc N])"
    using s1(5) s2(6) by simp
  show ?case
    using run s2(2,3,4) s2(5) s1(3) rep len by simp
qed

lemma reported_block: "filter (\<lambda>n. n mod 100 = 0) [100 * k..<100 * k + 100] = [100 * k]"
proof -
  have "[100 * k..<100 * k + 100] = (100 * k) # [Suc (100 * k)..<100 * k + 100]"
    by (simp add: upt_conv_Cons)
  moreover have "filter (\<lambda>n. n mod 100 = 0) [Suc (100 * k)..<100 * k + 100] = []"
  proof -
    have "n mod 100 \<noteq> 0" if "Suc (100 * k) \<le> n" "n < 100 * k + 100" for n
      using that by presburger
    then show ?thesis
      by (simp add: filter_empty_conv)
  qed
  ultimately show ?thesis by simp
qed

lemma reported_upto: "filter (\<lambda>n. n mod 100 = 0) [0..<100 * k] = map (\<lambda>j. 100 * j) [0..<k]"
proof (induction k)
  case 0
  show ?case by simp
next
  case (Suc k)
  have "[0..<100 * k + 100] = [0..<100 * k] @ [100 * k..<100 * k + 100]"
    by (rule upt_add_eq_append) simp
  moreover have "100 * Suc k = 100 * k + 100"
    by simp
  ultimately show ?case
    using Suc reported_block [of k] by (simp del: mult_Suc_right)
qed

lemma reported_1000:
  "filter (\<lambda>n. n mod 100 = 0) [0..<1000] = [0, 100, 200, 300, 400, 500, 600, 700, 800, 900::nat]"
proof -
  have "[0..<10] = [0, 1, 2, 3, 4, 5, 6, 7, 8, 9::nat]"
    by code_simp
  then show ?thesis
    using reported_upto [of 10] by simp
qed

section \<open>Termination of the linear experiment and the weight updates\<close>

lemma valid_demo_draws: "valid_draws demo_draws"
  by (simp add: valid_draws_def demo_draws_def is_permutation_def list_all_iff)

lemma linear_test_ready:
  assumes "linear_ready s"
  shows "\<exists>s'. run_block linear_test s = Done s' \<and> epoch s' = epoch s \<and> i_v s' = i_v s
     \<and> num_epochs s' = num_epochs s \<and> printed s' = printed s"
proof -
  from assms have w: "nrows (W0 s) = 20" "ncols (W0 s) = 30" "nrows (W_v s) = 10" "ncols (W_v s) = 20"
    "nrows (x_test s) = 30" "ncols (x_test s) = 25" "nrows (y_test s) = 10" "ncols (y_test s) = 25"
    by (simp_all add: linear_ready_def has_shape_def)
  obtain H where H: "matmul (W0 s) (x_test s) = Inr H" "nrows H = 20" "ncols H = 25"
    using w by (simp add: matmul_ok)
  obtain Y where Y: "matmul (W_v s) H = Inr Y" "nrows Y = 10" "ncols Y = 25"
    using w H by (simp add: matmul_ok)
  obtain E where E: "np_sub (y_test s) Y = Inr E"
    using w Y by (simp add: np_sub_def elementwise_same)
  have "run_block linear_test s =
      Done (s\<lparr>h_v := H, y_v := Y, e_v := E, test_error := half_sq_norm E\<rparr>)"
    using H(1) Y(1) E by (simp add: linear_test_def store_def)
  then show ?thesis by simp
qed

lemma linear_experiment_split:
  "linear_experiment d = run_block (before_training d @ [linear_training] @ linear_test)"
  by (simp add: linear_experiment_def after_data_generation_def after_weights_init_def
      before_training_def)

lemma linear_experiment_completes:
  assumes "valid_draws d"
  shows "\<exists>s'. linear_experiment d s = Done s' \<and> num_epochs s' = 1000 \<and> epoch s' = 999
     \<and> i_v s' = 2
     \<and> epochs_reported (printed s')
         = epochs_reported (printed s) @ [0, 100, 200, 300, 400, 500, 600, 700, 800, 900]
     \<and> length (printed s') = length (printed s) + 20"
proof -
  from before_training_ready [OF assms, of s] obtain s1 where
    s1: "run_block (before_training d) s = Done s1" "linear_ready s1" "num_epochs s1 = 1000"
      "printed s1 = printed s"
    by blast
  from training_ready [OF s1(2), of 1000] obtain s2 where
    s2: "for_each [0..<1000] (\<lambda>n. run_block (linear_epoch_body n)) s1 = Done s2"
      "linear_ready s2" "num_epochs s2 = num_epochs s1" "epoch s2 = 999" "i_v s2 = 2"
      "epochs_reported (printed s2)
         = epochs_reported (printed s1) @ filter (\<lambda>n. n mod 100 = 0) [0..<1000]"
      "length (printed s2)
         = length (printed s1) + 2 * length (filter (\<lambda>n. n mod 100 = 0) [0..<1000])"
    by auto
  have t: "linear_training s1 = Done s2"
    using s2(1) s1(3) by (simp add: linear_training_def for_stmt_def)
  from linear_test_ready [OF s2(2)] obtain s3 where
    s3: "run_block linear_test s2 = Done s3" "epoch s3 = epoch s2" "i_v s3 = i_v s2"
      "num_epochs s3 = num_epochs s2" "printed s3 = printed s2"
    by blast
  have run: "linear_experiment d s = Done s3"
    using s1(1) t s3(1) by (simp add: linear_experiment_split run_block_append)
  show ?thesis
    using run s3(2-5) s2(3-7) s1(3,4) by (simp add: reported_1000)
qed

text \<open>
  Claim C7. The linear experiment terminates: for every permutation drawn by the split
  and every value of the random samples, the run completes without raising; the loop has
  run epochs 0 to 999 (the loop variable ends at 999, the reports are those of epochs
  0, 100, ..., 900, twenty lines in all), each over the three batches (the batch index
  ends at 2), and \<open>num_epochs\<close> is still 1000.
\<close>

theorem C7_linear_experiment_terminates:
  assumes "valid_draws d"
  shows "\<exists>s'. linear_experiment d s = Done s' \<and> num_epochs s' = 1000 \<and> epoch s' = 999
     \<and> i_v s' = 2
     \<and> epochs_reported (printed s')
         = epochs_reported (printed s) @ [0, 100, 200, 300, 400, 500, 600, 700, 800, 900]
     \<and> length (printed s') = length (printed s) + 20"
  using assms by (rule linear_experiment_completes)

theorem C7_witness:
  "valid_draws demo_draws
   \<and> (\<exists>s'. linear_experiment demo_draws blank_globals = Done s' \<and> num_epochs s' = 1000
         \<and> epoch s' = 999 \<and> i_v s' = 2
         \<and> epochs_reported (printed s') = [0, 100, 200, 300, 400, 500, 600, 700, 800, 900]
         \<and> length (printed s') = 20)"
  using C7_linear_experiment_terminates [OF valid_demo_draws, of blank_globals] valid_demo_draws
  by (simp add: blank_globals_def)

subsection \<open>Entries of the accumulated updates\<close>

lemma entry_matmul:
  assumes "matmul A B = Inr C"
  shows "ncols A = nrows B" "nrows C = nrows A" "ncols C = ncols B"
    "\<And>i j. i < nrows A \<Longrightarrow> j < ncols B \<Longrightarrow>
       entry C i j = (\<Sum>k\<leftarrow>[0..<ncols A]. entry A i k * entry B k j)"
  using assms by (auto simp: matmul_def split: if_splits)

lemma entry_transpose:
  "i < ncols A \<Longrightarrow> j < nrows A \<Longrightarrow> entry (transpose_arr A) i j = entry A j i"
  by (simp add: transpose_arr_def)

lemma sum_upt_cong:
  "(\<And>k. k < n \<Longrightarrow> f k = g k) \<Longrightarrow> (\<Sum>k\<leftarrow>[0..<n]. f k) = (\<Sum>k\<leftarrow>[0..<n]. g k :: real)"
  by (rule arg_cong [where f = sum_list]) simp

lemma entry_map_arr:
  "i < nrows A \<Longrightarrow> j < ncols A \<Longrightarrow> entry (map_arr f A) i j = f (entry A i j)"
  by (simp add: map_arr_def)

lemma acc_add_Arr: "acc_add v G = Inr v' \<Longrightarrow> \<exists>D. v' = Arr D"
  by (cases v) (auto split: sum.splits)

lemma acc_add_entries:
  assumes "acc_add v G = Inr (Arr D)" and "acc_shape (nrows G) (ncols G) v"
  shows "has_shape (nrows G) (ncols G) D"
    and "\<And>i j. i < nrows G \<Longrightarrow> j < ncols G \<Longrightarrow> entry D i j = acc_entry v i j + entry G i j"
proof -
  have "has_shape (nrows G) (ncols G) D
      \<and> (\<forall>i<nrows G. \<forall>j<ncols G. entry D i j = acc_entry v i j + entry G i j)"
  proof (cases v)
    case (Num c)
    then show ?thesis
      using assms(1) by (auto simp: has_shape_def entry_map_arr)
  next
    case (Arr D0)
    then have sh: "nrows D0 = nrows G" "ncols D0 = ncols G"
      using assms(2) by (simp_all add: has_shape_def)
    then show ?thesis
      using assms(1) Arr by (auto simp: np_add_def elementwise_same has_shape_def)
  qed
  then show "has_shape (nrows G) (ncols G) D"
    and "\<And>i j. i < nrows G \<Longrightarrow> j < ncols G \<Longrightarrow> entry D i j = acc_entry v i j + entry G i j"
    by blast+
qed

lemma add_val_entries:
  assumes "add_val A (scale c v) = Inr S" and "acc_shape (nrows A) (ncols A) v"
  shows "has_shape (nrows A) (ncols A) S"
    and "\<And>i j. i < nrows A \<Longrightarrow> j < ncols A \<Longrightarrow> entry S i j = entry A i j + c * acc_entry v i j"
proof -
  have "has_shape (nrows A) (ncols A) S
      \<and> (\<forall>i<nrows A. \<forall>j<ncols A. entry S i j = entry A i j + c * acc_entry v i j)"
  proof (cases v)
    case (Num w)
    then show ?thesis
      using assms(1) by (auto simp: has_shape_def entry_map_arr)
  next
    case (Arr D)
    then have sh: "nrows A = nrows (map_arr (\<lambda>v. c * v) D)" "ncols A = ncols (map_arr (\<lambda>v. c * v) D)"
      using assms(2) by (simp_all add: has_shape_def)
    have "S = mk (nrows A) (ncols A)
        (\<lambda>i j. entry A i j + entry (map_arr (\<lambda>v. c * v) D) i j)"
      using assms(1) Arr elementwise_same [OF sh, of "(+)"] by (simp add: np_add_def)
    then show ?thesis
      using sh Arr by (auto simp: has_shape_def entry_map_arr)
  qed
  then show "has_shape (nrows A) (ncols A) S"
    and "\<And>i j. i < nrows A \<Longrightarrow> j < ncols A \<Longrightarrow> entry S i j = entry A i j + c * acc_entry v i j"
    by blast+
qed

lemma matmul_transpose_entries:
  assumes "matmul A (transpose_arr X) = Inr G"
  shows "ncols A = ncols X" "nrows G = nrows A" "ncols G = nrows X"
    "\<And>i j. i < nrows A \<Longrightarrow> j < nrows X \<Longrightarrow>
       entry G i j = (\<Sum>m\<leftarrow>[0..<ncols A]. entry A i m * entry X j m)"
proof -
  note m = entry_matmul [OF assms]
  show c: "ncols A = ncols X" and "nrows G = nrows A" and "ncols G = nrows X"
    using m(1-3) by simp_all
  fix i j
  assume i: "i < nrows A" and j: "j < nrows X"
  have "entry G i j = (\<Sum>k\<leftarrow>[0..<ncols A]. entry A i k * entry (transpose_arr X) k j)"
    using m(4) [of i j] i j by simp
  also have "\<dots> = (\<Sum>m\<leftarrow>[0..<ncols A]. entry A i m * entry X j m)"
    by (rule sum_upt_cong) (simp add: entry_transpose c j)
  finally show "entry G i j = (\<Sum>m\<leftarrow>[0..<ncols A]. entry A i m * entry X j m)" .
qed

text \<open>What a completed batch of the linear loop has added to the accumulators.\<close>

lemma batch_body_steps:
  assumes "run_block (linear_batch_body k) s = Done s'"
  shows "B_v s' = B_v s" "ncols (B_v s) = nrows (e_v s')"
    "ncols (e_v s') = ncols (training_data s')" "ncols (e_v s') = ncols (h_v s')"
    "\<exists>D. delta_W0 s' = Arr D
       \<and> (acc_shape (nrows (B_v s)) (nrows (training_data s')) (delta_W0 s) \<longrightarrow>
            has_shape (nrows (B_v s)) (nrows (training_data s')) D
            \<and> (\<forall>i<nrows (B_v s). \<forall>j<nrows (training_data s').
                 entry D i j = acc_entry (delta_W0 s) i j + w0_step s' i j))"
    "\<exists>D. delta_W s' = Arr D
       \<and> (acc_shape (nrows (e_v s')) (nrows (h_v s')) (delta_W s) \<longrightarrow>
            has_shape (nrows (e_v s')) (nrows (h_v s')) D
            \<and> (\<forall>i<nrows (e_v s'). \<forall>j<nrows (h_v s').
                 entry D i j = acc_entry (delta_W s) i j + w_step s' i j))"
proof -
  from batch_body_inv [OF assms] obtain xb yb H Y E BP FA G DW G0 DW0 where
    fa: "matmul (B_v s) E = Inr FA"
    and g: "matmul E (transpose_arr H) = Inr G" "acc_add (delta_W s) G = Inr DW"
    and g0: "matmul FA (transpose_arr xb) = Inr G0" "acc_add (delta_W0 s) G0 = Inr DW0"
    and s': "s' = s\<lparr>i_v := k, training_data := xb, training_labels := yb, h_v := H, y_v := Y,
              e_v := E, loss := loss s + half_sq_norm E, delta_BP := BP, delta_FA := FA,
              delta_W := DW, delta_W0 := DW0\<rparr>"
    by blast
  have f: "B_v s' = B_v s" "e_v s' = E" "training_data s' = xb" "h_v s' = H"
    "delta_W s' = DW" "delta_W0 s' = DW0"
    by (simp_all add: s')
  note mf = entry_matmul [OF fa]
  note m0 = matmul_transpose_entries [OF g0(1)]
  note m1 = matmul_transpose_entries [OF g(1)]
  show "B_v s' = B_v s" by (rule f(1))
  show "ncols (B_v s) = nrows (e_v s')" using mf(1) by (simp add: f)
  show "ncols (e_v s') = ncols (training_data s')" using m0(1) mf(3) by (simp add: f)
  show "ncols (e_v s') = ncols (h_v s')" using m1(1) by (simp add: f)
  from acc_add_Arr [OF g0(2)] obtain D0 where D0: "DW0 = Arr D0" by blast
  from acc_add_Arr [OF g(2)] obtain D where D: "DW = Arr D" by blast
  have e0: "entry G0 i j = w0_step s' i j" if "i < nrows (B_v s)" "j < nrows xb" for i j
  proof -
    have "entry G0 i j = (\<Sum>m\<leftarrow>[0..<ncols FA]. entry FA i m * entry xb j m)"
      using m0(4) [of i j] that mf(2) by simp
    also have "\<dots> = (\<Sum>m\<leftarrow>[0..<ncols E]. fed_back (B_v s) E i m * entry xb j m)"
      unfolding mf(3)
      by (rule sum_upt_cong) (simp add: mf(4) that(1) fed_back_def)
    finally show ?thesis
      by (simp add: w0_step_def f)
  qed
  have e1: "entry G i j = w_step s' i j" if "i < nrows E" "j < nrows H" for i j
    using m1(4) [of i j] that by (simp add: w_step_def f)
  show "\<exists>D. delta_W0 s' = Arr D
       \<and> (acc_shape (nrows (B_v s)) (nrows (training_data s')) (delta_W0 s) \<longrightarrow>
            has_shape (nrows (B_v s)) (nrows (training_data s')) D
            \<and> (\<forall>i<nrows (B_v s). \<forall>j<nrows (training_data s').
                 entry D i j = acc_entry (delta_W0 s) i j + w0_step s' i j))"
  proof (intro exI conjI impI)
    show "delta_W0 s' = Arr D0" by (simp add: f D0)
    assume a: "acc_shape (nrows (B_v s)) (nrows (training_data s')) (delta_W0 s)"
    have sh: "nrows G0 = nrows (B_v s)" "ncols G0 = nrows xb"
      using m0(2,3) mf(2) by simp_all
    have a': "acc_shape (nrows G0) (ncols G0) (delta_W0 s)"
      using a by (simp add: sh f)
    note r = acc_add_entries [OF g0(2) [unfolded D0] a']
    show "has_shape (nrows (B_v s)) (nrows (training_data s')) D0"
      using r(1) by (simp add: sh f)
    show "\<forall>i<nrows (B_v s). \<forall>j<nrows (training_data s').
        entry D0 i j = acc_entry (delta_W0 s) i j + w0_step s' i j"
      using r(2) e0 by (simp add: sh f)
  qed
  show "\<exists>D. delta_W s' = Arr D
       \<and> (acc_shape (nrows (e_v s')) (nrows (h_v s')) (delta_W s) \<longrightarrow>
            has_shape (nrows (e_v s')) (nrows (h_v s')) D
            \<and> (\<forall>i<nrows (e_v s'). \<forall>j<nrows (h_v s').
                 entry D i j = acc_entry (delta_W s) i j + w_step s' i j))"
  proof (intro exI conjI impI)
    show "delta_W s' = Arr D" by (simp add: f D)
    assume a: "acc_shape (nrows (e_v s')) (nrows (h_v s')) (delta_W s)"
    have sh: "nrows G = nrows E" "ncols G = nrows H"
      using m1(2,3) by simp_all
    have a': "acc_shape (nrows G) (ncols G) (delta_W s)"
      using a by (simp add: sh f)
    note r = acc_add_entries [OF g(2) [unfolded D] a']
    show "has_shape (nrows (e_v s')) (nrows (h_v s')) D"
      using r(1) by (simp add: sh f)
    show "\<forall>i<nrows (e_v s'). \<forall>j<nrows (h_v s').
        entry D i j = acc_entry (delta_W s) i j + w_step s' i j"
      using r(2) e1 by (simp add: sh f)
  qed
qed


lemma batch_body_forward:
  assumes "run_block (linear_batch_body k) t = Done t'"
  shows "matmul (W0 t) (training_data t') = Inr (h_v t')"
    "matmul (W_v t) (h_v t') = Inr (y_v t')"
    "ncols (W0 t) = nrows (training_data t')" "ncols (W_v t) = nrows (h_v t')"
    "has_shape (nrows (W0 t)) (ncols (training_data t')) (h_v t')"
    "has_shape (nrows (W_v t)) (ncols (h_v t')) (y_v t')"
    "\<forall>i<nrows (W0 t). \<forall>j<ncols (training_data t').
       entry (h_v t') i j = (\<Sum>m\<leftarrow>[0..<ncols (W0 t)]. entry (W0 t) i m * entry (training_data t') m j)"
    "\<forall>i<nrows (W_v t). \<forall>j<ncols (h_v t').
       entry (y_v t') i j = (\<Sum>m\<leftarrow>[0..<ncols (W_v t)]. entry (W_v t) i m * entry (h_v t') m j)"
proof -
  from batch_body_inv [OF assms] have
    h: "matmul (W0 t) (training_data t') = Inr (h_v t')"
    and y: "matmul (W_v t) (h_v t') = Inr (y_v t')"
    by auto
  note mh = entry_matmul [OF h]
  note my = entry_matmul [OF y]
  show "matmul (W0 t) (training_data t') = Inr (h_v t')" by (rule h)
  show "matmul (W_v t) (h_v t') = Inr (y_v t')" by (rule y)
  show "ncols (W0 t) = nrows (training_data t')" by (rule mh(1))
  show "ncols (W_v t) = nrows (h_v t')" by (rule my(1))
  show "has_shape (nrows (W0 t)) (ncols (training_data t')) (h_v t')"
    using mh(2,3) by (simp add: has_shape_def)
  show "has_shape (nrows (W_v t)) (ncols (h_v t')) (y_v t')"
    using my(2,3) by (simp add: has_shape_def)
  show "\<forall>i<nrows (W0 t). \<forall>j<ncols (training_data t').
       entry (h_v t') i j = (\<Sum>m\<leftarrow>[0..<ncols (W0 t)]. entry (W0 t) i m * entry (training_data t') m j)"
    using mh(4) by blast
  show "\<forall>i<nrows (W_v t). \<forall>j<ncols (h_v t').
       entry (y_v t') i j = (\<Sum>m\<leftarrow>[0..<ncols (W_v t)]. entry (W_v t) i m * entry (h_v t') m j)"
    using my(4) by blast
qed

lemma batch_body_shapes:
  assumes r: "linear_ready s" and k: "k < 3"
    and run: "run_block (linear_batch_body k) s = Done s'"
  shows "has_shape 30 25 (training_data s')" "has_shape 20 25 (h_v s')"
    "has_shape 10 25 (e_v s')" "has_shape 20 10 (B_v s')"
proof -
  from batch_body_inv [OF run] obtain xb yb H Y E BP FA G DW G0 DW0 where
    gx: "list_get (x_train_batches s) k = Inr xb" and gy: "list_get (y_train_batches s) k = Inr yb"
    and h: "matmul (W0 s) xb = Inr H" and y: "matmul (W_v s) H = Inr Y"
    and e: "np_sub yb Y = Inr E"
    and s': "s' = s\<lparr>i_v := k, training_data := xb, training_labels := yb, h_v := H, y_v := Y,
              e_v := E, loss := loss s + half_sq_norm E, delta_BP := BP, delta_FA := FA,
              delta_W := DW, delta_W0 := DW0\<rparr>"
    by blast
  from r k have l: "length (x_train_batches s) = 3" "length (y_train_batches s) = 3"
    and w: "nrows (W0 s) = 20" "nrows (W_v s) = 10" "has_shape 20 10 (B_v s)"
    by (simp_all add: linear_ready_def has_shape_def)
  have "xb = x_train_batches s ! k" "yb = y_train_batches s ! k"
    using gx gy k l by simp_all
  with r k l have xb: "nrows xb = 30" "ncols xb = 25" and yb: "nrows yb = 10" "ncols yb = 25"
    by (simp_all add: linear_ready_def list_all_length has_shape_def)
  note mh = entry_matmul [OF h]
  note my = entry_matmul [OF y]
  have H: "nrows H = 20" "ncols H = 25" using mh(2,3) w xb by simp_all
  have Y: "nrows Y = 10" "ncols Y = 25" using my(2,3) w H by simp_all
  have E: "nrows E = 10" "ncols E = 25"
    using e yb Y by (auto simp: np_sub_def elementwise_same)
  show "has_shape 30 25 (training_data s')" "has_shape 20 25 (h_v s')"
    "has_shape 10 25 (e_v s')" "has_shape 20 10 (B_v s')"
    using xb H E w(3) by (simp_all add: s' has_shape_def)
qed

text \<open>What the three batches of an epoch have accumulated.\<close>

lemma batch_loop_accumulates:
  assumes r: "linear_ready s" and z: "delta_W s = Num 0" "delta_W0 s = Num 0"
  shows "\<exists>t0 t1 t2 D D0.
     run_block (linear_batch_body 0) s = Done t0
     \<and> run_block (linear_batch_body 1) t0 = Done t1
     \<and> run_block (linear_batch_body 2) t1 = Done t2
     \<and> linear_batch_loop s = Done t2
     \<and> delta_W t2 = Arr D \<and> delta_W0 t2 = Arr D0
     \<and> has_shape 10 20 D \<and> has_shape 20 30 D0
     \<and> (\<forall>i<10. \<forall>j<20. entry D i j = w_step t0 i j + w_step t1 i j + w_step t2 i j)
     \<and> (\<forall>i<20. \<forall>j<30. entry D0 i j = w0_step t0 i j + w0_step t1 i j + w0_step t2 i j)"
proof -
  have len: "length (x_train_batches s) = 3"
    using r by (simp add: linear_ready_def)
  have a: "acc_shape 10 20 (delta_W s)" "acc_shape 20 30 (delta_W0 s)"
    by (simp_all add: z)
  from batch_body_ready [OF r _ a, of 0] obtain t0 where
    t0: "run_block (linear_batch_body 0) s = Done t0" "linear_ready t0"
      "acc_shape 10 20 (delta_W t0)" "acc_shape 20 30 (delta_W0 t0)"
    by auto
  from batch_body_ready [OF t0(2) _ t0(3,4), of 1] obtain t1 where
    t1: "run_block (linear_batch_body 1) t0 = Done t1" "linear_ready t1"
      "acc_shape 10 20 (delta_W t1)" "acc_shape 20 30 (delta_W0 t1)"
    by auto
  from batch_body_ready [OF t1(2) _ t1(3,4), of 2] obtain t2 where
    t2: "run_block (linear_batch_body 2) t1 = Done t2"
    by auto
  have run: "linear_batch_loop s = Done t2"
    using t0(1) t1(1) t2(1) by (simp add: linear_batch_loop_def for_stmt_def len upt_3)
  have step: "\<exists>D D0. delta_W u' = Arr D \<and> delta_W0 u' = Arr D0
       \<and> has_shape 10 20 D \<and> has_shape 20 30 D0
       \<and> (\<forall>i<10. \<forall>j<20. entry D i j = acc_entry (delta_W u) i j + w_step u' i j)
       \<and> (\<forall>i<20. \<forall>j<30. entry D0 i j = acc_entry (delta_W0 u) i j + w0_step u' i j)"
    if u: "linear_ready u" "k < 3" "run_block (linear_batch_body k) u = Done u'"
      "acc_shape 10 20 (delta_W u)" "acc_shape 20 30 (delta_W0 u)" for u u' k
  proof -
    note sh = batch_body_shapes [OF u(1-3)]
    note st = batch_body_steps [OF u(3)]
    have d: "nrows (B_v u) = 20" "nrows (training_data u') = 30" "nrows (e_v u') = 10"
      "nrows (h_v u') = 20"
      using sh st(1) by (simp_all add: has_shape_def)
    from st(5,6) u(4,5) show ?thesis
      unfolding d by blast
  qed
  from step [OF r _ t0(1) a] obtain A A0 where
    A: "delta_W t0 = Arr A" "delta_W0 t0 = Arr A0"
      "\<forall>i<10. \<forall>j<20. entry A i j = acc_entry (delta_W s) i j + w_step t0 i j"
      "\<forall>i<20. \<forall>j<30. entry A0 i j = acc_entry (delta_W0 s) i j + w0_step t0 i j"
    by auto
  from step [OF t0(2) _ t1(1) t0(3,4)] obtain C C0 where
    C: "delta_W t1 = Arr C" "delta_W0 t1 = Arr C0"
      "\<forall>i<10. \<forall>j<20. entry C i j = acc_entry (delta_W t0) i j + w_step t1 i j"
      "\<forall>i<20. \<forall>j<30. entry C0 i j = acc_entry (delta_W0 t0) i j + w0_step t1 i j"
    by auto
  from step [OF t1(2) _ t2(1) t1(3,4)] obtain D D0 where
    D: "delta_W t2 = Arr D" "delta_W0 t2 = Arr D0" "has_shape 10 20 D" "has_shape 20 30 D0"
      "\<forall>i<10. \<forall>j<20. entry D i j = acc_entry (delta_W t1) i j + w_step t2 i j"
      "\<forall>i<20. \<forall>j<30. entry D0 i j = acc_entry (delta_W0 t1) i j + w0_step t2 i j"
    by auto
  have "\<forall>i<10. \<forall>j<20. entry D i j = w_step t0 i j + w_step t1 i j + w_step t2 i j"
    using A(3) C(3) D(5) by (simp add: z A(1) C(1))
  moreover have "\<forall>i<20. \<forall>j<30. entry D0 i j = w0_step t0 i j + w0_step t1 i j + w0_step t2 i j"
    using A(4) C(4) D(6) by (simp add: z A(2) C(2))
  ultimately show ?thesis
    using t0(1) t1(1) t2(1) run D(1-4) by blast
qed

text \<open>What a completed epoch has done to the weights.\<close>

lemma epoch_body_update:
  assumes r: "linear_ready s" and run: "run_block (linear_epoch_body n) s = Done s'"
  shows "\<exists>t0 t1 t2 D D0.
     run_block (linear_batch_body 0)
         (s\<lparr>epoch := n, delta_W0 := Num 0, delta_W := Num 0, loss := 0\<rparr>) = Done t0
     \<and> run_block (linear_batch_body 1) t0 = Done t1
     \<and> run_block (linear_batch_body 2) t1 = Done t2
     \<and> linear_batch_loop (s\<lparr>epoch := n, delta_W0 := Num 0, delta_W := Num 0, loss := 0\<rparr>)
         = Done t2
     \<and> delta_W t2 = Arr D \<and> delta_W0 t2 = Arr D0
     \<and> (\<forall>i<10. \<forall>j<20. entry D i j = w_step t0 i j + w_step t1 i j + w_step t2 i j)
     \<and> (\<forall>i<20. \<forall>j<30. entry D0 i j = w0_step t0 i j + w0_step t1 i j + w0_step t2 i j)
     \<and> has_shape 10 20 (W_v s') \<and> has_shape 20 30 (W0 s')
     \<and> (\<forall>i<10. \<forall>j<20. entry (W_v s') i j = entry (W_v s) i j + eta s / 75 * entry D i j)
     \<and> (\<forall>i<20. \<forall>j<30. entry (W0 s') i j = entry (W0 s) i j + eta s / 75 * entry D0 i j)"
proof -
  define s0 where "s0 = s\<lparr>epoch := n, delta_W0 := Num 0, delta_W := Num 0, loss := 0\<rparr>"
  have r0: "linear_ready s0" "delta_W s0 = Num 0" "delta_W0 s0 = Num 0"
    using r by (simp_all add: linear_ready_def s0_def)
  from batch_loop_accumulates [OF r0] obtain t0 t1 t2 D D0 where
    b: "run_block (linear_batch_body 0) s0 = Done t0" "run_block (linear_batch_body 1) t0 = Done t1"
      "run_block (linear_batch_body 2) t1 = Done t2" "linear_batch_loop s0 = Done t2"
    and d: "delta_W t2 = Arr D" "delta_W0 t2 = Arr D0" "has_shape 10 20 D" "has_shape 20 30 D0"
    and e: "\<forall>i<10. \<forall>j<20. entry D i j = w_step t0 i j + w_step t1 i j + w_step t2 i j"
      "\<forall>i<20. \<forall>j<30. entry D0 i j = w0_step t0 i j + w0_step t1 i j + w0_step t2 i j"
    by blast
  from epoch_body_inv [OF run] obtain s1 c Wn W0n where
    l: "linear_batch_loop s0 = Done s1"
    and c: "py_truediv (eta s) (real (ncols (x_train s))) = Inr c"
    and w: "add_val (W_v s) (scale c (delta_W s1)) = Inr Wn"
      "add_val (W0 s) (scale c (delta_W0 s1)) = Inr W0n"
    and s': "s' = (if n mod 100 = 0
           then s1\<lparr>W_v := Wn, W0 := W0n,
                  printed := printed s @ [EpochLine n, LossLine (loss s1)]\<rparr>
           else s1\<lparr>W_v := Wn, W0 := W0n\<rparr>)"
    unfolding s0_def by blast
  have s1: "s1 = t2" using l b(4) by simp
  have x: "ncols (x_train s) = 75" and sw: "nrows (W_v s) = 10" "ncols (W_v s) = 20"
    "nrows (W0 s) = 20" "ncols (W0 s) = 30"
    using r by (simp_all add: linear_ready_def has_shape_def)
  have c75: "c = eta s / 75"
    using c x by (simp add: py_truediv_def)
  have f: "W_v s' = Wn" "W0 s' = W0n"
    by (simp_all add: s')
  have a: "acc_shape (nrows (W_v s)) (ncols (W_v s)) (delta_W t2)"
    "acc_shape (nrows (W0 s)) (ncols (W0 s)) (delta_W0 t2)"
    using d by (simp_all add: sw)
  note u = add_val_entries [OF w(1) [unfolded s1] a(1)]
  note u0 = add_val_entries [OF w(2) [unfolded s1] a(2)]
  have "has_shape 10 20 (W_v s')" "has_shape 20 30 (W0 s')"
    using u(1) u0(1) by (simp_all add: f sw)
  moreover have "\<forall>i<10. \<forall>j<20. entry (W_v s') i j = entry (W_v s) i j + eta s / 75 * entry D i j"
    using u(2) by (simp add: f sw d c75)
  moreover have "\<forall>i<20. \<forall>j<30. entry (W0 s') i j = entry (W0 s) i j + eta s / 75 * entry D0 i j"
    using u0(2) by (simp add: f sw d c75)
  ultimately show ?thesis
    using b [unfolded s0_def] d(1,2) e by blast
qed

subsection \<open>The weights within an epoch\<close>

lemma keeps_weights_batch_body:
  "list_all (keeps W_v) (linear_batch_body k)" "list_all (keeps W0) (linear_batch_body k)"
  by (simp_all add: linear_batch_body_def keeps_assign keeps_store)

lemma keeps_take: "list_all (keeps p) stmts \<Longrightarrow> list_all (keeps p) (take m stmts)"
  by (rule list_all_take)

text \<open>
  Claim C5. Within an epoch of the linear loop the weights \<open>W\<close> and \<open>W0\<close> are the
  same after any number of batches, and after any number of statements of a batch, as
  before; the loop changes only the accumulators and the variables it binds itself
  (\<open>loop_frame\<close> hides exactly those). The forward pass of a batch multiplies by these
  weights: entry \<open>(i, j)\<close> of \<open>h\<close> is the sum over \<open>m\<close> of \<open>W0[i, m] * x[m, j]\<close>, and of
  \<open>y\<close> the sum of \<open>W[i, m] * h[m, j]\<close>. An epoch that completes with 75 training columns
  has changed each of \<open>W\<close> and \<open>W0\<close> once, after the loop, into the old value plus
  \<open>eta / 75\<close> times the accumulated delta. With the shapes of the experiment that reads
  entry by entry: the accumulated \<open>delta_W\<close> is the sum of \<open>e @ h\<^sup>T\<close> over the three
  batches, the accumulated \<open>delta_W0\<close> the sum of \<open>(B @ e) @ x\<^sup>T\<close>, and every entry of
  the new \<open>W\<close> and \<open>W0\<close> is the old entry plus \<open>eta / 75\<close> times the entry of the
  accumulated delta.
\<close>

theorem C5_weights_updated_once_per_epoch:
  "W_v (state_of (for_each ks (\<lambda>k. run_block (linear_batch_body k)) t)) = W_v t
   \<and> W0 (state_of (for_each ks (\<lambda>k. run_block (linear_batch_body k)) t)) = W0 t
   \<and> W_v (state_of (run_block (take m (linear_batch_body k)) t)) = W_v t
   \<and> W0 (state_of (run_block (take m (linear_batch_body k)) t)) = W0 t
   \<and> loop_frame (state_of (linear_batch_loop t)) = loop_frame t
   \<and> (run_block (linear_batch_body k) t = Done t' \<longrightarrow>
        matmul (W0 t) (training_data t') = Inr (h_v t')
        \<and> matmul (W_v t) (h_v t') = Inr (y_v t')
        \<and> has_shape (nrows (W0 t)) (ncols (training_data t')) (h_v t')
        \<and> has_shape (nrows (W_v t)) (ncols (h_v t')) (y_v t')
        \<and> (\<forall>i<nrows (W0 t). \<forall>j<ncols (training_data t').
              entry (h_v t') i j
                = (\<Sum>m\<leftarrow>[0..<ncols (W0 t)]. entry (W0 t) i m * entry (training_data t') m j))
        \<and> (\<forall>i<nrows (W_v t). \<forall>j<ncols (h_v t').
              entry (y_v t') i j
                = (\<Sum>m\<leftarrow>[0..<ncols (W_v t)]. entry (W_v t) i m * entry (h_v t') m j)))
   \<and> (run_block (linear_epoch_body n) s = Done s' \<and> ncols (x_train s) = 75 \<longrightarrow>
        (\<exists>s1. linear_batch_loop (s\<lparr>epoch := n, delta_W0 := Num 0, delta_W := Num 0, loss := 0\<rparr>)
                = Done s1
           \<and> W_v s1 = W_v s \<and> W0 s1 = W0 s
           \<and> add_val (W_v s) (scale (eta s / 75) (delta_W s1)) = Inr (W_v s')
           \<and> add_val (W0 s) (scale (eta s / 75) (delta_W0 s1)) = Inr (W0 s')))
   \<and> (run_block (linear_epoch_body n) s = Done s' \<and> linear_ready s \<longrightarrow>
        (\<exists>t0 t1 t2 D D0.
           run_block (linear_batch_body 0)
               (s\<lparr>epoch := n, delta_W0 := Num 0, delta_W := Num 0, loss := 0\<rparr>) = Done t0
           \<and> run_block (linear_batch_body 1) t0 = Done t1
           \<and> run_block (linear_batch_body 2) t1 = Done t2
           \<and> linear_batch_loop (s\<lparr>epoch := n, delta_W0 := Num 0, delta_W := Num 0, loss := 0\<rparr>)
               = Done t2
           \<and> delta_W t2 = Arr D \<and> delta_W0 t2 = Arr D0
           \<and> (\<forall>i<10. \<forall>j<20. entry D i j = w_step t0 i j + w_step t1 i j + w_step t2 i j)
           \<and> (\<forall>i<20. \<forall>j<30.
                 entry D0 i j = w0_step t0 i j + w0_step t1 i j + w0_step t2 i j)
           \<and> has_shape 10 20 (W_v s') \<and> has_shape 20 30 (W0 s')
           \<and> (\<forall>i<10. \<forall>j<20.
                 entry (W_v s') i j = entry (W_v s) i j + eta s / 75 * entry D i j)
           \<and> (\<forall>i<20. \<forall>j<30.
                 entry (W0 s') i j = entry (W0 s) i j + eta s / 75 * entry D0 i j)))"
proof -
  have a: "W_v (state_of (for_each ks (\<lambda>k. run_block (linear_batch_body k)) t)) = W_v t"
    by (rule keepsD [OF keeps_for_each]) (rule keeps_run_block [OF keeps_weights_batch_body(1)])
  have b: "W0 (state_of (for_each ks (\<lambda>k. run_block (linear_batch_body k)) t)) = W0 t"
    by (rule keepsD [OF keeps_for_each]) (rule keeps_run_block [OF keeps_weights_batch_body(2)])
  have c: "W_v (state_of (run_block (take m (linear_batch_body k)) t)) = W_v t"
    by (rule keepsD [OF keeps_run_block [OF keeps_take [OF keeps_weights_batch_body(1)]]])
  have d: "W0 (state_of (run_block (take m (linear_batch_body k)) t)) = W0 t"
    by (rule keepsD [OF keeps_run_block [OF keeps_take [OF keeps_weights_batch_body(2)]]])
  have e: "loop_frame (state_of (linear_batch_loop t)) = loop_frame t"
    by (rule keepsD [OF keeps_frame_batch_loop])
  have f: "matmul (W0 t) (training_data t') = Inr (h_v t')
        \<and> matmul (W_v t) (h_v t') = Inr (y_v t')
        \<and> has_shape (nrows (W0 t)) (ncols (training_data t')) (h_v t')
        \<and> has_shape (nrows (W_v t)) (ncols (h_v t')) (y_v t')
        \<and> (\<forall>i<nrows (W0 t). \<forall>j<ncols (training_data t').
              entry (h_v t') i j
                = (\<Sum>m\<leftarrow>[0..<ncols (W0 t)]. entry (W0 t) i m * entry (training_data t') m j))
        \<and> (\<forall>i<nrows (W_v t). \<forall>j<ncols (h_v t').
              entry (y_v t') i j
                = (\<Sum>m\<leftarrow>[0..<ncols (W_v t)]. entry (W_v t) i m * entry (h_v t') m j))"
    if "run_block (linear_batch_body k) t = Done t'"
    using batch_body_forward(1,2,5-8) [OF that] by (intro conjI)
  have g: "\<exists>s1. linear_batch_loop (s\<lparr>epoch := n, delta_W0 := Num 0, delta_W := Num 0, loss := 0\<rparr>)
                = Done s1
           \<and> W_v s1 = W_v s \<and> W0 s1 = W0 s
           \<and> add_val (W_v s) (scale (eta s / 75) (delta_W s1)) = Inr (W_v s')
           \<and> add_val (W0 s) (scale (eta s / 75) (delta_W0 s1)) = Inr (W0 s')"
    if r: "run_block (linear_epoch_body n) s = Done s'" and x: "ncols (x_train s) = 75"
  proof -
    from epoch_body_inv [OF r] obtain s1 c Wn W0n where
      l: "linear_batch_loop (s\<lparr>epoch := n, delta_W0 := Num 0, delta_W := Num 0, loss := 0\<rparr>)
          = Done s1"
      and c: "py_truediv (eta s) (real (ncols (x_train s))) = Inr c"
      and w: "add_val (W_v s) (scale c (delta_W s1)) = Inr Wn"
        "add_val (W0 s) (scale c (delta_W0 s1)) = Inr W0n"
      and s': "s' = (if n mod 100 = 0
           then s1\<lparr>W_v := Wn, W0 := W0n,
                  printed := printed s @ [EpochLine n, LossLine (loss s1)]\<rparr>
           else s1\<lparr>W_v := Wn, W0 := W0n\<rparr>)"
      by blast
    have c75: "c = eta s / 75"
      using c x by (simp add: py_truediv_def)
    have "W_v s1 = W_v s" "W0 s1 = W0 s"
      using batch_loop_frame(5,6) [OF l] by simp_all
    moreover have "W_v s' = Wn" "W0 s' = W0n"
      by (simp_all add: s')
    ultimately show ?thesis
      using l w c75 by auto
  qed
  note h = epoch_body_update [of s n s']
  from a b c d e f g h show ?thesis by blast
qed

theorem C5_witness:
  "\<exists>s s' t' D. run_block (before_training demo_draws) blank_globals = Done s
     \<and> run_block (linear_epoch_body 0) s = Done s' \<and> ncols (x_train s) = 75 \<and> linear_ready s
     \<and> run_block (linear_batch_body 0)
           (s\<lparr>epoch := 0, delta_W0 := Num 0, delta_W := Num 0, loss := 0\<rparr>) = Done t'
     \<and> matmul (W0 s) (training_data t') = Inr (h_v t')
     \<and> matmul (W_v s) (h_v t') = Inr (y_v t')
     \<and> 0 < nrows (W0 s) \<and> 0 < ncols (training_data t')
     \<and> entry (h_v t') 0 0
         = (\<Sum>m\<leftarrow>[0..<ncols (W0 s)]. entry (W0 s) 0 m * entry (training_data t') m 0)
     \<and> (\<exists>s1. linear_batch_loop (s\<lparr>epoch := 0, delta_W0 := Num 0, delta_W := Num 0, loss := 0\<rparr>)
                = Done s1
           \<and> W_v s1 = W_v s \<and> W0 s1 = W0 s
           \<and> delta_W s1 = Arr D
           \<and> add_val (W_v s) (scale (eta s / 75) (delta_W s1)) = Inr (W_v s')
           \<and> add_val (W0 s) (scale (eta s / 75) (delta_W0 s1)) = Inr (W0 s'))
     \<and> entry (W_v s') 0 0 = entry (W_v s) 0 0 + eta s / 75 * entry D 0 0"
proof -
  from before_training_ready [OF valid_demo_draws, of blank_globals] obtain s where
    s: "run_block (before_training demo_draws) blank_globals = Done s" "linear_ready s"
    by blast
  from epoch_body_ready [OF s(2), of 0] obtain s' where
    s': "run_block (linear_epoch_body 0) s = Done s'"
    by blast
  have x: "ncols (x_train s) = 75" and sw: "nrows (W0 s) = 20"
    using s(2) by (simp_all add: linear_ready_def has_shape_def)
  define s0 where "s0 = s\<lparr>epoch := 0, delta_W0 := Num 0, delta_W := Num 0, loss := 0\<rparr>"
  have r0: "linear_ready s0" "acc_shape 10 20 (delta_W s0)" "acc_shape 20 30 (delta_W0 s0)"
    using s(2) by (simp_all add: linear_ready_def s0_def)
  from batch_body_ready [OF r0(1) _ r0(2,3), of 0] obtain t' where
    t': "run_block (linear_batch_body 0) s0 = Done t'"
    by auto
  have xs: "ncols (training_data t') = 25"
    using batch_body_shapes(1) [OF r0(1) _ t', of] by (simp add: has_shape_def)
  have w: "W0 s0 = W0 s" "W_v s0 = W_v s"
    by (simp_all add: s0_def)
  note inst = C5_weights_updated_once_per_epoch [of _ s0 _ 0 t' 0 s s']
  from inst t' have fwd: "matmul (W0 s) (training_data t') = Inr (h_v t')"
    "matmul (W_v s) (h_v t') = Inr (y_v t')"
    "\<forall>i<nrows (W0 s). \<forall>j<ncols (training_data t').
        entry (h_v t') i j
          = (\<Sum>m\<leftarrow>[0..<ncols (W0 s)]. entry (W0 s) i m * entry (training_data t') m j)"
    unfolding w by blast+
  have pos: "0 < nrows (W0 s)" "0 < ncols (training_data t')"
    by (simp_all add: sw xs)
  with fwd(3) have h00: "entry (h_v t') 0 0
      = (\<Sum>m\<leftarrow>[0..<ncols (W0 s)]. entry (W0 s) 0 m * entry (training_data t') m 0)"
    by blast
  from inst s' x obtain s1 where
    l: "linear_batch_loop (s\<lparr>epoch := 0, delta_W0 := Num 0, delta_W := Num 0, loss := 0\<rparr>) = Done s1"
    "W_v s1 = W_v s" "W0 s1 = W0 s"
    "add_val (W_v s) (scale (eta s / 75) (delta_W s1)) = Inr (W_v s')"
    "add_val (W0 s) (scale (eta s / 75) (delta_W0 s1)) = Inr (W0 s')"
    by blast
  from inst s' s(2) obtain t2 D where
    u: "linear_batch_loop (s\<lparr>epoch := 0, delta_W0 := Num 0, delta_W := Num 0, loss := 0\<rparr>) = Done t2"
    "delta_W t2 = Arr D"
    "\<forall>i<10. \<forall>j<20. entry (W_v s') i j = entry (W_v s) i j + eta s / 75 * entry D i j"
    by blast
  have "t2 = s1" using l(1) u(1) by simp
  then have "delta_W s1 = Arr D" using u(2) by simp
  moreover have "entry (W_v s') 0 0 = entry (W_v s) 0 0 + eta s / 75 * entry D 0 0"
    using u(3) by simp
  ultimately show ?thesis
    using s s' x t' [unfolded s0_def] fwd(1,2) pos h00 l by blast
qed

section \<open>The batches of the linear experiment\<close>

lemma rows_mk: "rows (mk r c f) = map (\<lambda>i. map (\<lambda>j. f i j) [0..<c]) [0..<r]"
  by (simp add: mk_def)

lemma slice_cols_mk:
  assumes "b \<le> c"
  shows "slice_cols (mk r c f) a b = mk r (b - a) (\<lambda>i j. f i (a + j))"
proof -
  have "mk r (b - a) (\<lambda>i j. entry (mk r c f) i (a + j)) = mk r (b - a) (\<lambda>i j. f i (a + j))"
    using assms by (intro mk_cong) simp
  then show ?thesis
    using assms by (simp add: slice_cols_def min_def)
qed

lemma map_shift: "map (\<lambda>j. g (n + j)) [0..<m] = map g [n..<n + m]"
proof -
  have "map g (map (\<lambda>j. j + n) [0..<m]) = map g [n..<m + n]"
    by (simp only: map_add_upt)
  then show ?thesis
    by (simp add: comp_def add.commute)
qed

lemma map_upt_thirds:
  "map g [0..<25] @ map (\<lambda>j. g (25 + j)) [0..<25] @ map (\<lambda>j. g (50 + j)) [0..<25]
   = map g [0..<75]"
proof -
  have a: "[0..<50] = [0..<25] @ [25..<25 + 25]"
    using upt_add_eq_append [of 0 25 25] by simp
  have b: "[0..<75] = [0..<50] @ [50..<50 + 25]"
    using upt_add_eq_append [of 0 50 25] by simp
  show ?thesis
    unfolding map_shift b a by simp
qed

lemma concat_cols_thirds:
  "concat_cols [mk r 25 (\<lambda>i j. f i j), mk r 25 (\<lambda>i j. f i (25 + j)), mk r 25 (\<lambda>i j. f i (50 + j))]
   = mk r 75 f"
proof -
  have "map (\<lambda>i. concat (map (\<lambda>B. rows B ! i)
            [mk r 25 (\<lambda>i j. f i j), mk r 25 (\<lambda>i j. f i (25 + j)), mk r 25 (\<lambda>i j. f i (50 + j))]))
          [0..<r]
      = map (\<lambda>i. map (\<lambda>j. f i j) [0..<75]) [0..<r]"
    by (rule map_cong) (simp_all add: rows_mk map_upt_thirds)
  then show ?thesis
    by (simp add: concat_cols_def mk_def)
qed

lemma split_thirds:
  "concat_cols [slice_cols (mk r 75 f) 0 25, slice_cols (mk r 75 f) 25 50,
                slice_cols (mk r 75 f) 50 75] = mk r 75 f"
  using concat_cols_thirds [of r f] by (simp add: slice_cols_mk)

lemma transpose_is_mk: "transpose_arr A = mk (ncols A) (nrows A) (\<lambda>i j. entry A j i)"
  by (simp add: transpose_arr_def)

lemma split_of_transpose:
  assumes "nrows M = 75"
  shows "concat_cols [slice_cols (transpose_arr M) 0 25, slice_cols (transpose_arr M) 25 50,
                slice_cols (transpose_arr M) 50 75] = transpose_arr M"
  unfolding transpose_is_mk assms by (rule split_thirds)

text \<open>
  Claim C6. For every permutation the split draws, the cells up to the batching complete:
  the training set has 75 columns, \<open>batch_size\<close> is 20 and \<open>num_batches\<close> is 3.75, not
  an integer; \<^verbatim>\<open>75 % 3.75\<close> is zero, so \<^verbatim>\<open>np.split\<close> does not raise and returns what
  is bound to \<open>x_train_batches\<close>: three arrays of 25 columns whose concatenation in
  order is \<open>x_train\<close>, none of them with \<open>batch_size\<close> columns. The same holds for the
  labels.
\<close>

theorem C6_batches_of_25:
  assumes "valid_draws d"
  shows "\<exists>s'. run_block (before_training d) s = Done s'
     \<and> ncols (x_train s') = 75 \<and> batch_size s' = 20 \<and> num_batches s' = 3.75
     \<and> real_of_int \<lfloor>num_batches s'\<rfloor> \<noteq> num_batches s'
     \<and> py_mod (real (ncols (x_train s'))) (num_batches s') = 0
     \<and> np_split (x_train s') (num_batches s') = Inr (x_train_batches s')
     \<and> length (x_train_batches s') = 3
     \<and> list_all (\<lambda>b. ncols b = 25) (x_train_batches s')
     \<and> concat_cols (x_train_batches s') = x_train s'
     \<and> list_all (\<lambda>b. ncols b \<noteq> batch_size s') (x_train_batches s')
     \<and> np_split (y_train s') (num_batches s') = Inr (y_train_batches s')
     \<and> length (y_train_batches s') = 3
     \<and> list_all (\<lambda>b. ncols b = 25) (y_train_batches s')
     \<and> concat_cols (y_train_batches s') = y_train s'"
proof -
  from before_training_run [OF assms, of s] obtain s' where
    r: "run_block (before_training d) s = Done s'"
    and xt: "x_train s' = transpose_arr (mk 75 30
          (\<lambda>i j. entry (transpose_arr (x_data s')) (split_permutation d ! (25 + i)) j))"
    and yt: "y_train s' = transpose_arr (mk 75 10
          (\<lambda>i j. entry (transpose_arr (y_data s')) (split_permutation d ! (25 + i)) j))"
    and h: "batch_size s' = 20" "num_batches s' = 15 / 4"
    and xb: "x_train_batches s' =
          [slice_cols (x_train s') 0 25, slice_cols (x_train s') 25 50,
           slice_cols (x_train s') 50 75]"
    and yb: "y_train_batches s' =
          [slice_cols (y_train s') 0 25, slice_cols (y_train s') 25 50,
           slice_cols (y_train s') 50 75]"
    by blast
  have cx: "ncols (x_train s') = 75" and cy: "ncols (y_train s') = 75"
    by (simp_all add: xt yt)
  have n: "num_batches s' = 3.75" "real_of_int \<lfloor>num_batches s'\<rfloor> \<noteq> num_batches s'"
    by (simp_all add: h)
  have m: "py_mod (real (ncols (x_train s'))) (num_batches s') = 0"
    unfolding cx h using py_mod_75 by simp
  have sx: "np_split (x_train s') (num_batches s') = Inr (x_train_batches s')"
    unfolding h xb by (rule np_split_75 [OF cx])
  have sy: "np_split (y_train s') (num_batches s') = Inr (y_train_batches s')"
    unfolding h yb by (rule np_split_75 [OF cy])
  have lx: "length (x_train_batches s') = 3" "list_all (\<lambda>b. ncols b = 25) (x_train_batches s')"
    "list_all (\<lambda>b. ncols b \<noteq> batch_size s') (x_train_batches s')"
    by (simp_all add: xb cx h)
  have ly: "length (y_train_batches s') = 3" "list_all (\<lambda>b. ncols b = 25) (y_train_batches s')"
    by (simp_all add: yb cy)
  have ccx: "concat_cols (x_train_batches s') = x_train s'"
    unfolding xb xt by (rule split_of_transpose) simp
  have ccy: "concat_cols (y_train_batches s') = y_train s'"
    unfolding yb yt by (rule split_of_transpose) simp
  from r cx h(1) n m sx lx ccx sy ly ccy show ?thesis
    by blast
qed

theorem C6_witness:
  "valid_draws demo_draws
   \<and> (\<exists>s'. run_block (before_training demo_draws) blank_globals = Done s'
     \<and> ncols (x_train s') = 75 \<and> batch_size s' = 20 \<and> num_batches s' = 3.75
     \<and> np_split (x_train s') (num_batches s') = Inr (x_train_batches s')
     \<and> length (x_train_batches s') = 3
     \<and> list_all (\<lambda>b. ncols b = 25) (x_train_batches s')
     \<and> concat_cols (x_train_batches s') = x_train s')"
proof -
  from C6_batches_of_25 [OF valid_demo_draws, of blank_globals] obtain s' where
    "run_block (before_training demo_draws) blank_globals = Done s'"
    "ncols (x_train s') = 75" "batch_size s' = 20" "num_batches s' = 3.75"
    "np_split (x_train s') (num_batches s') = Inr (x_train_batches s')"
    "length (x_train_batches s') = 3"
    "list_all (\<lambda>b. ncols b = 25) (x_train_batches s')"
    "concat_cols (x_train_batches s') = x_train s'"
    by blast
  with valid_demo_draws show ?thesis
    by blast
qed

section \<open>Labels and inputs\<close>

lemma column_mk: "j < c \<Longrightarrow> column (mk r c f) j = map (\<lambda>i. f i j) [0..<r]"
  by (simp add: column_def)

lemma column_matmul:
  assumes "matmul A X = Inr Y" "j < ncols X"
  shows "column Y j = matvec A (column X j)"
proof -
  from assms(1) have n: "ncols A = nrows X"
    and Y: "Y = mk (nrows A) (ncols X) (\<lambda>i j. \<Sum>k\<leftarrow>[0..<ncols A]. entry A i k * entry X k j)"
    by (auto simp: matmul_def split: if_splits)
  have "(\<Sum>k\<leftarrow>[0..<ncols A]. entry A i k * entry X k j)
      = (\<Sum>k\<leftarrow>[0..<ncols A]. entry A i k * column X j ! k)" for i
    by (rule arg_cong [where f = sum_list], rule map_cong) (simp_all add: column_def n)
  then show ?thesis
    using assms(2) by (simp add: Y column_mk matvec_def)
qed

lemma column_slice:
  assumes "a + j < b" "b \<le> ncols A"
  shows "column (slice_cols A a b) j = column A (a + j)"
  using assms by (simp add: slice_cols_def column_def min_def)

lemma column_picked:
  assumes "j < n" "q j < ncols X"
  shows "column (transpose_arr (mk n (nrows X) (\<lambda>i k. entry (transpose_arr X) (q i) k))) j
     = column X (q j)"
proof -
  have "entry (transpose_arr (mk n (nrows X) (\<lambda>i k. entry (transpose_arr X) (q i) k))) i j
      = entry X i (q j)" if "i < nrows X" for i
    using that assms by (simp add: transpose_arr_def)
  then show ?thesis
    by (simp add: column_def cong: map_cong)
qed

lemma picked_in_range:
  assumes "is_permutation 100 p" "k < 100"
  shows "p ! k < 100"
  using assms by (simp add: is_permutation_def list_all_length)

lemma data_pairs:
  assumes v: "valid_draws d" and r: "run_block (before_training d) s = Done s'"
  shows "j < 100 \<Longrightarrow> column (y_data s') j = matvec (T_v s') (column (x_data s') j)"
    and "j < 75 \<Longrightarrow> column (y_train s') j = matvec (T_v s') (column (x_train s') j)"
    and "j < 25 \<Longrightarrow> column (y_test s') j = matvec (T_v s') (column (x_test s') j)"
    and "b < 3 \<Longrightarrow> j < 25 \<Longrightarrow>
         column (y_train_batches s' ! b) j = matvec (T_v s') (column (x_train_batches s' ! b) j)"
proof -
  define p where "p = split_permutation d"
  from before_training_run [OF v, of s] r have
    T: "T_v s' = random_uniform (- 1) 1 10 30 (T_draws d)"
    and X: "x_data s' = randn 30 100 (x_draws d)"
    and Y: "y_data s' = mk 10 100 (\<lambda>i j. \<Sum>k\<leftarrow>[0..<30]. entry (T_v s') i k * entry (x_data s') k j)"
    and xt: "x_train s' = transpose_arr (mk 75 30
          (\<lambda>i j. entry (transpose_arr (x_data s')) (p ! (25 + i)) j))"
    and xe: "x_test s' = transpose_arr (mk 25 30
          (\<lambda>i j. entry (transpose_arr (x_data s')) (p ! i) j))"
    and yt: "y_train s' = transpose_arr (mk 75 10
          (\<lambda>i j. entry (transpose_arr (y_data s')) (p ! (25 + i)) j))"
    and ye: "y_test s' = transpose_arr (mk 25 10
          (\<lambda>i j. entry (transpose_arr (y_data s')) (p ! i) j))"
    and xb: "x_train_batches s' =
          [slice_cols (x_train s') 0 25, slice_cols (x_train s') 25 50,
           slice_cols (x_train s') 50 75]"
    and yb: "y_train_batches s' =
          [slice_cols (y_train s') 0 25, slice_cols (y_train s') 25 50,
           slice_cols (y_train s') 50 75]"
    by (simp_all add: p_def)
  have shX: "nrows (x_data s') = 30" "ncols (x_data s') = 100"
    and shT: "nrows (T_v s') = 10" "ncols (T_v s') = 30"
    by (simp_all add: X T)
  have shY: "nrows (y_data s') = 10" "ncols (y_data s') = 100"
    by (subst Y, simp)+
  have mm: "matmul (T_v s') (x_data s') = Inr (y_data s')"
    by (simp add: matmul_ok shX shT Y [symmetric])
  show all: "column (y_data s') j = matvec (T_v s') (column (x_data s') j)" if "j < 100" for j
    using column_matmul [OF mm, of j] that by (simp add: shX)
  have perm: "is_permutation 100 p"
    using v by (simp add: valid_draws_def p_def)
  have ctr: "column (x_train s') j = column (x_data s') (p ! (25 + j))"
    "column (y_train s') j = column (y_data s') (p ! (25 + j))" if "j < 75" for j
  proof -
    have q: "p ! (25 + j) < 100"
      using picked_in_range [OF perm, of "25 + j"] that by simp
    show "column (x_train s') j = column (x_data s') (p ! (25 + j))"
      using column_picked [of j 75 "\<lambda>i. p ! (25 + i)" "x_data s'"] that q
      by (simp add: xt shX)
    show "column (y_train s') j = column (y_data s') (p ! (25 + j))"
      using column_picked [of j 75 "\<lambda>i. p ! (25 + i)" "y_data s'"] that q
      by (simp add: yt shY)
  qed
  show tr: "column (y_train s') j = matvec (T_v s') (column (x_train s') j)" if "j < 75" for j
  proof -
    have "p ! (25 + j) < 100"
      using picked_in_range [OF perm, of "25 + j"] that by simp
    then show ?thesis
      using ctr [OF that] all by simp
  qed
  show "column (y_test s') j = matvec (T_v s') (column (x_test s') j)" if "j < 25" for j
  proof -
    have q: "p ! j < 100"
      using picked_in_range [OF perm, of j] that by simp
    have "column (x_test s') j = column (x_data s') (p ! j)"
      using column_picked [of j 25 "\<lambda>i. p ! i" "x_data s'"] that q
      by (simp add: xe shX)
    moreover have "column (y_test s') j = column (y_data s') (p ! j)"
      using column_picked [of j 25 "\<lambda>i. p ! i" "y_data s'"] that q
      by (simp add: ye shY)
    ultimately show ?thesis
      using all [OF q] by simp
  qed
  have cx: "ncols (x_train s') = 75" and cy: "ncols (y_train s') = 75"
    by (simp_all add: xt yt)
  show "column (y_train_batches s' ! b) j = matvec (T_v s') (column (x_train_batches s' ! b) j)"
    if "b < 3" "j < 25"
  proof -
    from that(1) consider "b = 0" | "b = 1" | "b = 2"
      by linarith
    then show ?thesis
    proof cases
      case 1
      then show ?thesis
        using column_slice [of 0 j 25 "x_train s'"] column_slice [of 0 j 25 "y_train s'"]
          tr [of j] that(2)
        by (simp add: xb yb cx cy)
    next
      case 2
      then show ?thesis
        using column_slice [of 25 j 50 "x_train s'"] column_slice [of 25 j 50 "y_train s'"]
          tr [of "25 + j"] that(2)
        by (simp add: xb yb cx cy)
    next
      case 3
      then show ?thesis
        using column_slice [of 50 j 75 "x_train s'"] column_slice [of 50 j 75 "y_train s'"]
          tr [of "50 + j"] that(2)
        by (simp add: xb yb cx cy)
    qed
  qed
qed

lemma keeps_data_training: "keeps data_of linear_training"
  by (simp add: linear_training_def linear_epoch_body_def linear_batch_loop_def
      linear_batch_body_def report_def data_of_def keeps_for_stmt keeps_run_block
      keeps_if_stmt keeps_assign keeps_store)

lemma keeps_data_test: "list_all (keeps data_of) linear_test"
  by (simp add: linear_test_def data_of_def keeps_assign keeps_store)

lemma data_after_experiment:
  assumes "run_block (before_training d) s = Done s1"
  shows "data_of (state_of (linear_experiment d s)) = data_of s1"
proof -
  have "keeps data_of (run_block ([linear_training] @ linear_test))"
    by (rule keeps_run_block) (simp add: keeps_data_training keeps_data_test)
  from keepsD [OF this, of s1] show ?thesis
    using assms by (simp add: linear_experiment_split run_block_append)
qed

text \<open>
  Claim C3. For every permutation the split draws, the generated data are pairs of the
  target map: each of the 100 columns of \<open>y_data\<close> is \<open>T\<close> applied to the same column of
  \<open>x_data\<close>, and so is each of the 75 training columns, each of the 25 test columns and
  each of the 25 columns of each of the three batches. The run completes and ends with
  the same data.
\<close>

theorem C3_labels_are_images_under_T:
  assumes "valid_draws d"
  shows "\<exists>s1 s'. run_block (before_training d) s = Done s1 \<and> linear_experiment d s = Done s'
     \<and> data_of s' = data_of s1
     \<and> ncols (x_data s1) = 100 \<and> ncols (y_data s1) = 100
     \<and> (\<forall>j<100. column (y_data s1) j = matvec (T_v s1) (column (x_data s1) j))
     \<and> (\<forall>j<75. column (y_train s1) j = matvec (T_v s1) (column (x_train s1) j))
     \<and> (\<forall>j<25. column (y_test s1) j = matvec (T_v s1) (column (x_test s1) j))
     \<and> (\<forall>b<3. \<forall>j<25. column (y_train_batches s1 ! b) j
            = matvec (T_v s1) (column (x_train_batches s1 ! b) j))"
proof -
  from before_training_run [OF assms, of s] obtain s1 where
    s1: "run_block (before_training d) s = Done s1"
    and sh: "x_data s1 = randn 30 100 (x_draws d)"
      "y_data s1 = mk 10 100 (\<lambda>i j. \<Sum>k\<leftarrow>[0..<30]. entry (T_v s1) i k * entry (x_data s1) k j)"
    by blast
  from linear_experiment_completes [OF assms, of s] obtain s' where
    s': "linear_experiment d s = Done s'"
    by blast
  have f: "data_of s' = data_of s1"
    using data_after_experiment [OF s1] s' by simp
  have c: "ncols (x_data s1) = 100" "ncols (y_data s1) = 100"
    by (simp add: sh(1), subst sh(2), simp)
  note p = data_pairs [OF assms s1]
  from s1 s' f c p show ?thesis
    by blast
qed

theorem C3_witness:
  "valid_draws demo_draws
   \<and> (\<exists>s1. run_block (before_training demo_draws) blank_globals = Done s1
         \<and> column (y_data s1) 0 = matvec (T_v s1) (column (x_data s1) 0)
         \<and> column (y_train s1) 74 = matvec (T_v s1) (column (x_train s1) 74)
         \<and> column (y_test s1) 24 = matvec (T_v s1) (column (x_test s1) 24)
         \<and> column (y_train_batches s1 ! 2) 24
              = matvec (T_v s1) (column (x_train_batches s1 ! 2) 24))"
proof -
  from C3_labels_are_images_under_T [OF valid_demo_draws, of blank_globals] obtain s1 where
    "run_block (before_training demo_draws) blank_globals = Done s1"
    "\<forall>j<100. column (y_data s1) j = matvec (T_v s1) (column (x_data s1) j)"
    "\<forall>j<75. column (y_train s1) j = matvec (T_v s1) (column (x_train s1) j)"
    "\<forall>j<25. column (y_test s1) j = matvec (T_v s1) (column (x_test s1) j)"
    "\<forall>b<3. \<forall>j<25. column (y_train_batches s1 ! b) j
            = matvec (T_v s1) (column (x_train_batches s1 ! b) j)"
    by blast
  with valid_demo_draws show ?thesis
    by simp
qed

section \<open>The feedback matrix\<close>

lemma bcast_cases:
  "bcast_ok a b \<and> bcast_ok (bdim a b) c \<longleftrightarrow> bcast_ok b c \<and> bcast_ok a (bdim b c)"
  by (auto simp: bcast_ok_def bdim_def)

lemma bdim_assoc: "bdim (bdim a b) c = bdim a (bdim b c)"
  by (auto simp: bdim_def)

lemma np_mul_assoc:
  "bnd (np_mul A B) (\<lambda>P. np_mul P C) = bnd (np_mul B C) (\<lambda>Q. np_mul A Q)"
proof (cases "(bcast_ok (nrows A) (nrows B) \<and> bcast_ok (bdim (nrows A) (nrows B)) (nrows C))
    \<and> (bcast_ok (ncols A) (ncols B) \<and> bcast_ok (bdim (ncols A) (ncols B)) (ncols C))")
  case True
  then have l: "bcast_ok (nrows A) (nrows B)" "bcast_ok (bdim (nrows A) (nrows B)) (nrows C)"
    "bcast_ok (ncols A) (ncols B)" "bcast_ok (bdim (ncols A) (ncols B)) (ncols C)"
    by simp_all
  from True have r: "bcast_ok (nrows B) (nrows C)" "bcast_ok (nrows A) (bdim (nrows B) (nrows C))"
    "bcast_ok (ncols B) (ncols C)" "bcast_ok (ncols A) (bdim (ncols B) (ncols C))"
    using bcast_cases [of "nrows A" "nrows B" "nrows C"] bcast_cases [of "ncols A" "ncols B" "ncols C"]
    by simp_all
  show ?thesis
    using l r
    apply (simp add: np_mul_def elementwise_def bdim_assoc)
    apply (rule mk_cong)
    apply (auto simp: bcast_ok_def bdim_def bidx_def split: if_splits)
    done
next
  case False
  then have "\<not> ((bcast_ok (nrows B) (nrows C) \<and> bcast_ok (nrows A) (bdim (nrows B) (nrows C)))
    \<and> (bcast_ok (ncols B) (ncols C) \<and> bcast_ok (ncols A) (bdim (ncols B) (ncols C))))"
    using bcast_cases [of "nrows A" "nrows B" "nrows C"] bcast_cases [of "ncols A" "ncols B" "ncols C"]
    by blast
  with False show ?thesis
    by (auto simp: np_mul_def elementwise_def)
qed

lemma nl_batch_body_run:
  assumes "view_784 (images item) = Inr X" "one_hot_T (labels item) = Inr L"
    "matmul (W0 s) (transpose_arr X) = Inr Z0" "matmul (W_v s) (sigma_arr Z0) = Inr Z"
    "np_sub L (sigma_arr Z) = Inr E"
    "matmul (transpose_arr (W_v s)) E = Inr BP" "matmul (B_v s) E = Inr FA"
    "np_sub (ones_like (sigma_arr Z)) (sigma_arr Z) = Inr Uy"
    "np_mul (sigma_arr Z) Uy = Inr Vy" "np_mul E Vy = Inr Qy"
    "matmul Qy (transpose_arr (sigma_arr Z0)) = Inr G" "acc_add (delta_W s) G = Inr DW"
    "np_sub (ones_like (sigma_arr Z0)) (sigma_arr Z0) = Inr Uh"
    "np_mul (sigma_arr Z0) Uh = Inr Vh" "np_mul FA Vh = Inr Qh"
    "matmul Qh X = Inr G0" "acc_add (delta_W0 s) G0 = Inr DW0"
  shows "run_block (nl_batch_body item) s =
     Done (s\<lparr>batch_images := images item, batch_labels := labels item, training_data := X,
              training_labels := L, h_v := sigma_arr Z0, y_v := sigma_arr Z, e_v := E,
              loss := loss s + half_sq_norm E, delta_BP := BP, delta_FA := FA,
              one_y := ones_like (sigma_arr Z), one_h := ones_like (sigma_arr Z0),
              delta_W := DW, delta_W0 := DW0, size_v := size_v s + nrows X\<rparr>)"
  using assms by (simp add: nl_batch_body_def store_def assign_def)

lemma nl_batch_body_inv:
  assumes "run_block (nl_batch_body item) s = Done s'"
  shows "\<exists>X L Z0 Z E BP FA Uy Vy Qy G DW Uh Vh Qh G0 DW0.
    view_784 (images item) = Inr X \<and> one_hot_T (labels item) = Inr L
    \<and> matmul (W0 s) (transpose_arr X) = Inr Z0 \<and> matmul (W_v s) (sigma_arr Z0) = Inr Z
    \<and> np_sub L (sigma_arr Z) = Inr E
    \<and> matmul (transpose_arr (W_v s)) E = Inr BP \<and> matmul (B_v s) E = Inr FA
    \<and> np_sub (ones_like (sigma_arr Z)) (sigma_arr Z) = Inr Uy
    \<and> np_mul (sigma_arr Z) Uy = Inr Vy \<and> np_mul E Vy = Inr Qy
    \<and> matmul Qy (transpose_arr (sigma_arr Z0)) = Inr G \<and> acc_add (delta_W s) G = Inr DW
    \<and> np_sub (ones_like (sigma_arr Z0)) (sigma_arr Z0) = Inr Uh
    \<and> np_mul (sigma_arr Z0) Uh = Inr Vh \<and> np_mul FA Vh = Inr Qh
    \<and> matmul Qh X = Inr G0 \<and> acc_add (delta_W0 s) G0 = Inr DW0
    \<and> s' = s\<lparr>batch_images := images item, batch_labels := labels item, training_data := X,
              training_labels := L, h_v := sigma_arr Z0, y_v := sigma_arr Z, e_v := E,
              loss := loss s + half_sq_norm E, delta_BP := BP, delta_FA := FA,
              one_y := ones_like (sigma_arr Z), one_h := ones_like (sigma_arr Z0),
              delta_W := DW, delta_W0 := DW0, size_v := size_v s + nrows X\<rparr>"
  using assms
  by (auto simp: nl_batch_body_def store_def assign_def bnd_def split: sum.splits)

lemma shape_sigma_arr [simp]: "nrows (sigma_arr A) = nrows A" "ncols (sigma_arr A) = ncols A"
  by (simp_all add: sigma_arr_def)

lemma shape_ones_like [simp]: "nrows (ones_like A) = nrows A" "ncols (ones_like A) = ncols A"
  by (simp_all add: ones_like_def)

lemma view_784_ok:
  assumes "batch_ok n item"
  shows "\<exists>X. view_784 (images item) = Inr X \<and> nrows X = n \<and> ncols X = 784"
  using assms by (simp add: batch_ok_def view_784_def)

lemma one_hot_T_ok:
  assumes "batch_ok n item"
  shows "\<exists>L. one_hot_T (labels item) = Inr L \<and> nrows L = 10 \<and> ncols L = n"
proof -
  from assms have "list_all (\<lambda>l. - 10 \<le> l \<and> l < 10) (labels item)"
    by (auto simp: batch_ok_def list_all_iff)
  with assms show ?thesis
    by (simp add: one_hot_T_def batch_ok_def)
qed

lemma nl_batch_body_ready:
  assumes r: "nl_ready s" and b: "batch_ok n item"
    and a: "acc_shape 10 1000 (delta_W s)" "acc_shape 1000 784 (delta_W0 s)"
  shows "\<exists>s'. run_block (nl_batch_body item) s = Done s' \<and> nl_ready s'
     \<and> acc_shape 10 1000 (delta_W s') \<and> acc_shape 1000 784 (delta_W0 s')
     \<and> size_v s' = size_v s + n \<and> has_shape 1000 n (h_v s') \<and> has_shape 10 n (y_v s')"
proof -
  from r have w: "nrows (W0 s) = 1000" "ncols (W0 s) = 784" "nrows (W_v s) = 10"
    "ncols (W_v s) = 1000" "nrows (B_v s) = 1000" "ncols (B_v s) = 10"
    by (simp_all add: nl_ready_def has_shape_def)
  from view_784_ok [OF b] obtain X where X: "view_784 (images item) = Inr X" "nrows X = n"
    "ncols X = 784"
    by blast
  from one_hot_T_ok [OF b] obtain L where L: "one_hot_T (labels item) = Inr L" "nrows L = 10"
    "ncols L = n"
    by blast
  obtain Z0 where Z0: "matmul (W0 s) (transpose_arr X) = Inr Z0" "nrows Z0 = 1000" "ncols Z0 = n"
    using w X by (simp add: matmul_ok)
  obtain Z where Z: "matmul (W_v s) (sigma_arr Z0) = Inr Z" "nrows Z = 10" "ncols Z = n"
    using w Z0 by (simp add: matmul_ok)
  obtain E where E: "np_sub L (sigma_arr Z) = Inr E" "nrows E = 10" "ncols E = n"
    using L Z by (simp add: np_sub_def elementwise_same)
  obtain BP where BP: "matmul (transpose_arr (W_v s)) E = Inr BP"
    using w E by (simp add: matmul_ok)
  obtain FA where FA: "matmul (B_v s) E = Inr FA" "nrows FA = 1000" "ncols FA = n"
    using w E by (simp add: matmul_ok)
  obtain Uy where Uy: "np_sub (ones_like (sigma_arr Z)) (sigma_arr Z) = Inr Uy" "nrows Uy = 10"
    "ncols Uy = n"
    using Z by (simp add: np_sub_def elementwise_same)
  obtain Vy where Vy: "np_mul (sigma_arr Z) Uy = Inr Vy" "nrows Vy = 10" "ncols Vy = n"
    using Z Uy by (simp add: np_mul_def elementwise_same)
  obtain Qy where Qy: "np_mul E Vy = Inr Qy" "nrows Qy = 10" "ncols Qy = n"
    using E Vy by (simp add: np_mul_def elementwise_same)
  obtain G where G: "matmul Qy (transpose_arr (sigma_arr Z0)) = Inr G" "nrows G = 10"
    "ncols G = 1000"
    using Qy Z0 by (simp add: matmul_ok)
  obtain DW where DW: "acc_add (delta_W s) G = Inr (Arr DW)" "has_shape 10 1000 DW"
    using acc_add_ok [of G "delta_W s"] a G by auto
  obtain Uh where Uh: "np_sub (ones_like (sigma_arr Z0)) (sigma_arr Z0) = Inr Uh"
    "nrows Uh = 1000" "ncols Uh = n"
    using Z0 by (simp add: np_sub_def elementwise_same)
  obtain Vh where Vh: "np_mul (sigma_arr Z0) Uh = Inr Vh" "nrows Vh = 1000" "ncols Vh = n"
    using Z0 Uh by (simp add: np_mul_def elementwise_same)
  obtain Qh where Qh: "np_mul FA Vh = Inr Qh" "nrows Qh = 1000" "ncols Qh = n"
    using FA Vh by (simp add: np_mul_def elementwise_same)
  obtain G0 where G0: "matmul Qh X = Inr G0" "nrows G0 = 1000" "ncols G0 = 784"
    using Qh X by (simp add: matmul_ok)
  obtain DW0 where DW0: "acc_add (delta_W0 s) G0 = Inr (Arr DW0)" "has_shape 1000 784 DW0"
    using acc_add_ok [of G0 "delta_W0 s"] a G0 by auto
  note run = nl_batch_body_run [OF X(1) L(1) Z0(1) Z(1) E(1) BP FA(1) Uy(1) Vy(1) Qy(1) G(1)
      DW(1) Uh(1) Vh(1) Qh(1) G0(1) DW0(1)]
  show ?thesis
    using r DW(2) DW0(2) X(2) Z0(2,3) Z(2,3)
    by (simp add: run nl_ready_def has_shape_def)
qed

lemma nl_init_run:
  "run_block (nl_hyperparameters @ nl_weights_init d) s =
     Done (s\<lparr>eta := 0.1, num_epochs := 1000, batch_size := 20, num_batches := 3000,
              W0 := random_uniform (- 0.1) 0.1 1000 784 (W0_draws d),
              b0 := random_uniform1 (- 0.1) 0.1 1000 (b0_draws d),
              W_v := random_uniform (- 0.1) 0.1 10 1000 (W_draws d),
              b_v := random_uniform1 (- 0.1) 0.1 10 (b_draws d),
              a_v := 0.5,
              B_v := random_uniform (- 0.5) 0.5 1000 10 (B_draws d)\<rparr>)"
  by (simp add: nl_hyperparameters_def nl_weights_init_def store_def assign_def py_truediv_def)

lemma nl_init_ready:
  "\<exists>s'. run_block (nl_hyperparameters @ nl_weights_init d) s = Done s' \<and> nl_ready s'
     \<and> num_epochs s' = 1000 \<and> eta s' = 0.1
     \<and> B_v s' = random_uniform (- 0.5) 0.5 1000 10 (B_draws d)"
  by (simp add: nl_init_run nl_ready_def has_shape_def)

lemma one_minus: "np_sub (ones_like A) A = Inr (map_arr (\<lambda>v. 1 - v) A)"
proof -
  have "mk (nrows A) (ncols A) (\<lambda>i j. entry (ones_like A) i j - entry A i j)
      = mk (nrows A) (ncols A) (\<lambda>i j. 1 - entry A i j)"
    by (rule mk_cong) (simp add: ones_like_def)
  then show ?thesis
    by (simp add: np_sub_def elementwise_same map_arr_def)
qed

lemma keeps_B_batch_body: "list_all (keeps B_v) (linear_batch_body k)"
  by (simp add: linear_batch_body_def keeps_assign keeps_store)

lemma keeps_B_training: "keeps B_v linear_training"
  by (simp add: linear_training_def linear_epoch_body_def linear_batch_loop_def report_def
      keeps_B_batch_body keeps_for_stmt keeps_run_block keeps_if_stmt keeps_assign keeps_store)

lemma keeps_B_after_weights: "list_all (keeps B_v) (after_weights_init d)"
  by (simp add: after_weights_init_def dataset_preparation_def hyperparameters_def
      creating_batches_def linear_test_def bind_split_def keeps_B_training keeps_assign
      keeps_store split: prod.splits)

lemma keeps_B_nl_batch_body: "list_all (keeps B_v) (nl_batch_body item)"
  by (simp add: nl_batch_body_def keeps_assign keeps_store)

lemma keeps_nl_batch_loop:
  assumes "\<And>item. list_all (keeps p) (nl_batch_body item)"
    and "\<And>v s. p (s\<lparr>train_passes := v\<rparr> :: globals) = p s"
  shows "keeps p nl_batch_loop"
proof (rule keepsI)
  fix s :: globals
  have "keeps p (for_items (trainloader s (train_passes s))
      (\<lambda>item. run_block (nl_batch_body item)))"
    by (rule keeps_for_items) (rule keeps_run_block [OF assms(1)])
  from keepsD [OF this, of "s\<lparr>train_passes := train_passes s + 1\<rparr>"]
  show "p (state_of (nl_batch_loop s)) = p s"
    by (simp add: nl_batch_loop_def assms(2))
qed

lemma keeps_B_nl_training: "keeps B_v nl_training"
  by (simp add: nl_training_def nl_epoch_body_def report_def keeps_nl_batch_loop
      keeps_B_nl_batch_body keeps_for_stmt keeps_run_block keeps_if_stmt keeps_assign
      keeps_store)

lemma keeps_B_nl_after_weights: "list_all (keeps B_v) (nl_after_weights_init env)"
  by (simp add: nl_after_weights_init_def nl_dataset_preparation_def keeps_B_nl_training
      keeps_assign)

lemma B_after_linear_experiment:
  "B_v (state_of (linear_experiment d s)) = random_uniform (- 0.5) 0.5 20 10 (B_draws d)"
proof -
  have "linear_experiment d s = run_block (after_weights_init d)
      (state_of (run_block (data_generation d @ weights_init d) s))"
    by (simp add: linear_experiment_def after_data_generation_def run_block_append
        data_generation_run weights_init_run)
  then show ?thesis
    using keepsD [OF keeps_run_block [OF keeps_B_after_weights], of d]
    by (simp add: run_block_append data_generation_run weights_init_run)
qed

lemma B_after_nonlinear_experiment:
  "B_v (state_of (nonlinear_experiment env d s)) = random_uniform (- 0.5) 0.5 1000 10 (B_draws d)"
proof -
  have "nonlinear_experiment env d s = run_block (nl_after_weights_init env)
      (state_of (run_block (nl_hyperparameters @ nl_weights_init d) s))"
    using run_block_append [of "nl_hyperparameters @ nl_weights_init d" "nl_after_weights_init env" s]
    by (simp add: nonlinear_experiment_def nl_init_run)
  then show ?thesis
    using keepsD [OF keeps_run_block [OF keeps_B_nl_after_weights], of env]
    by (simp add: nl_init_run)
qed

text \<open>What a completed batch of the non-linear loop has added to \<open>delta_W0\<close>.\<close>

lemma nl_batch_body_feedback:
  assumes "run_block (nl_batch_body item) t = Done t'"
  shows "B_v t' = B_v t" "ncols (B_v t) = nrows (e_v t')"
    "\<exists>Be V Q G. matmul (B_v t) (e_v t') = Inr Be
        \<and> np_mul (h_v t') (map_arr (\<lambda>v. 1 - v) (h_v t')) = Inr V
        \<and> np_mul Be V = Inr Q
        \<and> matmul Q (training_data t') = Inr G
        \<and> acc_add (delta_W0 t) G = Inr (delta_W0 t')"
    "\<exists>D. delta_W0 t' = Arr D
       \<and> (has_shape (nrows (B_v t)) (ncols (e_v t')) (h_v t')
           \<and> acc_shape (nrows (B_v t)) (ncols (training_data t')) (delta_W0 t) \<longrightarrow>
            ncols (e_v t') = nrows (training_data t')
            \<and> has_shape (nrows (B_v t)) (ncols (training_data t')) D
            \<and> (\<forall>i<nrows (B_v t). \<forall>j<ncols (training_data t').
                 entry D i j = acc_entry (delta_W0 t) i j
                   + (\<Sum>m\<leftarrow>[0..<ncols (e_v t')].
                        fed_back (B_v t) (e_v t') i m
                          * (entry (h_v t') i m * (1 - entry (h_v t') i m))
                          * entry (training_data t') m j)))"
proof -
  from nl_batch_body_inv [OF assms] obtain X L Z0 Z E BP FA Uy Vy Qy G DW Uh Vh Qh G0 DW0 where
    fa: "matmul (B_v t) E = Inr FA"
    and u: "np_sub (ones_like (sigma_arr Z0)) (sigma_arr Z0) = Inr Uh"
    and v: "np_mul (sigma_arr Z0) Uh = Inr Vh" "np_mul FA Vh = Inr Qh"
    and g: "matmul Qh X = Inr G0" "acc_add (delta_W0 t) G0 = Inr DW0"
    and t': "t' = t\<lparr>batch_images := images item, batch_labels := labels item,
              training_data := X, training_labels := L, h_v := sigma_arr Z0,
              y_v := sigma_arr Z, e_v := E, loss := loss t + half_sq_norm E, delta_BP := BP,
              delta_FA := FA, one_y := ones_like (sigma_arr Z),
              one_h := ones_like (sigma_arr Z0), delta_W := DW, delta_W0 := DW0,
              size_v := size_v t + nrows X\<rparr>"
    by blast
  define H where "H = sigma_arr Z0"
  have f: "B_v t' = B_v t" "e_v t' = E" "training_data t' = X" "h_v t' = H" "delta_W0 t' = DW0"
    by (simp_all add: t' H_def)
  have Uh: "Uh = map_arr (\<lambda>v. 1 - v) H"
    using u by (simp add: one_minus H_def)
  note v' = v [folded H_def, unfolded Uh]
  note mf = entry_matmul [OF fa]
  note mg = entry_matmul [OF g(1)]
  show "B_v t' = B_v t" by (rule f(1))
  show "ncols (B_v t) = nrows (e_v t')" using mf(1) by (simp add: f)
  show "\<exists>Be V Q G. matmul (B_v t) (e_v t') = Inr Be
        \<and> np_mul (h_v t') (map_arr (\<lambda>v. 1 - v) (h_v t')) = Inr V
        \<and> np_mul Be V = Inr Q
        \<and> matmul Q (training_data t') = Inr G
        \<and> acc_add (delta_W0 t) G = Inr (delta_W0 t')"
    unfolding f using fa v' g by blast
  from acc_add_Arr [OF g(2)] obtain D0 where D0: "DW0 = Arr D0" by blast
  show "\<exists>D. delta_W0 t' = Arr D
       \<and> (has_shape (nrows (B_v t)) (ncols (e_v t')) (h_v t')
           \<and> acc_shape (nrows (B_v t)) (ncols (training_data t')) (delta_W0 t) \<longrightarrow>
            ncols (e_v t') = nrows (training_data t')
            \<and> has_shape (nrows (B_v t)) (ncols (training_data t')) D
            \<and> (\<forall>i<nrows (B_v t). \<forall>j<ncols (training_data t').
                 entry D i j = acc_entry (delta_W0 t) i j
                   + (\<Sum>m\<leftarrow>[0..<ncols (e_v t')].
                        fed_back (B_v t) (e_v t') i m
                          * (entry (h_v t') i m * (1 - entry (h_v t') i m))
                          * entry (training_data t') m j)))"
    unfolding f
  proof (intro exI conjI impI; (elim conjE)?)
    show "DW0 = Arr D0" by (rule D0)
    assume hs: "has_shape (nrows (B_v t)) (ncols E) H"
      and a: "acc_shape (nrows (B_v t)) (ncols X) (delta_W0 t)"
    have h: "nrows H = nrows (B_v t)" "ncols H = ncols E"
      using hs by (simp_all add: has_shape_def)
    have Vh: "Vh = mk (nrows H) (ncols H) (\<lambda>i j. entry H i j * (1 - entry H i j))"
    proof -
      have "Vh = mk (nrows H) (ncols H) (\<lambda>i j. entry H i j * entry (map_arr (\<lambda>v. 1 - v) H) i j)"
        using v'(1) by (simp add: np_mul_def elementwise_same)
      also have "\<dots> = mk (nrows H) (ncols H) (\<lambda>i j. entry H i j * (1 - entry H i j))"
        by (rule mk_cong) (simp add: entry_map_arr)
      finally show ?thesis .
    qed
    have same: "nrows FA = nrows Vh" "ncols FA = ncols Vh"
      using mf(2,3) h by (simp_all add: Vh)
    have Qh: "Qh = mk (nrows FA) (ncols FA) (\<lambda>i j. entry FA i j * entry Vh i j)"
      using v'(2) elementwise_same [OF same, of "(*)"] by (simp add: np_mul_def)
    have q: "nrows Qh = nrows (B_v t)" "ncols Qh = ncols E"
      using mf(2,3) by (simp_all add: Qh)
    show c: "ncols E = nrows X"
      using mg(1) q by simp
    have sh: "nrows G0 = nrows (B_v t)" "ncols G0 = ncols X"
      using mg(2,3) q by simp_all
    have a': "acc_shape (nrows G0) (ncols G0) (delta_W0 t)"
      using a by (simp add: sh)
    note r = acc_add_entries [OF g(2) [unfolded D0] a']
    show "has_shape (nrows (B_v t)) (ncols X) D0"
      using r(1) by (simp add: sh)
    have e0: "entry G0 i j = (\<Sum>m\<leftarrow>[0..<ncols E].
          fed_back (B_v t) E i m * (entry H i m * (1 - entry H i m)) * entry X m j)"
      if ij: "i < nrows (B_v t)" "j < ncols X" for i j
    proof -
      have "entry G0 i j = (\<Sum>m\<leftarrow>[0..<ncols Qh]. entry Qh i m * entry X m j)"
        using mg(4) [of i j] ij q by simp
      also have "\<dots> = (\<Sum>m\<leftarrow>[0..<ncols E].
          fed_back (B_v t) E i m * (entry H i m * (1 - entry H i m)) * entry X m j)"
        unfolding q(2)
      proof (rule sum_upt_cong)
        fix m assume m: "m < ncols E"
        have "entry Qh i m = entry FA i m * entry Vh i m"
          using ij(1) m mf(2,3) by (simp add: Qh)
        also have "entry FA i m = fed_back (B_v t) E i m"
          using mf(4) [of i m] ij(1) m by (simp add: fed_back_def)
        also have "entry Vh i m = entry H i m * (1 - entry H i m)"
          using ij(1) m h by (simp add: Vh)
        finally show "entry Qh i m * entry X m j
            = fed_back (B_v t) E i m * (entry H i m * (1 - entry H i m)) * entry X m j"
          by simp
      qed
      finally show ?thesis .
    qed
    show "\<forall>i<nrows (B_v t). \<forall>j<ncols X.
        entry D0 i j = acc_entry (delta_W0 t) i j
          + (\<Sum>m\<leftarrow>[0..<ncols E].
               fed_back (B_v t) E i m * (entry H i m * (1 - entry H i m)) * entry X m j)"
      using r(2) e0 by (simp add: sh)
  qed
qed

lemma batch_ok_demo: "batch_ok 20 demo_batch"
  by (simp add: batch_ok_def demo_batch_def list_all_iff)

text \<open>
  Claim C1. The error reaches the hidden layer through \<open>B\<close>. A batch of the linear loop
  that completes has added \<open>(B @ e) @ x\<^sup>T\<close> to \<open>delta_W0\<close>, where \<open>e\<close> and \<open>x\<close> are the
  error and the inputs of the batch: entry \<open>(i, j)\<close> of the new \<open>delta_W0\<close> is the old
  one plus the sum over the samples \<open>m\<close> of \<open>(B @ e)[i, m] * x[j, m]\<close>. A batch of the
  non-linear loop has added \<open>((B @ e) * (h * (1 - h))) @ x\<close>, grouped as the code groups
  it: entry \<open>(i, j)\<close> of the new \<open>delta_W0\<close> is the old one plus the sum over the samples
  \<open>m\<close> of \<open>(B @ e)[i, m] * (h[i, m] * (1 - h[i, m])) * x[m, j]\<close>. The old accumulator
  is the number it started as or an array of the shape of the increment, and \<open>h\<close> has
  the shape of \<open>B @ e\<close>, as in every run. Neither body changes \<open>B\<close>, and \<open>B\<close> is not
  changed by anything that follows the weight initialisation of either experiment: at the
  end of every run, completed or raised, it is the array that was drawn.
\<close>

theorem C1_feedback_through_B:
  "(run_block (linear_batch_body k) s = Done s' \<longrightarrow>
      B_v s' = B_v s
      \<and> (\<exists>Be G. matmul (B_v s) (e_v s') = Inr Be
            \<and> matmul Be (transpose_arr (training_data s')) = Inr G
            \<and> acc_add (delta_W0 s) G = Inr (delta_W0 s'))
      \<and> ncols (B_v s) = nrows (e_v s') \<and> ncols (e_v s') = ncols (training_data s')
      \<and> (\<exists>D. delta_W0 s' = Arr D
            \<and> (acc_shape (nrows (B_v s)) (nrows (training_data s')) (delta_W0 s) \<longrightarrow>
                 has_shape (nrows (B_v s)) (nrows (training_data s')) D
                 \<and> (\<forall>i<nrows (B_v s). \<forall>j<nrows (training_data s').
                       entry D i j = acc_entry (delta_W0 s) i j
                         + (\<Sum>m\<leftarrow>[0..<ncols (e_v s')].
                              fed_back (B_v s) (e_v s') i m * entry (training_data s') j m)))))
   \<and> (run_block (nl_batch_body item) t = Done t' \<longrightarrow>
      B_v t' = B_v t
      \<and> (\<exists>Be V Q G. matmul (B_v t) (e_v t') = Inr Be
            \<and> np_mul (h_v t') (map_arr (\<lambda>v. 1 - v) (h_v t')) = Inr V
            \<and> np_mul Be V = Inr Q
            \<and> matmul Q (training_data t') = Inr G
            \<and> acc_add (delta_W0 t) G = Inr (delta_W0 t'))
      \<and> ncols (B_v t) = nrows (e_v t')
      \<and> (\<exists>D. delta_W0 t' = Arr D
            \<and> (has_shape (nrows (B_v t)) (ncols (e_v t')) (h_v t')
                \<and> acc_shape (nrows (B_v t)) (ncols (training_data t')) (delta_W0 t) \<longrightarrow>
                 ncols (e_v t') = nrows (training_data t')
                 \<and> has_shape (nrows (B_v t)) (ncols (training_data t')) D
                 \<and> (\<forall>i<nrows (B_v t). \<forall>j<ncols (training_data t').
                       entry D i j = acc_entry (delta_W0 t) i j
                         + (\<Sum>m\<leftarrow>[0..<ncols (e_v t')].
                              fed_back (B_v t) (e_v t') i m
                                * (entry (h_v t') i m * (1 - entry (h_v t') i m))
                                * entry (training_data t') m j)))))
   \<and> B_v (state_of (run_block (after_weights_init d) u)) = B_v u
   \<and> B_v (state_of (linear_training u)) = B_v u
   \<and> B_v (state_of (linear_experiment d u)) = random_uniform (- 0.5) 0.5 20 10 (B_draws d)
   \<and> B_v (state_of (run_block (nl_after_weights_init env) u)) = B_v u
   \<and> B_v (state_of (nl_training u)) = B_v u
   \<and> B_v (state_of (nonlinear_experiment env d u))
       = random_uniform (- 0.5) 0.5 1000 10 (B_draws d)"
proof -
  have lin: "B_v s' = B_v s
      \<and> (\<exists>Be G. matmul (B_v s) (e_v s') = Inr Be
            \<and> matmul Be (transpose_arr (training_data s')) = Inr G
            \<and> acc_add (delta_W0 s) G = Inr (delta_W0 s'))
      \<and> ncols (B_v s) = nrows (e_v s') \<and> ncols (e_v s') = ncols (training_data s')
      \<and> (\<exists>D. delta_W0 s' = Arr D
            \<and> (acc_shape (nrows (B_v s)) (nrows (training_data s')) (delta_W0 s) \<longrightarrow>
                 has_shape (nrows (B_v s)) (nrows (training_data s')) D
                 \<and> (\<forall>i<nrows (B_v s). \<forall>j<nrows (training_data s').
                       entry D i j = acc_entry (delta_W0 s) i j
                         + (\<Sum>m\<leftarrow>[0..<ncols (e_v s')].
                              fed_back (B_v s) (e_v s') i m * entry (training_data s') j m))))"
    if run: "run_block (linear_batch_body k) s = Done s'"
  proof -
    note st = batch_body_steps [OF run]
    have "\<exists>Be G. matmul (B_v s) (e_v s') = Inr Be
            \<and> matmul Be (transpose_arr (training_data s')) = Inr G
            \<and> acc_add (delta_W0 s) G = Inr (delta_W0 s')"
      using batch_body_inv [OF run] by auto
    with st(1-3) st(5) [unfolded w0_step_def st(1)] show ?thesis
      by (intro conjI)
  qed
  have nl: "B_v t' = B_v t
      \<and> (\<exists>Be V Q G. matmul (B_v t) (e_v t') = Inr Be
            \<and> np_mul (h_v t') (map_arr (\<lambda>v. 1 - v) (h_v t')) = Inr V
            \<and> np_mul Be V = Inr Q
            \<and> matmul Q (training_data t') = Inr G
            \<and> acc_add (delta_W0 t) G = Inr (delta_W0 t'))
      \<and> ncols (B_v t) = nrows (e_v t')
      \<and> (\<exists>D. delta_W0 t' = Arr D
            \<and> (has_shape (nrows (B_v t)) (ncols (e_v t')) (h_v t')
                \<and> acc_shape (nrows (B_v t)) (ncols (training_data t')) (delta_W0 t) \<longrightarrow>
                 ncols (e_v t') = nrows (training_data t')
                 \<and> has_shape (nrows (B_v t)) (ncols (training_data t')) D
                 \<and> (\<forall>i<nrows (B_v t). \<forall>j<ncols (training_data t').
                       entry D i j = acc_entry (delta_W0 t) i j
                         + (\<Sum>m\<leftarrow>[0..<ncols (e_v t')].
                              fed_back (B_v t) (e_v t') i m
                                * (entry (h_v t') i m * (1 - entry (h_v t') i m))
                                * entry (training_data t') m j))))"
    if run: "run_block (nl_batch_body item) t = Done t'"
    using nl_batch_body_feedback [OF run] by (intro conjI)
  show ?thesis
    using lin nl keepsD [OF keeps_run_block [OF keeps_B_after_weights], of d u]
      keepsD [OF keeps_B_training, of u] B_after_linear_experiment [of d u]
      keepsD [OF keeps_run_block [OF keeps_B_nl_after_weights], of env u]
      keepsD [OF keeps_B_nl_training, of u] B_after_nonlinear_experiment [of env d u]
    by blast
qed

theorem C1_witness:
  "\<exists>s s' t t' D E.
     run_block (before_training demo_draws) blank_globals = Done s
     \<and> run_block (linear_batch_body 0) (s\<lparr>delta_W0 := Num 0, delta_W := Num 0\<rparr>) = Done s'
     \<and> B_v s' = B_v s
     \<and> (\<exists>Be G. matmul (B_v s) (e_v s') = Inr Be
            \<and> matmul Be (transpose_arr (training_data s')) = Inr G
            \<and> acc_add (Num 0) G = Inr (delta_W0 s'))
     \<and> delta_W0 s' = Arr D \<and> has_shape 20 30 D
     \<and> entry D 0 0
         = 0 + (\<Sum>m\<leftarrow>[0..<ncols (e_v s')].
                  fed_back (B_v s) (e_v s') 0 m * entry (training_data s') 0 m)
     \<and> run_block (nl_hyperparameters @ nl_weights_init demo_draws) blank_globals = Done t
     \<and> run_block (nl_batch_body demo_batch) (t\<lparr>delta_W0 := Num 0, delta_W := Num 0\<rparr>) = Done t'
     \<and> B_v t' = B_v t
     \<and> (\<exists>Be V Q G. matmul (B_v t) (e_v t') = Inr Be
            \<and> np_mul (h_v t') (map_arr (\<lambda>v. 1 - v) (h_v t')) = Inr V
            \<and> np_mul Be V = Inr Q
            \<and> matmul Q (training_data t') = Inr G
            \<and> acc_add (Num 0) G = Inr (delta_W0 t'))
     \<and> delta_W0 t' = Arr E \<and> has_shape 1000 784 E
     \<and> entry E 0 0
         = 0 + (\<Sum>m\<leftarrow>[0..<ncols (e_v t')].
                  fed_back (B_v t) (e_v t') 0 m
                    * (entry (h_v t') 0 m * (1 - entry (h_v t') 0 m))
                    * entry (training_data t') m 0)"
proof -
  from before_training_ready [OF valid_demo_draws, of blank_globals] obtain s where
    s: "run_block (before_training demo_draws) blank_globals = Done s" "linear_ready s"
    by blast
  define s0 where "s0 = s\<lparr>delta_W0 := Num 0, delta_W := Num 0\<rparr>"
  have r0: "linear_ready s0" "acc_shape 10 20 (delta_W s0)" "acc_shape 20 30 (delta_W0 s0)"
    using s(2) by (simp_all add: linear_ready_def s0_def)
  from batch_body_ready [OF r0(1) _ r0(2,3), of 0] obtain s' where
    s': "run_block (linear_batch_body 0) s0 = Done s'"
    by auto
  note sh = batch_body_shapes [OF r0(1) _ s', of]
  have ls: "nrows (B_v s0) = 20" "nrows (training_data s') = 30"
    using r0(1) sh by (simp_all add: linear_ready_def has_shape_def)
  from nl_init_ready [of demo_draws blank_globals] obtain t where
    t: "run_block (nl_hyperparameters @ nl_weights_init demo_draws) blank_globals = Done t"
      "nl_ready t"
    by blast
  define t0 where "t0 = t\<lparr>delta_W0 := Num 0, delta_W := Num 0\<rparr>"
  have q0: "nl_ready t0" "acc_shape 10 1000 (delta_W t0)" "acc_shape 1000 784 (delta_W0 t0)"
    using t(2) by (simp_all add: nl_ready_def t0_def)
  from nl_batch_body_ready [OF q0(1) batch_ok_demo q0(2,3)] obtain t' where
    t': "run_block (nl_batch_body demo_batch) t0 = Done t'"
    and hs: "has_shape 1000 20 (h_v t')"
    by blast
  note inst = C1_feedback_through_B [of 0 s0 s' demo_batch t0 t']
  have f: "B_v s0 = B_v s" "delta_W0 s0 = Num 0" "B_v t0 = B_v t" "delta_W0 t0 = Num 0"
    by (simp_all add: s0_def t0_def)
  from inst s' have a: "B_v s' = B_v s
      \<and> (\<exists>Be G. matmul (B_v s) (e_v s') = Inr Be
            \<and> matmul Be (transpose_arr (training_data s')) = Inr G
            \<and> acc_add (Num 0) G = Inr (delta_W0 s'))"
    unfolding f by blast
  from inst s' obtain D where
    D: "delta_W0 s' = Arr D"
      "acc_shape (nrows (B_v s0)) (nrows (training_data s')) (delta_W0 s0) \<longrightarrow>
         has_shape (nrows (B_v s0)) (nrows (training_data s')) D
         \<and> (\<forall>i<nrows (B_v s0). \<forall>j<nrows (training_data s').
               entry D i j = acc_entry (delta_W0 s0) i j
                 + (\<Sum>m\<leftarrow>[0..<ncols (e_v s')].
                      fed_back (B_v s0) (e_v s') i m * entry (training_data s') j m))"
    by blast
  from D(2) have D': "has_shape 20 30 D"
    "entry D 0 0 = 0 + (\<Sum>m\<leftarrow>[0..<ncols (e_v s')].
                  fed_back (B_v s) (e_v s') 0 m * entry (training_data s') 0 m)"
    unfolding ls unfolding f by simp_all
  from inst t' have b: "B_v t' = B_v t
      \<and> (\<exists>Be V Q G. matmul (B_v t) (e_v t') = Inr Be
            \<and> np_mul (h_v t') (map_arr (\<lambda>v. 1 - v) (h_v t')) = Inr V
            \<and> np_mul Be V = Inr Q
            \<and> matmul Q (training_data t') = Inr G
            \<and> acc_add (Num 0) G = Inr (delta_W0 t'))"
    and ne: "ncols (B_v t0) = nrows (e_v t')"
    unfolding f by blast+
  from inst t' obtain E where
    E: "delta_W0 t' = Arr E"
      "has_shape (nrows (B_v t0)) (ncols (e_v t')) (h_v t')
         \<and> acc_shape (nrows (B_v t0)) (ncols (training_data t')) (delta_W0 t0) \<longrightarrow>
         ncols (e_v t') = nrows (training_data t')
         \<and> has_shape (nrows (B_v t0)) (ncols (training_data t')) E
         \<and> (\<forall>i<nrows (B_v t0). \<forall>j<ncols (training_data t').
               entry E i j = acc_entry (delta_W0 t0) i j
                 + (\<Sum>m\<leftarrow>[0..<ncols (e_v t')].
                      fed_back (B_v t0) (e_v t') i m
                        * (entry (h_v t') i m * (1 - entry (h_v t') i m))
                        * entry (training_data t') m j))"
    by blast
  from nl_batch_body_inv [OF t'] view_784_ok [OF batch_ok_demo] one_hot_T_ok [OF batch_ok_demo]
  obtain X L Z where
    xl: "training_data t' = X" "nrows X = 20" "ncols X = 784" "nrows L = 10" "ncols L = 20"
      "np_sub L (sigma_arr Z) = Inr (e_v t')" "y_v t' = sigma_arr Z"
    by auto
  from nl_batch_body_ready [OF q0(1) batch_ok_demo q0(2,3)] t' have ys: "has_shape 10 20 (y_v t')"
    by auto
  have es: "ncols (e_v t') = 20"
  proof -
    have "nrows L = nrows (sigma_arr Z)" "ncols L = ncols (sigma_arr Z)"
      using xl(4,5,7) ys by (simp_all add: has_shape_def)
    from elementwise_same [OF this, of "(-)"] xl(6)
    have "e_v t' = mk (nrows L) (ncols L) (\<lambda>i j. entry L i j - entry (sigma_arr Z) i j)"
      by (simp add: np_sub_def)
    then have "ncols (e_v t') = ncols L"
      by (simp only: ncols_mk)
    then show ?thesis
      using xl(5) by simp
  qed
  have ns: "nrows (B_v t0) = 1000"
    using q0(1) by (simp add: nl_ready_def has_shape_def)
  from E(2) hs have E': "has_shape 1000 784 E"
    "entry E 0 0 = 0 + (\<Sum>m\<leftarrow>[0..<ncols (e_v t')].
                  fed_back (B_v t) (e_v t') 0 m
                    * (entry (h_v t') 0 m * (1 - entry (h_v t') 0 m))
                    * entry (training_data t') m 0)"
    unfolding ns es xl(1) xl(3) unfolding f by simp_all
  note E'' = E' [folded xl(1)]
  from a have a1: "B_v s' = B_v s"
    and a2: "\<exists>Be G. matmul (B_v s) (e_v s') = Inr Be
            \<and> matmul Be (transpose_arr (training_data s')) = Inr G
            \<and> acc_add (Num 0) G = Inr (delta_W0 s')"
    by blast+
  from b have b1: "B_v t' = B_v t"
    and b2: "\<exists>Be V Q G. matmul (B_v t) (e_v t') = Inr Be
            \<and> np_mul (h_v t') (map_arr (\<lambda>v. 1 - v) (h_v t')) = Inr V
            \<and> np_mul Be V = Inr Q
            \<and> matmul Q (training_data t') = Inr G
            \<and> acc_add (Num 0) G = Inr (delta_W0 t')"
    by blast+
  have "run_block (before_training demo_draws) blank_globals = Done s
     \<and> run_block (linear_batch_body 0) (s\<lparr>delta_W0 := Num 0, delta_W := Num 0\<rparr>) = Done s'
     \<and> B_v s' = B_v s
     \<and> (\<exists>Be G. matmul (B_v s) (e_v s') = Inr Be
            \<and> matmul Be (transpose_arr (training_data s')) = Inr G
            \<and> acc_add (Num 0) G = Inr (delta_W0 s'))
     \<and> delta_W0 s' = Arr D \<and> has_shape 20 30 D
     \<and> entry D 0 0
         = 0 + (\<Sum>m\<leftarrow>[0..<ncols (e_v s')].
                  fed_back (B_v s) (e_v s') 0 m * entry (training_data s') 0 m)
     \<and> run_block (nl_hyperparameters @ nl_weights_init demo_draws) blank_globals = Done t
     \<and> run_block (nl_batch_body demo_batch) (t\<lparr>delta_W0 := Num 0, delta_W := Num 0\<rparr>) = Done t'
     \<and> B_v t' = B_v t
     \<and> (\<exists>Be V Q G. matmul (B_v t) (e_v t') = Inr Be
            \<and> np_mul (h_v t') (map_arr (\<lambda>v. 1 - v) (h_v t')) = Inr V
            \<and> np_mul Be V = Inr Q
            \<and> matmul Q (training_data t') = Inr G
            \<and> acc_add (Num 0) G = Inr (delta_W0 t'))
     \<and> delta_W0 t' = Arr E \<and> has_shape 1000 784 E
     \<and> entry E 0 0
         = 0 + (\<Sum>m\<leftarrow>[0..<ncols (e_v t')].
                  fed_back (B_v t) (e_v t') 0 m
                    * (entry (h_v t') 0 m * (1 - entry (h_v t') 0 m))
                    * entry (training_data t') m 0)"
    using s(1) s' [unfolded s0_def] a1 a2 D(1) D' t(1) t' [unfolded t0_def] b1 b2 E(1) E''
    by (intro conjI)
  then show ?thesis
    by (intro exI)
qed

section \<open>The sigmoid\<close>

subsection \<open>Rounding\<close>

































subsection \<open>The activations\<close>







section \<open>The bias vectors\<close>

lemma blindD: "blind stmt \<Longrightarrow> stmt (with_biases v w s) = lift_globals (with_biases v w) (stmt s)"
  by (simp add: blind_def)

lemma blind_assign:
  assumes "\<And>s v w. rhs (with_biases v w s) = rhs s"
    and "\<And>x s v w. upd x (with_biases v w s) = with_biases v w (upd x s)"
  shows "blind (assign upd rhs)"
  using assms by (simp add: blind_def assign_def split: sum.splits)

lemma blind_store:
  assumes "\<And>s v w. rhs (with_biases v w s) = rhs s"
    and "\<And>x s v w. upd x (with_biases v w s) = with_biases v w (upd x s)"
  shows "blind (store upd rhs)"
  using assms by (simp add: blind_def store_def)

lemma blind_run_block: "list_all blind stmts \<Longrightarrow> blind (run_block stmts)"
proof (induction stmts)
  case Nil
  show ?case by (simp add: blind_def)
next
  case (Cons stmt stmts)
  then have b: "blind stmt" and bs: "blind (run_block stmts)" by simp_all
  show ?case
    unfolding blind_def
  proof (intro allI)
    fix s v w
    show "run_block (stmt # stmts) (with_biases v w s)
        = lift_globals (with_biases v w) (run_block (stmt # stmts) s)"
      using blindD [OF b, of v w s] blindD [OF bs, of v w]
      by (cases "stmt s") simp_all
  qed
qed

lemma blind_for_each: "(\<And>x. blind (body x)) \<Longrightarrow> blind (for_each xs body)"
proof (induction xs)
  case Nil
  show ?case by (simp add: blind_def)
next
  case (Cons x xs)
  then have b: "blind (body x)" and bs: "blind (for_each xs body)" by simp_all
  show ?case
    unfolding blind_def
  proof (intro allI)
    fix s v w
    show "for_each (x # xs) body (with_biases v w s)
        = lift_globals (with_biases v w) (for_each (x # xs) body s)"
      using blindD [OF b, of v w s] blindD [OF bs, of v w]
      by (cases "body x s") simp_all
  qed
qed

lemma blind_for_items: "(\<And>x. blind (body x)) \<Longrightarrow> blind (for_items xs body)"
proof (induction xs)
  case Nil
  show ?case by (simp add: blind_def)
next
  case (Cons x xs)
  show ?case
  proof (cases x)
    case (Inl err)
    then show ?thesis by (simp add: blind_def)
  next
    case (Inr item)
    from Cons have b: "blind (body item)" and bs: "blind (for_items xs body)" by simp_all
    show ?thesis
      unfolding blind_def
    proof (intro allI)
      fix s v w
      show "for_items (x # xs) body (with_biases v w s)
          = lift_globals (with_biases v w) (for_items (x # xs) body s)"
        using blindD [OF b, of v w s] blindD [OF bs, of v w] Inr
        by (cases "body item s") simp_all
    qed
  qed
qed

lemma blind_for_stmt:
  assumes "\<And>x. blind (body x)" and "\<And>s v w. iter (with_biases v w s) = iter s"
  shows "blind (for_stmt iter body)"
  using blindD [OF blind_for_each [of body], OF assms(1)]
  by (simp add: blind_def for_stmt_def assms(2))

lemma blind_if_stmt:
  assumes "list_all blind stmts" and "\<And>s v w. c (with_biases v w s) = c s"
  shows "blind (if_stmt c stmts)"
  using blindD [OF blind_run_block [OF assms(1)]]
  by (simp add: blind_def if_stmt_def assms(2))

lemma blind_report: "list_all blind report"
  by (simp add: report_def blind_store with_biases_def)

lemma blind_linear_batch_body: "list_all blind (linear_batch_body k)"
  by (simp add: linear_batch_body_def blind_assign blind_store with_biases_def)

lemma blind_linear_batch_loop: "blind linear_batch_loop"
  unfolding linear_batch_loop_def
  by (rule blind_for_stmt) (simp_all add: blind_run_block blind_linear_batch_body with_biases_def)

lemma blind_linear_epoch_body: "list_all blind (linear_epoch_body n)"
  by (simp add: linear_epoch_body_def blind_assign blind_store blind_linear_batch_loop
      blind_if_stmt blind_report with_biases_def)

lemma blind_linear_training: "blind linear_training"
  unfolding linear_training_def
  by (rule blind_for_stmt) (simp_all add: blind_run_block blind_linear_epoch_body with_biases_def)

lemma blind_after_weights_init: "list_all blind (after_weights_init d)"
  by (simp add: after_weights_init_def dataset_preparation_def hyperparameters_def
      creating_batches_def linear_test_def bind_split_def blind_linear_training blind_assign
      blind_store with_biases_def split: prod.splits)

lemma blind_nl_batch_body: "list_all blind (nl_batch_body item)"
  by (simp add: nl_batch_body_def blind_assign blind_store with_biases_def)

lemma blind_nl_batch_loop: "blind nl_batch_loop"
  unfolding blind_def
proof (intro allI)
  fix s :: globals and v w
  have "blind (for_items (trainloader s (train_passes s))
      (\<lambda>item. run_block (nl_batch_body item)))"
    by (rule blind_for_items) (rule blind_run_block [OF blind_nl_batch_body])
  note b = blindD [OF this, of v w "s\<lparr>train_passes := train_passes s + 1\<rparr>"]
  have c: "(with_biases v w s)\<lparr>train_passes := train_passes s + 1\<rparr>
      = with_biases v w (s\<lparr>train_passes := train_passes s + 1\<rparr>)"
    by (simp add: with_biases_def)
  have r: "trainloader (with_biases v w s) = trainloader s"
    "train_passes (with_biases v w s) = train_passes s"
    by (simp_all add: with_biases_def)
  show "nl_batch_loop (with_biases v w s) = lift_globals (with_biases v w) (nl_batch_loop s)"
    unfolding nl_batch_loop_def r c by (rule b)
qed

lemma blind_nl_epoch_body: "list_all blind (nl_epoch_body n)"
  by (simp add: nl_epoch_body_def blind_assign blind_store blind_nl_batch_loop
      blind_if_stmt blind_report with_biases_def)

lemma blind_nl_training: "blind nl_training"
  unfolding nl_training_def
  by (rule blind_for_stmt) (simp_all add: blind_run_block blind_nl_epoch_body with_biases_def)

lemma blind_nl_after_weights_init: "list_all blind (nl_after_weights_init env)"
  by (simp add: nl_after_weights_init_def nl_dataset_preparation_def blind_nl_training
      blind_assign with_biases_def)

lemma linear_other_biases:
  "linear_experiment (d\<lparr>b0_draws := f, b_draws := g\<rparr>) s
   = lift_globals (with_biases (random_uniform1 (- 0.01) 0.01 20 f)
                              (random_uniform1 (- 0.01) 0.01 10 g))
       (linear_experiment d s)"
proof -
  define d' where "d' = d\<lparr>b0_draws := f, b_draws := g\<rparr>"
  define s1 where "s1 = state_of (run_block (data_generation d @ weights_init d) s)"
  have a: "after_weights_init d' = after_weights_init d"
    by (simp add: after_weights_init_def dataset_preparation_def d'_def)
  have i: "run_block (data_generation d @ weights_init d) s = Done s1"
    by (simp add: s1_def run_block_append data_generation_run weights_init_run)
  have i': "run_block (data_generation d' @ weights_init d') s
      = Done (with_biases (random_uniform1 (- 0.01) 0.01 20 f)
                          (random_uniform1 (- 0.01) 0.01 10 g) s1)"
    by (simp add: s1_def d'_def run_block_append data_generation_run weights_init_run
        with_biases_def)
  have e: "linear_experiment c s
      = (case run_block (data_generation c @ weights_init c) s of
           Done t \<Rightarrow> run_block (after_weights_init c) t
         | Raised err t \<Rightarrow> Raised err t)" for c
    using run_block_append [of "data_generation c @ weights_init c" "after_weights_init c" s]
    by (simp add: linear_experiment_def after_data_generation_def)
  show ?thesis
    unfolding d'_def [symmetric] e i i' a
    using blindD [OF blind_run_block [OF blind_after_weights_init], of d]
    by simp
qed

lemma nonlinear_other_biases:
  "nonlinear_experiment env (d\<lparr>b0_draws := f, b_draws := g\<rparr>) s
   = lift_globals (with_biases (random_uniform1 (- 0.1) 0.1 1000 f)
                              (random_uniform1 (- 0.1) 0.1 10 g))
       (nonlinear_experiment env d s)"
proof -
  define d' where "d' = d\<lparr>b0_draws := f, b_draws := g\<rparr>"
  define s1 where "s1 = state_of (run_block (nl_hyperparameters @ nl_weights_init d) s)"
  have i: "run_block (nl_hyperparameters @ nl_weights_init d) s = Done s1"
    by (simp add: s1_def nl_init_run)
  have i': "run_block (nl_hyperparameters @ nl_weights_init d') s
      = Done (with_biases (random_uniform1 (- 0.1) 0.1 1000 f)
                          (random_uniform1 (- 0.1) 0.1 10 g) s1)"
    by (simp add: s1_def d'_def nl_init_run with_biases_def)
  have e: "nonlinear_experiment env c s
      = (case run_block (nl_hyperparameters @ nl_weights_init c) s of
           Done t \<Rightarrow> run_block (nl_after_weights_init env) t
         | Raised err t \<Rightarrow> Raised err t)" for c
    using run_block_append [of "nl_hyperparameters @ nl_weights_init c" "nl_after_weights_init env" s]
    by (simp add: nonlinear_experiment_def)
  show ?thesis
    unfolding d'_def [symmetric] e i i'
    using blindD [OF blind_run_block [OF blind_nl_after_weights_init], of env]
    by simp
qed

text \<open>
  Claim C9. The bias vectors are never read. A run of either experiment with other draws
  for \<open>b0\<close> and \<open>b\<close> has the same outcome (it completes, or raises the same error at the
  same place) and the same globals except for \<open>b0\<close> and \<open>b\<close> themselves: activations,
  losses, weights, output and test error are equal. The same holds for every number of
  epochs of either training loop started with other bias vectors, so the weights at every
  epoch are equal too.
\<close>

theorem C9_biases_have_no_effect:
  "linear_experiment (d\<lparr>b0_draws := f, b_draws := g\<rparr>) s
     = lift_globals (with_biases (random_uniform1 (- 0.01) 0.01 20 f)
                                (random_uniform1 (- 0.01) 0.01 10 g))
         (linear_experiment d s)
   \<and> nonlinear_experiment env (d\<lparr>b0_draws := f, b_draws := g\<rparr>) s
     = lift_globals (with_biases (random_uniform1 (- 0.1) 0.1 1000 f)
                                (random_uniform1 (- 0.1) 0.1 10 g))
         (nonlinear_experiment env d s)
   \<and> for_each [0..<n] (\<lambda>m. run_block (linear_epoch_body m)) (with_biases v w s)
     = lift_globals (with_biases v w) (for_each [0..<n] (\<lambda>m. run_block (linear_epoch_body m)) s)
   \<and> for_each [0..<n] (\<lambda>m. run_block (nl_epoch_body m)) (with_biases v w s)
     = lift_globals (with_biases v w) (for_each [0..<n] (\<lambda>m. run_block (nl_epoch_body m)) s)
   \<and> run_block linear_test (with_biases v w s)
     = lift_globals (with_biases v w) (run_block linear_test s)"
proof -
  have a: "blind (for_each [0..<n] (\<lambda>m. run_block (linear_epoch_body m)))"
    by (rule blind_for_each) (rule blind_run_block [OF blind_linear_epoch_body])
  have b: "blind (for_each [0..<n] (\<lambda>m. run_block (nl_epoch_body m)))"
    by (rule blind_for_each) (rule blind_run_block [OF blind_nl_epoch_body])
  have c: "blind (run_block linear_test)"
    by (rule blind_run_block) (simp add: linear_test_def blind_assign blind_store with_biases_def)
  from linear_other_biases nonlinear_other_biases
    blindD [OF a, of v w s] blindD [OF b, of v w s] blindD [OF c, of v w s]
  show ?thesis
    by blast
qed

section \<open>Propagation of errors\<close>

lemma run_block_raises:
  assumes "run_block pre s = Done s1" "stmt s1 = Raised err s2"
  shows "run_block (pre @ stmt # post) s = Raised err s2"
  using assms by (simp add: run_block_append)

lemma for_each_raises:
  assumes "for_each pre body s = Done s1" "body x s1 = Raised err s2"
  shows "for_each (pre @ x # post) body s = Raised err s2"
  using assms by (simp add: for_each_append)

lemma for_items_append:
  "for_items (xs @ ys) body s =
     (case for_items xs body s of Done s' \<Rightarrow> for_items ys body s' | Raised err s' \<Rightarrow> Raised err s')"
  by (induction xs body s rule: for_items.induct) (simp_all split: outcome.splits)

lemma upt_split: "k < n \<Longrightarrow> [0..<n] = [0..<k] @ k # [Suc k..<n]"
proof -
  assume k: "k < n"
  then have "[0..<n] = [0..<k] @ [k..<n]"
    using upt_add_eq_append [of 0 k "n - k"] by simp
  also have "[k..<n] = k # [Suc k..<n]"
    using k by (rule upt_conv_Cons)
  finally show ?thesis .
qed

lemma get_loaders_error:
  "get_loaders env bsize fashion = Inl err \<longleftrightarrow>
     dataset_ctor env fashion True = Inl err
     \<or> (\<exists>trainset. dataset_ctor env fashion True = Inr trainset
          \<and> (loader_ctor env trainset bsize True 2 = Inl err
             \<or> (\<exists>trl. loader_ctor env trainset bsize True 2 = Inr trl
                  \<and> (dataset_ctor env fashion False = Inl err
                     \<or> (\<exists>testset. dataset_ctor env fashion False = Inr testset
                          \<and> loader_ctor env testset bsize False 2 = Inl err)))))"
  by (auto simp: get_loaders_def bnd_def split: sum.splits)

text \<open>
  Claim C8. Nothing catches an error. An error raised by a statement of a block, by an
  epoch of either training loop, by a batch of either mini-batch loop or by the loader in
  place of an item is the outcome of the whole block or loop, with the globals as they
  were when it was raised; later statements and iterations do not run.
  \<^verbatim>\<open>get_loaders\<close> raises exactly when one of its four library calls raises, with the
  error of the first that does, and the cell that calls it then raises it too.
\<close>

theorem C8_errors_propagate:
  "(run_block pre s = Done s1 \<and> stmt s1 = Raised err s2 \<longrightarrow>
      run_block (pre @ stmt # post) s = Raised err s2)
   \<and> (for_each [0..<k] (\<lambda>n. run_block (linear_epoch_body n)) s = Done s1 \<and> k < num_epochs s
        \<and> run_block (linear_epoch_body k) s1 = Raised err s2 \<longrightarrow>
      linear_training s = Raised err s2)
   \<and> (for_each [0..<k] (\<lambda>n. run_block (nl_epoch_body n)) s = Done s1 \<and> k < num_epochs s
        \<and> run_block (nl_epoch_body k) s1 = Raised err s2 \<longrightarrow>
      nl_training s = Raised err s2)
   \<and> (for_each [0..<k] (\<lambda>j. run_block (linear_batch_body j)) s = Done s1
        \<and> k < length (x_train_batches s)
        \<and> run_block (linear_batch_body k) s1 = Raised err s2 \<longrightarrow>
      linear_batch_loop s = Raised err s2)
   \<and> (trainloader s (train_passes s) = before @ Inl err # rest
        \<and> for_items before (\<lambda>item. run_block (nl_batch_body item))
              (s\<lparr>train_passes := train_passes s + 1\<rparr>) = Done s1 \<longrightarrow>
      nl_batch_loop s = Raised err s1)
   \<and> (trainloader s (train_passes s) = before @ Inr item # rest
        \<and> for_items before (\<lambda>item. run_block (nl_batch_body item))
              (s\<lparr>train_passes := train_passes s + 1\<rparr>) = Done s1
        \<and> run_block (nl_batch_body item) s1 = Raised err s2 \<longrightarrow>
      nl_batch_loop s = Raised err s2)
   \<and> (linear_batch_loop
          (s\<lparr>epoch := n, delta_W0 := Num 0, delta_W := Num 0, loss := 0\<rparr>) = Raised err s2 \<longrightarrow>
      run_block (linear_epoch_body n) s = Raised err s2)
   \<and> (nl_batch_loop
          (s\<lparr>epoch := n, delta_W0 := Num 0, delta_W := Num 0, loss := 0, size_v := 0\<rparr>)
          = Raised err s2 \<longrightarrow>
      run_block (nl_epoch_body n) s = Raised err s2)
   \<and> (get_loaders env bsize fashion = Inl err \<longleftrightarrow>
        dataset_ctor env fashion True = Inl err
        \<or> (\<exists>trainset. dataset_ctor env fashion True = Inr trainset
             \<and> (loader_ctor env trainset bsize True 2 = Inl err
                \<or> (\<exists>trl. loader_ctor env trainset bsize True 2 = Inr trl
                     \<and> (dataset_ctor env fashion False = Inl err
                        \<or> (\<exists>testset. dataset_ctor env fashion False = Inr testset
                             \<and> loader_ctor env testset bsize False 2 = Inl err))))))
   \<and> (get_loaders env (batch_size s) False = Inl err \<longrightarrow>
      run_block (nl_dataset_preparation env) s = Raised err s)"
proof -
  have a: "run_block (pre @ stmt # post) s = Raised err s2"
    if "run_block pre s = Done s1" "stmt s1 = Raised err s2"
    using that by (rule run_block_raises)
  have b: "linear_training s = Raised err s2"
    if "for_each [0..<k] (\<lambda>n. run_block (linear_epoch_body n)) s = Done s1" "k < num_epochs s"
      "run_block (linear_epoch_body k) s1 = Raised err s2"
    unfolding linear_training_def for_stmt_def upt_split [OF that(2)]
    using that(1,3) by (rule for_each_raises)
  have c: "nl_training s = Raised err s2"
    if "for_each [0..<k] (\<lambda>n. run_block (nl_epoch_body n)) s = Done s1" "k < num_epochs s"
      "run_block (nl_epoch_body k) s1 = Raised err s2"
    unfolding nl_training_def for_stmt_def upt_split [OF that(2)]
    using that(1,3) by (rule for_each_raises)
  have d: "linear_batch_loop s = Raised err s2"
    if "for_each [0..<k] (\<lambda>j. run_block (linear_batch_body j)) s = Done s1"
      "k < length (x_train_batches s)" "run_block (linear_batch_body k) s1 = Raised err s2"
    unfolding linear_batch_loop_def for_stmt_def upt_split [OF that(2)]
    using that(1,3) by (rule for_each_raises)
  have e: "nl_batch_loop s = Raised err s1"
    if "trainloader s (train_passes s) = before @ Inl err # rest"
      "for_items before (\<lambda>item. run_block (nl_batch_body item))
              (s\<lparr>train_passes := train_passes s + 1\<rparr>) = Done s1"
    using that by (simp add: nl_batch_loop_def for_items_append)
  have f: "nl_batch_loop s = Raised err s2"
    if "trainloader s (train_passes s) = before @ Inr item # rest"
      "for_items before (\<lambda>item. run_block (nl_batch_body item))
              (s\<lparr>train_passes := train_passes s + 1\<rparr>) = Done s1"
      "run_block (nl_batch_body item) s1 = Raised err s2"
    using that by (simp add: nl_batch_loop_def for_items_append)
  have g: "run_block (linear_epoch_body n) s = Raised err s2"
    if "linear_batch_loop
          (s\<lparr>epoch := n, delta_W0 := Num 0, delta_W := Num 0, loss := 0\<rparr>) = Raised err s2"
    using that by (simp add: linear_epoch_body_def store_def)
  have h: "run_block (nl_epoch_body n) s = Raised err s2"
    if "nl_batch_loop
          (s\<lparr>epoch := n, delta_W0 := Num 0, delta_W := Num 0, loss := 0, size_v := 0\<rparr>)
          = Raised err s2"
    using that by (simp add: nl_epoch_body_def store_def)
  have i: "run_block (nl_dataset_preparation env) s = Raised err s"
    if "get_loaders env (batch_size s) False = Inl err"
    using that by (simp add: nl_dataset_preparation_def)
  from a b c d e f g h i get_loaders_error [of env bsize fashion err] show ?thesis
    by blast
qed

theorem C8_witness:
  "get_loaders failing_env 20 False = Inl (LibraryError 1)
   \<and> run_block (nl_dataset_preparation failing_env) (blank_globals\<lparr>batch_size := 20\<rparr>)
       = Raised (LibraryError 1) (blank_globals\<lparr>batch_size := 20\<rparr>)
   \<and> linear_training (blank_globals\<lparr>num_epochs := 1000\<rparr>)
       = Raised ZeroDivisionError (blank_globals\<lparr>num_epochs := 1000\<rparr>)
   \<and> nl_batch_loop (blank_globals\<lparr>trainloader := crashing_loader\<rparr>)
       = Raised (LibraryError 2) (blank_globals\<lparr>trainloader := crashing_loader, train_passes := 1\<rparr>)
   \<and> nl_training (blank_globals\<lparr>num_epochs := 1000, trainloader := crashing_loader\<rparr>)
       = Raised (LibraryError 2)
           (blank_globals\<lparr>num_epochs := 1000, trainloader := crashing_loader, train_passes := 1\<rparr>)"
proof -
  have g: "get_loaders failing_env 20 False = Inl (LibraryError 1)"
    by (simp add: get_loaders_def failing_env_def)
  define sp where "sp = blank_globals\<lparr>batch_size := 20\<rparr>"
  have gp: "get_loaders failing_env (batch_size sp) False = Inl (LibraryError 1)"
    using g by (simp add: sp_def)
  have p: "run_block (nl_dataset_preparation failing_env) sp = Raised (LibraryError 1) sp"
    using C8_errors_propagate [of _ sp _ _ "LibraryError 1" _ _ _ _ _ _ _ failing_env] gp
    by blast
  define sl where "sl = blank_globals\<lparr>num_epochs := 1000\<rparr>"
  have l0: "for_each [0..<0] (\<lambda>n. run_block (linear_epoch_body n)) sl = Done sl"
    "0 < num_epochs sl"
    by (simp_all add: sl_def)
  have l1: "run_block (linear_epoch_body 0) sl = Raised ZeroDivisionError sl"
    by (simp add: linear_epoch_body_def linear_batch_loop_def for_stmt_def store_def
        assign_def py_truediv_def sl_def blank_globals_def)
  have l: "linear_training sl = Raised ZeroDivisionError sl"
    using C8_errors_propagate [of _ sl sl _ ZeroDivisionError sl _ 0] l0 l1
    by blast
  define sn where "sn = blank_globals\<lparr>trainloader := crashing_loader\<rparr>"
  have n0: "trainloader sn (train_passes sn) = [] @ Inl (LibraryError 2) # []"
    "for_items [] (\<lambda>item. run_block (nl_batch_body item))
       (sn\<lparr>train_passes := train_passes sn + 1\<rparr>)
     = Done (sn\<lparr>train_passes := train_passes sn + 1\<rparr>)"
    by (simp_all add: sn_def crashing_loader_def)
  have n1: "nl_batch_loop sn = Raised (LibraryError 2) (sn\<lparr>train_passes := train_passes sn + 1\<rparr>)"
    using C8_errors_propagate [of _ sn "sn\<lparr>train_passes := train_passes sn + 1\<rparr>" _
        "LibraryError 2" _ _ _ "[]" "[]"] n0
    by blast
  have n2: "sn\<lparr>train_passes := train_passes sn + 1\<rparr>
      = blank_globals\<lparr>trainloader := crashing_loader, train_passes := 1\<rparr>"
    by (simp add: sn_def blank_globals_def)
  define st where "st = blank_globals\<lparr>num_epochs := 1000, trainloader := crashing_loader\<rparr>"
  define sr where
    "sr = blank_globals\<lparr>num_epochs := 1000, trainloader := crashing_loader, train_passes := 1\<rparr>"
  have t0: "for_each [0..<0] (\<lambda>n. run_block (nl_epoch_body n)) st = Done st" "0 < num_epochs st"
    by (simp_all add: st_def)
  have t1: "run_block (nl_epoch_body 0) st = Raised (LibraryError 2) sr"
    by (simp add: nl_epoch_body_def nl_batch_loop_def store_def st_def sr_def
        crashing_loader_def blank_globals_def)
  have t: "nl_training st = Raised (LibraryError 2) sr"
    using C8_errors_propagate [of _ st st _ "LibraryError 2" sr _ 0] t0 t1
    by blast
  from g p l n1 [unfolded n2] t show ?thesis
    unfolding sp_def sl_def sn_def st_def sr_def by blast
qed

end
